theory Spec2Isabelle
  imports Main "HOL-Library.AList" "HOL-Library.Char_ord" "HOL-Library.List_Lexorder"
begin

section \<open>Fixture and result records\<close>

text \<open>
  The records the console works on are the JSON objects of the merged fetch. Only the
  fields the orchestration engine reads are kept. A field that may be missing is an
  option; \<open>scores\<close> is \<open>None\<close> when the value is not an array. The string
  fields are strings or missing, as the server sends them: a \<open>group_date\<close> of any
  other type is outside this model.
\<close>

record match_record =
  match_code :: string
  is_completed :: bool
  group_date :: "string option"
  scores :: "string list option"
  source_type :: "string option"
  prediction_type :: "string option"

section \<open>SportteryUtils: the grouping utility\<close>

text \<open>
  \<open>String.prototype.trim\<close> removes white space and line terminators from both ends.
  The characters below are the ones of that class that a \<open>char\<close> can hold: tab, line
  feed, vertical tab, form feed, carriage return, space and the no-break space.
\<close>

definition isWhiteSpace :: "char \<Rightarrow> bool" where
  "isWhiteSpace c = (c \<in> set [CHR 0x09, CHR 0x0A, CHR 0x0B, CHR 0x0C, CHR 0x0D, CHR 0x20, CHR 0xA0])"

definition trim :: "string \<Rightarrow> string" where
  "trim s = rev (dropWhile isWhiteSpace (rev (dropWhile isWhiteSpace s)))"

text \<open>\<open>s.slice(i, j)\<close> for \<open>0 \<le> i \<le> j\<close>: the characters from index \<open>i\<close> up to, not including, \<open>j\<close>.\<close>

definition slice :: "string \<Rightarrow> nat \<Rightarrow> nat \<Rightarrow> string" where
  "slice s i j = take (j - i) (drop i s)"

text \<open>
  \<open>extractDateKey\<close>: a null, undefined or empty \<open>group_date\<close> is falsy; a blank one
  trims to the empty string; any other value of length at least 10 gives the key made of
  its characters 5, 6 and 8, 9. Nothing checks that the value is a date, though the
  comment of the function says: a key in the format \<open>MM-DD\<close>, or null when there is no
  valid \<open>group_date\<close>.
\<close>

definition extractDateKey :: "match_record \<Rightarrow> string option" where
  "extractDateKey d =
     (case group_date d of
        None \<Rightarrow> None
      | Some groupDate \<Rightarrow>
          if groupDate \<noteq> [] \<and> trim groupDate \<noteq> [] then
            (if length groupDate \<ge> 10
             then Some (slice groupDate 5 7 @ ''-'' @ slice groupDate 8 10)
             else None)
          else None)"

definition extractMatchDateKey :: "match_record \<Rightarrow> string option" where
  "extractMatchDateKey m =
     (case group_date m of
        None \<Rightarrow> None
      | Some groupDate \<Rightarrow>
          if groupDate \<noteq> [] \<and> trim groupDate \<noteq> [] then
            (if length groupDate \<ge> 10
             then Some (slice groupDate 5 7 @ ''-'' @ slice groupDate 8 10)
             else None)
          else None)"

text \<open>
  The format the source gives for \<open>group_date\<close>, \<open>YYYY-MM-DD\<close>, possibly followed by
  more text. It is what the properties below call a date string; the code never tests it.
\<close>

definition isDigit :: "char \<Rightarrow> bool" where
  "isDigit c = (c \<in> set ''0123456789'')"

definition hasDateFormat :: "string \<Rightarrow> bool" where
  "hasDateFormat g =
     (length g \<ge> 10 \<and> list_all isDigit (slice g 0 4) \<and> slice g 4 5 = ''-'' \<and>
      list_all isDigit (slice g 5 7) \<and> slice g 7 8 = ''-'' \<and> list_all isDigit (slice g 8 10))"

text \<open>A record with the given code, completion flag and grouping date, and no prediction.\<close>

definition fixture :: "string \<Rightarrow> bool \<Rightarrow> string option \<Rightarrow> match_record" where
  "fixture code completed groupDate =
     \<lparr> match_code = code, is_completed = completed, group_date = groupDate,
       scores = None, source_type = None, prediction_type = None \<rparr>"

section \<open>SportteryState: the state store\<close>

text \<open>
  A date grouping is a JavaScript object used as a dictionary from date key to an array
  of records. It is modelled as an association list in insertion order, which is the
  order \<open>Object.keys\<close> lists such keys in (a date key contains a hyphen, so it is never
  an array index and never a property inherited from \<open>Object.prototype\<close>).
\<close>

type_synonym date_groups = "(string \<times> match_record list) list"

record sporttery_state =
  matches :: "match_record list"
  results :: "match_record list"
  dateGroups :: date_groups
  matchDateGroups :: date_groups
  currentView :: string
  loading :: bool
  selectedDate :: "string option"

text \<open>The argument of \<open>setState\<close>: a partial state; \<open>None\<close> is a property left undefined.\<close>

record state_updates =
  upd_matches :: "match_record list option"
  upd_results :: "match_record list option"
  upd_currentView :: "string option"
  upd_selectedDate :: "string option option"

definition initialState :: sporttery_state where
  "initialState = \<lparr> matches = [], results = [], dateGroups = [], matchDateGroups = [],
     currentView = ''matches'', loading = False, selectedDate = None \<rparr>"

text \<open>
  The body of the \<open>forEach\<close> of both grouping functions: a record with a truthy key is
  pushed onto the array of its key, which is created empty when the key is new; a record
  without one is skipped.
\<close>

definition pushToGroup :: "string \<Rightarrow> match_record \<Rightarrow> date_groups \<Rightarrow> date_groups" where
  "pushToGroup dateKey r groups =
     AList.update dateKey
       ((case map_of groups dateKey of None \<Rightarrow> [] | Some rs \<Rightarrow> rs) @ [r]) groups"

definition groupStep ::
  "(match_record \<Rightarrow> string option) \<Rightarrow> match_record \<Rightarrow> date_groups \<Rightarrow> date_groups" where
  "groupStep extract r groups =
     (case extract r of
        None \<Rightarrow> groups
      | Some dateKey \<Rightarrow> if dateKey \<noteq> [] then pushToGroup dateKey r groups else groups)"

definition groupByDate ::
  "(match_record \<Rightarrow> string option) \<Rightarrow> match_record list \<Rightarrow> date_groups" where
  "groupByDate extract rs = fold (groupStep extract) rs []"

definition updateResultsDateGroups :: "sporttery_state \<Rightarrow> sporttery_state" where
  "updateResultsDateGroups st =
     (if results st = [] then st\<lparr>dateGroups := []\<rparr>
      else st\<lparr>dateGroups := groupByDate extractDateKey (results st)\<rparr>)"

definition updateMatchDateGroups :: "sporttery_state \<Rightarrow> sporttery_state" where
  "updateMatchDateGroups st = st\<lparr>matchDateGroups := groupByDate extractMatchDateKey (matches st)\<rparr>"

text \<open>
  \<open>setState\<close>: the shallow merge, then the regrouping of each partition the update
  names. The listeners run last; they read the state and do not write to the store.
\<close>

definition mergeUpdates :: "state_updates \<Rightarrow> sporttery_state \<Rightarrow> sporttery_state" where
  "mergeUpdates u st =
     st\<lparr> matches := (case upd_matches u of None \<Rightarrow> matches st | Some ms \<Rightarrow> ms),
         results := (case upd_results u of None \<Rightarrow> results st | Some rs \<Rightarrow> rs),
         currentView := (case upd_currentView u of None \<Rightarrow> currentView st | Some v \<Rightarrow> v),
         selectedDate := (case upd_selectedDate u of None \<Rightarrow> selectedDate st | Some d \<Rightarrow> d) \<rparr>"

definition setState :: "state_updates \<Rightarrow> sporttery_state \<Rightarrow> sporttery_state" where
  "setState u st =
     (let st1 = mergeUpdates u st;
          st2 = (if upd_results u \<noteq> None then updateResultsDateGroups st1 else st1)
      in if upd_matches u \<noteq> None then updateMatchDateGroups st2 else st2)"

definition noUpdates :: state_updates where
  "noUpdates = \<lparr> upd_matches = None, upd_results = None, upd_currentView = None,
     upd_selectedDate = None \<rparr>"

section \<open>SportteryDataService: the data access client\<close>

text \<open>
  What a \<open>fetch\<close> gives back: the promise is rejected (a network failure, with the
  error's message), or it resolves to a response with a status code whose body
  \<open>response.json()\<close> parses (\<open>Some\<close>) or rejects (\<open>None\<close>). A parsed body is
  \<open>null\<close> or an object; the objects are typed by the fields the client reads.
\<close>

datatype 'a json_body = JsonNull | JsonObject 'a

datatype 'a http_reply = NetworkFailure string | HttpReply nat "'a json_body option"

definition ok :: "nat \<Rightarrow> bool" where
  "ok code = (200 \<le> code \<and> code \<le> 299)"

text \<open>
  Messages. The literals of the source are Chinese text; each is a constructor here,
  named after what it says. \<open>ServerMessage\<close> is text taken from a payload,
  \<open>ErrorMessage\<close> the message of the error a rejected \<open>fetch\<close> carries,
  \<open>JsonSyntaxError\<close> the message of the error of a body that does not parse, and
  \<open>NullAccessError\<close> the message of the \<open>TypeError\<close> of reading a property of
  \<open>null\<close> or \<open>undefined\<close>.
\<close>

datatype message =
    ServerMessage string
  | ErrorMessage string
  | JsonSyntaxError
  | NullAccessError
  | UnknownError
  | CollectScheduleFailed
  | FetchScheduleFailed
  | FetchMergedFailed
  | FetchDataFailed
  | FetchResultsFailed
  | TriggerScrapingFailed
  | FetchStatsFailed

text \<open>\<open>error.message || unknown\<close>: an empty message is falsy.\<close>

fun orUnknown :: "message \<Rightarrow> message" where
  "orUnknown (ErrorMessage m) = (if m = [] then UnknownError else ErrorMessage m)"
| "orUnknown (ServerMessage m) = (if m = [] then UnknownError else ServerMessage m)"
| "orUnknown m = m"

text \<open>
  The steps of a request that can throw, with the thrown error's message on the left:
  awaiting the \<open>fetch\<close>, awaiting \<open>response.json()\<close>, and reading a property of the
  parsed body.
\<close>

definition awaitFetch :: "'a http_reply \<Rightarrow> message + (nat \<times> 'a json_body option)" where
  "awaitFetch reply =
     (case reply of NetworkFailure m \<Rightarrow> Inl (ErrorMessage m)
      | HttpReply code body \<Rightarrow> Inr (code, body))"

definition awaitJson :: "'a json_body option \<Rightarrow> message + 'a json_body" where
  "awaitJson body = (case body of None \<Rightarrow> Inl JsonSyntaxError | Some b \<Rightarrow> Inr b)"

definition readObject :: "'a json_body \<Rightarrow> message + 'a" where
  "readObject b = (case b of JsonNull \<Rightarrow> Inl NullAccessError | JsonObject x \<Rightarrow> Inr x)"

definition thenE :: "'e + 'a \<Rightarrow> ('a \<Rightarrow> 'e + 'b) \<Rightarrow> 'e + 'b" where
  "thenE r f = (case r of Inl e \<Rightarrow> Inl e | Inr x \<Rightarrow> f x)"

text \<open>The payloads of the list endpoints and of the endpoints that answer with a status only.\<close>

record list_payload =
  p_status :: "string option"
  p_data :: "match_record list option"
  p_count :: "nat option"
  p_schedule_count :: "nat option"
  p_completed_count :: "nat option"
  p_message :: "string option"

record collect_payload =
  cp_data :: "(match_record list option \<times> nat option) option"

record simple_payload =
  sp_status :: "string option"
  sp_message :: "string option"

text \<open>The normalized result object of the list methods.\<close>

record result =
  status :: string
  data :: "match_record list"
  count :: nat
  schedule_count :: "nat option"
  completed_count :: "nat option"
  message :: "message option"

definition errorResult :: "message \<Rightarrow> result" where
  "errorResult e = \<lparr> status = ''error'', data = [], count = 0, schedule_count = None,
     completed_count = None, message = Some (orUnknown e) \<rparr>"

definition orEmpty :: "'a list option \<Rightarrow> 'a list" where
  "orEmpty xs = (case xs of None \<Rightarrow> [] | Some ys \<Rightarrow> ys)"

definition orZero :: "nat option \<Rightarrow> nat" where
  "orZero n = (case n of None \<Rightarrow> 0 | Some k \<Rightarrow> k)"

text \<open>\<open>result.message || literal\<close>.\<close>

definition messageOr :: "string option \<Rightarrow> message \<Rightarrow> message" where
  "messageOr m literal =
     (case m of None \<Rightarrow> literal | Some t \<Rightarrow> if t = [] then literal else ServerMessage t)"

text \<open>
  \<open>fetchMatches\<close> (deprecated). With \<open>forceRefresh\<close> the collect endpoint is called and
  its answer is returned as a success whatever its own status says; otherwise the cached
  schedule is read and the prediction type of every record is made consistent.
\<close>

definition normalizePredictionType :: "match_record \<Rightarrow> match_record" where
  "normalizePredictionType m =
     (if source_type m = Some ''deep'' then m\<lparr>prediction_type := Some ''deep''\<rparr>
      else if prediction_type m = None \<or> prediction_type m = Some [] then m\<lparr>prediction_type := Some ''waiting''\<rparr>
      else m)"

definition fetchMatches_try ::
  "bool \<Rightarrow> collect_payload http_reply \<Rightarrow> list_payload http_reply \<Rightarrow> message + result" where
  "fetchMatches_try forceRefresh collectReply scheduleReply =
     (if forceRefresh then
        thenE (awaitFetch collectReply) (\<lambda>(code, body).
          if \<not> ok code then Inl CollectScheduleFailed
          else thenE (awaitJson body) (\<lambda>parsed.
            thenE (readObject parsed) (\<lambda>res.
              Inr \<lparr> status = ''success'',
                    data = (case cp_data res of None \<Rightarrow> [] | Some (ms, _) \<Rightarrow> orEmpty ms),
                    count = (case cp_data res of None \<Rightarrow> 0 | Some (_, c) \<Rightarrow> orZero c),
                    schedule_count = None, completed_count = None, message = None \<rparr>)))
      else
        thenE (awaitFetch scheduleReply) (\<lambda>(code, body).
          if \<not> ok code then Inl FetchScheduleFailed
          else thenE (awaitJson body) (\<lambda>parsed.
            thenE (readObject parsed) (\<lambda>res.
              if p_status res = Some ''success'' \<and> orEmpty (p_data res) \<noteq> [] then
                Inr \<lparr> status = ''success'',
                      data = map normalizePredictionType (orEmpty (p_data res)),
                      count = orZero (p_count res),
                      schedule_count = None, completed_count = None, message = None \<rparr>
              else
                Inr \<lparr> status = ''success'', data = [], count = 0,
                      schedule_count = None, completed_count = None, message = None \<rparr>))))"

definition fetchMatches ::
  "bool \<Rightarrow> collect_payload http_reply \<Rightarrow> list_payload http_reply \<Rightarrow> result" where
  "fetchMatches forceRefresh collectReply scheduleReply =
     (case fetchMatches_try forceRefresh collectReply scheduleReply of
        Inl error \<Rightarrow> errorResult error
      | Inr r \<Rightarrow> r)"

text \<open>
  \<open>fetchAllMatches\<close>. With \<open>forceRefresh\<close> the collect request is awaited first; only its
  rejection matters, its status code and body are not read.
\<close>

definition fetchAllMatches_try ::
  "bool \<Rightarrow> simple_payload http_reply \<Rightarrow> list_payload http_reply \<Rightarrow> message + result" where
  "fetchAllMatches_try forceRefresh collectReply allReply =
     thenE (if forceRefresh then thenE (awaitFetch collectReply) (\<lambda>_. Inr ()) else Inr ()) (\<lambda>_.
       thenE (awaitFetch allReply) (\<lambda>(code, body).
         if \<not> ok code then Inl FetchMergedFailed
         else thenE (awaitJson body) (\<lambda>parsed.
           thenE (readObject parsed) (\<lambda>res.
             if p_status res = Some ''success'' then
               Inr \<lparr> status = ''success'', data = orEmpty (p_data res),
                     count = orZero (p_count res),
                     schedule_count = Some (orZero (p_schedule_count res)),
                     completed_count = Some (orZero (p_completed_count res)),
                     message = None \<rparr>
             else Inl (messageOr (p_message res) FetchDataFailed)))))"

definition fetchAllMatches ::
  "bool \<Rightarrow> simple_payload http_reply \<Rightarrow> list_payload http_reply \<Rightarrow> result" where
  "fetchAllMatches forceRefresh collectReply allReply =
     (case fetchAllMatches_try forceRefresh collectReply allReply of
        Inl error \<Rightarrow> errorResult error
      | Inr r \<Rightarrow> r)"

definition fetchResults_try :: "list_payload http_reply \<Rightarrow> message + result" where
  "fetchResults_try reply =
     thenE (awaitFetch reply) (\<lambda>(code, body).
       if \<not> ok code then Inl FetchResultsFailed
       else thenE (awaitJson body) (\<lambda>parsed.
         thenE (readObject parsed) (\<lambda>res.
           if p_status res = Some ''success'' then
             Inr \<lparr> status = ''success'', data = orEmpty (p_data res),
                   count = orZero (p_count res),
                   schedule_count = None, completed_count = None, message = None \<rparr>
           else
             Inr \<lparr> status = ''error'', data = [], count = 0,
                   schedule_count = None, completed_count = None,
                   message = Some (messageOr (p_message res) UnknownError) \<rparr>)))"

definition fetchResults :: "list_payload http_reply \<Rightarrow> result" where
  "fetchResults reply =
     (case fetchResults_try reply of Inl error \<Rightarrow> errorResult error | Inr r \<Rightarrow> r)"

text \<open>
  \<open>triggerResultScraping\<close> and \<open>fetchStats\<close> return the parsed body itself, whatever
  it is; only a rejected fetch, a status code outside 200..299 and a body that does not
  parse become an error object. What they return is therefore a parsed body: \<open>null\<close>,
  or an object with the status and the message it carries.
\<close>

record simple_result =
  sr_status :: "string option"
  sr_message :: "message option"

definition simpleError :: "message \<Rightarrow> simple_result json_body" where
  "simpleError e = JsonObject \<lparr> sr_status = Some ''error'', sr_message = Some (orUnknown e) \<rparr>"

definition passThrough :: "simple_payload json_body \<Rightarrow> simple_result json_body" where
  "passThrough b =
     (case b of JsonNull \<Rightarrow> JsonNull
      | JsonObject p \<Rightarrow>
          JsonObject \<lparr> sr_status = sp_status p, sr_message = map_option ServerMessage (sp_message p) \<rparr>)"

definition triggerResultScraping_try ::
  "simple_payload http_reply \<Rightarrow> message + simple_result json_body" where
  "triggerResultScraping_try reply =
     thenE (awaitFetch reply) (\<lambda>(code, body).
       if \<not> ok code then Inl TriggerScrapingFailed
       else thenE (awaitJson body) (\<lambda>parsed. Inr (passThrough parsed)))"

definition triggerResultScraping :: "simple_payload http_reply \<Rightarrow> simple_result json_body" where
  "triggerResultScraping reply =
     (case triggerResultScraping_try reply of
        Inl error \<Rightarrow> simpleError error
      | Inr r \<Rightarrow> r)"

definition fetchStats_try :: "simple_payload http_reply \<Rightarrow> message + simple_result json_body" where
  "fetchStats_try reply =
     thenE (awaitFetch reply) (\<lambda>(code, body).
       if \<not> ok code then Inl FetchStatsFailed
       else thenE (awaitJson body) (\<lambda>parsed. Inr (passThrough parsed)))"

definition fetchStats :: "simple_payload http_reply \<Rightarrow> simple_result json_body" where
  "fetchStats reply =
     (case fetchStats_try reply of Inl error \<Rightarrow> simpleError error | Inr r \<Rightarrow> r)"

text \<open>\<open>mergeArticleStatus\<close> returns the array it is given.\<close>

definition mergeArticleStatus :: "match_record list \<Rightarrow> match_record list" where
  "mergeArticleStatus ms = ms"

section \<open>SportteryManager: the task orchestrator\<close>

subsection \<open>State\<close>

text \<open>
  The job kinds are the strings \<open>'quick'\<close> and \<open>'deep'\<close>; nothing else is ever stored
  in \<open>_processingStates\<close>.
\<close>

datatype kind = Quick | Deep

type_synonym timer_id = nat

text \<open>
  The closure \<open>loop\<close> that \<open>_scheduleProcessingRefresh\<close> creates: the variables it
  captures and its counter \<open>attempts\<close>. A closure is held by one pending timer or by
  one running tick at a time, so the counter travels with it.
\<close>

record loop_closure =
  lc_matchCode :: string
  lc_type :: kind
  lc_attemptsLimit :: nat
  lc_interval :: nat
  lc_attempts :: nat

text \<open>
  The callbacks handed to \<open>setTimeout\<close>: a tick of a self-healing loop, the reset of
  the refresh latch, the delayed refresh of a deep launch, and the next poll of a batch
  job (with the task id the poll closure holds).
\<close>

datatype timer_task =
    LoopTick loop_closure
  | ResetRefreshing
  | DelayedRefresh
  | QuickPoll string
  | DeepPoll string

datatype request =
    GetAllMatches
  | GetPredictionStatus string
  | PostQuickPredict string
  | PostDeepAnalysis string
  | GetTaskStatus string
  | PostInterruptAll

text \<open>The step of a batch job, as \<open>_describeTaskStep\<close> labels it.\<close>

datatype step_label = SelectStep | CollectStep | GenerateStep | QuickPredictStep | OtherStep string

type_synonym step_desc = "(step_label \<times> string option) option"

text \<open>
  The text of the status line. Each constructor is one of the messages of the source,
  with the values it interpolates: a progress readout carries \<open>(completed, total)\<close>
  when the total is not zero, and the description of the step when there is one.
\<close>

datatype status_text =
    StatusIdle
  | StatusFetching
  | StatusLoaded nat "nat option" "nat option"
  | StatusNoData
  | StatusFetchFailed
  | StatusQuickInProgress "(nat \<times> nat) option" step_desc
  | StatusQuickCompleted nat "nat option"
  | StatusQuickFailed
  | StatusQuickInterrupted
  | StatusQuickOther "string option"
  | StatusQuickNotFound
  | StatusDeepInProgress "(nat \<times> nat) option" step_desc
  | StatusDeepCompleted nat "nat option" nat
  | StatusDeepFailed
  | StatusDeepInterrupted
  | StatusDeepOther "string option"
  | StatusDeepNotFound
  | StatusAllInterrupted "string option"

text \<open>
  A trigger button: whether it is disabled, and what it shows (the label it had before
  the batch was started, the busy label, or the default label of its kind).
\<close>

datatype button_label = OriginalLabel | BusyLabel | DefaultLabel

record button =
  disabled :: bool
  label :: button_label

text \<open>
  The manager, with the part of the browser it acts on: the pending timeouts (handle,
  delay in milliseconds, callback), the next handle \<open>setTimeout\<close> gives out (handles
  are positive and never reused), the requests sent so far, the status line, the two
  trigger buttons and the interrupt button (the elements are taken to be in the
  document). Toasts, alerts, the loading indicator and the table itself are not modelled.
\<close>

record manager =
  state :: sporttery_state
  refreshingMatches :: bool
  quickPredictionTimers :: "(string \<times> timer_id) list"
  processingStates :: "(string \<times> kind) list"
  sortedDatesCache :: "string list"
  currentTaskId :: "string option"
  quickPredictionButtonState :: "button_label option"
  deepAnalysisButtonState :: "button_label option"
  quickPredictionPollingActive :: bool
  deepAnalysisPollingActive :: bool
  quickPredictionPollingTimer :: "timer_id option"
  deepAnalysisPollingTimer :: "timer_id option"
  timers :: "(timer_id \<times> nat \<times> timer_task) list"
  nextTimerId :: timer_id
  requests :: "request list"
  statusLine :: status_text
  quickButton :: button
  deepButton :: button
  interruptButtonVisible :: bool

definition newManager :: manager where
  "newManager = \<lparr> state = initialState, refreshingMatches = False,
     quickPredictionTimers = [], processingStates = [], sortedDatesCache = [],
     currentTaskId = None, quickPredictionButtonState = None, deepAnalysisButtonState = None,
     quickPredictionPollingActive = False, deepAnalysisPollingActive = False,
     quickPredictionPollingTimer = None, deepAnalysisPollingTimer = None,
     timers = [], nextTimerId = 1, requests = [], statusLine = StatusIdle,
     quickButton = \<lparr> disabled = False, label = OriginalLabel \<rparr>,
     deepButton = \<lparr> disabled = False, label = OriginalLabel \<rparr>,
     interruptButtonVisible = False \<rparr>"

subsection \<open>The browser: timeouts and requests\<close>

definition setTimeout :: "timer_task \<Rightarrow> nat \<Rightarrow> manager \<Rightarrow> timer_id \<times> manager" where
  "setTimeout task delay s =
     (nextTimerId s,
      s\<lparr> timers := AList.update (nextTimerId s) (delay, task) (timers s),
         nextTimerId := Suc (nextTimerId s) \<rparr>)"

definition clearTimeout :: "timer_id \<Rightarrow> manager \<Rightarrow> manager" where
  "clearTimeout timerId s = s\<lparr> timers := AList.delete timerId (timers s) \<rparr>"

text \<open>A timeout that comes due leaves the pending list and hands over its callback.\<close>

definition fireTimer :: "timer_id \<Rightarrow> manager \<Rightarrow> (timer_task \<times> manager) option" where
  "fireTimer timerId s =
     (case map_of (timers s) timerId of
        None \<Rightarrow> None
      | Some (delay, task) \<Rightarrow> Some (task, s\<lparr> timers := AList.delete timerId (timers s) \<rparr>))"

definition send :: "request \<Rightarrow> manager \<Rightarrow> manager" where
  "send r s = s\<lparr> requests := requests s @ [r] \<rparr>"

definition updateStatus :: "status_text \<Rightarrow> manager \<Rightarrow> manager" where
  "updateStatus text s = s\<lparr> statusLine := text \<rparr>"

definition showInterruptButton :: "bool \<Rightarrow> manager \<Rightarrow> manager" where
  "showInterruptButton show s = s\<lparr> interruptButtonVisible := show \<rparr>"

subsection \<open>Per-entity processing state\<close>

text \<open>
  \<open>_processingStates\<close> and \<open>_quickPredictionTimers\<close> are plain objects used as
  dictionaries, from match code to job kind and to timer handle. They are modelled as
  association lists of their own properties. For a key that names a member of
  \<open>Object.prototype\<close> the object answers differently: a read with no own property
  gives the inherited member, and an assignment to \<open>__proto__\<close> stores nothing.
  \<open>inheritedName\<close> lists these keys; the model is the code for every other match code
  (the codes of the feed are a weekday and a number).
\<close>

definition inheritedName :: "string \<Rightarrow> bool" where
  "inheritedName code =
     (code \<in> set [''constructor'', ''__proto__'', ''hasOwnProperty'', ''isPrototypeOf'',
        ''propertyIsEnumerable'', ''toLocaleString'', ''toString'', ''valueOf'',
        ''__defineGetter__'', ''__defineSetter__'', ''__lookupGetter__'', ''__lookupSetter__''])"

definition getMatchData :: "manager \<Rightarrow> string \<Rightarrow> match_record option" where
  "getMatchData s matchCode =
     find (\<lambda>m. match_code m = matchCode) (matches (state s) @ results (state s))"

definition getMatchProcessingType :: "manager \<Rightarrow> string \<Rightarrow> kind option" where
  "getMatchProcessingType s matchCode = map_of (processingStates s) matchCode"

definition clearQuickPredictionTimer :: "string \<Rightarrow> manager \<Rightarrow> manager" where
  "clearQuickPredictionTimer matchCode s =
     (case map_of (quickPredictionTimers s) matchCode of
        None \<Rightarrow> s
      | Some timerId \<Rightarrow>
          (clearTimeout timerId s)
            \<lparr> quickPredictionTimers := AList.delete matchCode (quickPredictionTimers s) \<rparr>)"

definition setMatchProcessing :: "string \<Rightarrow> kind option \<Rightarrow> manager \<Rightarrow> manager" where
  "setMatchProcessing matchCode type s =
     (case type of
        None \<Rightarrow>
          clearQuickPredictionTimer matchCode
            (s\<lparr> processingStates := AList.delete matchCode (processingStates s) \<rparr>)
      | Some t \<Rightarrow> s\<lparr> processingStates := AList.update matchCode t (processingStates s) \<rparr>)"

text \<open>The confirmation predicate.\<close>

definition hasProcessingResult :: "manager \<Rightarrow> string \<Rightarrow> kind \<Rightarrow> bool" where
  "hasProcessingResult s matchCode type =
     (case getMatchData s matchCode of
        None \<Rightarrow> False
      | Some m \<Rightarrow>
          (case type of
             Quick \<Rightarrow> (case scores m of None \<Rightarrow> False | Some xs \<Rightarrow> xs \<noteq> [])
           | Deep \<Rightarrow> source_type m = Some ''deep'' \<or> prediction_type m = Some ''deep''))"

subsection \<open>Loading the merged data\<close>

text \<open>
  An \<open>async\<close> function runs without interruption from one network round trip to the
  next. Each one is therefore modelled by the pieces between its round trips: a piece
  that sends a request, and a piece that takes the reply and goes on. A function named
  like the source function composes its pieces for a run in which nothing else happens
  in between.
\<close>

text \<open>
  \<open>renderMergedTable\<close> leaves in \<open>_sortedDatesCache\<close> the date keys of the data it was
  given, latest first; with no data it leaves the cache as it is.
\<close>

definition renderMergedTable :: "match_record list \<Rightarrow> manager \<Rightarrow> manager" where
  "renderMergedTable allMatches s =
     (if allMatches = [] then s
      else s\<lparr> sortedDatesCache := rev (sort (map fst (groupByDate extractMatchDateKey allMatches))) \<rparr>)"

text \<open>
  The sweep of \<open>loadMergedData\<close>: every code that is processing and whose result is in
  the data just stored is cleared.
\<close>

definition sweepStep :: "string \<Rightarrow> manager \<Rightarrow> manager" where
  "sweepStep code s =
     (case map_of (processingStates s) code of
        None \<Rightarrow> s
      | Some type \<Rightarrow>
          if hasProcessingResult s code type then setMatchProcessing code None s else s)"

definition sweepProcessingStates :: "manager \<Rightarrow> manager" where
  "sweepProcessingStates s = fold sweepStep (map fst (processingStates s)) s"

definition showDateContent :: "string \<Rightarrow> manager \<Rightarrow> manager" where
  "showDateContent date s =
     s\<lparr> state := setState (noUpdates\<lparr> upd_selectedDate := Some (Some date) \<rparr>) (state s) \<rparr>"

text \<open>
  The date to show after a load: the date selected before the load when it still has a
  group, else the latest fixture date, else the first date of the cache, else the latest
  result date.
\<close>

definition resolveTargetDate :: "string option \<Rightarrow> manager \<Rightarrow> string option" where
  "resolveTargetDate previousSelectedDate s =
     (let matchDates = rev (sort (map fst (matchDateGroups (state s))));
          resultDates = rev (sort (map fst (dateGroups (state s))));
          kept = (case previousSelectedDate of
                    None \<Rightarrow> None
                  | Some d \<Rightarrow> if d \<noteq> [] \<and> d \<in> set (matchDates @ resultDates) then Some d else None)
      in case kept of
           Some d \<Rightarrow> Some d
         | None \<Rightarrow>
             (case matchDates of
                d # _ \<Rightarrow> Some d
              | [] \<Rightarrow>
                  (case sortedDatesCache s of
                     d # _ \<Rightarrow> Some d
                   | [] \<Rightarrow> (case resultDates of d # _ \<Rightarrow> Some d | [] \<Rightarrow> None))))"

text \<open>
  \<open>loadMergedData\<close> up to its request, and from the result of \<open>fetchAllMatches\<close> on.
  The date is shown again only when it changed or its content is not rendered; the
  selected date of the store is the target date in either case.
\<close>

definition loadMergedData_begin :: "manager \<Rightarrow> manager" where
  "loadMergedData_begin s = send GetAllMatches (updateStatus StatusFetching s)"

definition loadMergedData_onResult :: "string option \<Rightarrow> result \<Rightarrow> manager \<Rightarrow> manager" where
  "loadMergedData_onResult previousSelectedDate res s =
     (if status res = ''success'' then
        (let allData = mergeArticleStatus (data res);
             s1 = s\<lparr> state := setState
                    (noUpdates\<lparr> upd_matches := Some (filter (\<lambda>m. \<not> is_completed m) allData),
                               upd_results := Some (filter (\<lambda>m. is_completed m) allData),
                               upd_currentView := Some ''matches'' \<rparr>) (state s) \<rparr>;
             s2 = renderMergedTable allData s1;
             s3 = sweepProcessingStates s2;
             s4 = (case resolveTargetDate previousSelectedDate s3 of
                     None \<Rightarrow> s3
                   | Some d \<Rightarrow> if d \<noteq> [] then showDateContent d s3 else s3)
         in if count res > 0
            then updateStatus (StatusLoaded (count res) (schedule_count res) (completed_count res)) s4
            else updateStatus StatusNoData s4)
      else updateStatus StatusFetchFailed s)"

text \<open>
  \<open>refreshMatchesData\<close>: nothing happens while the latch is set; otherwise the latch is
  set, the data is loaded, and a timeout of 500 ms is left behind that resets the latch.
  The first piece says whether a load was started.
\<close>

definition refreshMatchesData_begin :: "manager \<Rightarrow> manager \<times> bool" where
  "refreshMatchesData_begin s =
     (if refreshingMatches s then (s, False)
      else (loadMergedData_begin (s\<lparr> refreshingMatches := True \<rparr>), True))"

definition refreshMatchesData_onReply ::
  "string option \<Rightarrow> list_payload http_reply \<Rightarrow> manager \<Rightarrow> manager" where
  "refreshMatchesData_onReply previousSelectedDate reply s =
     snd (setTimeout ResetRefreshing 500
       (loadMergedData_onResult previousSelectedDate
          (fetchAllMatches False (NetworkFailure []) reply) s))"

definition resetRefreshing :: "manager \<Rightarrow> manager" where
  "resetRefreshing s = s\<lparr> refreshingMatches := False \<rparr>"

subsection \<open>The self-healing refresh loop\<close>

definition scheduleProcessingRefresh ::
  "string \<Rightarrow> kind \<Rightarrow> nat option \<Rightarrow> nat option \<Rightarrow> manager \<Rightarrow> manager" where
  "scheduleProcessingRefresh matchCode type maxAttempts intervalMs s =
     (let attemptsLimit = (case maxAttempts of Some n \<Rightarrow> n | None \<Rightarrow> if type = Deep then 18 else 5);
          interval = (case intervalMs of Some n \<Rightarrow> n | None \<Rightarrow> if type = Deep then 10000 else 5000);
          loop = \<lparr> lc_matchCode = matchCode, lc_type = type, lc_attemptsLimit = attemptsLimit,
                   lc_interval = interval, lc_attempts = 0 \<rparr>;
          s1 = clearQuickPredictionTimer matchCode s;
          (timerId, s2) = setTimeout (LoopTick loop) interval s1
      in s2\<lparr> quickPredictionTimers := AList.update matchCode timerId (quickPredictionTimers s2) \<rparr>)"

text \<open>
  One tick of \<open>loop\<close>: the counter goes up and the refresh is started (\<open>loop_begin\<close>);
  after the refresh the predicate and the counter decide (\<open>loop_afterRefresh\<close>). When
  the latch is set the refresh returns at once and the tick goes on without a round trip.
\<close>

definition loop_afterRefresh :: "loop_closure \<Rightarrow> manager \<Rightarrow> manager" where
  "loop_afterRefresh loop s =
     (if hasProcessingResult s (lc_matchCode loop) (lc_type loop)
      then setMatchProcessing (lc_matchCode loop) None s
      else if lc_attempts loop \<ge> lc_attemptsLimit loop
      then setMatchProcessing (lc_matchCode loop) None s
      else (let (timerId, s1) = setTimeout (LoopTick loop) (lc_interval loop) s
            in s1\<lparr> quickPredictionTimers :=
                      AList.update (lc_matchCode loop) timerId (quickPredictionTimers s1) \<rparr>))"

definition loop_begin :: "loop_closure \<Rightarrow> manager \<Rightarrow> loop_closure \<times> manager \<times> bool" where
  "loop_begin loop s =
     (let loop1 = loop\<lparr> lc_attempts := lc_attempts loop + 1 \<rparr>;
          (s1, started) = refreshMatchesData_begin s
      in if started then (loop1, s1, True) else (loop1, loop_afterRefresh loop1 s1, False))"

definition loop_onReply ::
  "loop_closure \<Rightarrow> string option \<Rightarrow> list_payload http_reply \<Rightarrow> manager \<Rightarrow> manager" where
  "loop_onReply loop previousSelectedDate reply s =
     loop_afterRefresh loop (refreshMatchesData_onReply previousSelectedDate reply s)"

definition loop_tick :: "loop_closure \<Rightarrow> list_payload http_reply \<Rightarrow> manager \<Rightarrow> manager" where
  "loop_tick loop reply s =
     (let (loop1, s1, started) = loop_begin loop s
      in if started then loop_onReply loop1 (selectedDate (state s)) reply s1 else s1)"

subsection \<open>Single-match launches\<close>

text \<open>
  The answer of the prediction-status endpoint. \<open>quick_queue\<close> and \<open>deep_queue\<close> are
  the \<open>(current, max)\<close> counters of \<open>queue_status\<close>; \<open>None\<close> when the object is not
  there, in which case reading a counter throws.
\<close>

record prediction_status =
  is_within_window :: bool
  has_deep_analysis :: bool
  can_quick_predict :: bool
  can_deep_analysis :: bool
  quick_queue :: "(nat \<times> nat) option"
  deep_queue :: "(nat \<times> nat) option"

record status_payload =
  ps_status :: "string option"
  ps_message :: "string option"
  ps_data :: "prediction_status option"

definition readData :: "status_payload \<Rightarrow> message + prediction_status" where
  "readData p = (case ps_data p of None \<Rightarrow> Inl NullAccessError | Some d \<Rightarrow> Inr d)"

text \<open>
  \<open>quickPredictSingleMatch\<close>, in four pieces: the status request; the gate and the
  job-start request; the reply to the job-start request and the refresh; the check after
  the refresh. A piece that ends in a request says so with \<open>True\<close>. The \<open>catch\<close> of
  the function clears the timer and the processing state of the code wherever the
  error was thrown.
\<close>

definition quickPredict_begin :: "string \<Rightarrow> manager \<Rightarrow> manager" where
  "quickPredict_begin matchCode s = send (GetPredictionStatus matchCode) s"

definition quickPredict_catch :: "string \<Rightarrow> manager \<Rightarrow> manager" where
  "quickPredict_catch matchCode s =
     setMatchProcessing matchCode None (clearQuickPredictionTimer matchCode s)"

definition quickPredict_onStatus_try ::
  "string \<Rightarrow> status_payload http_reply \<Rightarrow> manager \<Rightarrow> message + (manager \<times> bool)" where
  "quickPredict_onStatus_try matchCode reply s =
     thenE (awaitFetch reply) (\<lambda>(code, body).
       thenE (awaitJson body) (\<lambda>parsed.
         thenE (readObject parsed) (\<lambda>statusData.
           if ps_status statusData \<noteq> Some ''success'' then Inr (s, False)
           else thenE (readData statusData) (\<lambda>d.
             if \<not> is_within_window d then Inr (s, False)
             else if has_deep_analysis d then Inr (s, False)
             else if \<not> can_quick_predict d then
               (case quick_queue d of None \<Rightarrow> Inl NullAccessError | Some _ \<Rightarrow> Inr (s, False))
             else Inr (send (PostQuickPredict matchCode)
                         (setMatchProcessing matchCode (Some Quick) s), True)))))"

definition quickPredict_onStatus ::
  "string \<Rightarrow> status_payload http_reply \<Rightarrow> manager \<Rightarrow> manager \<times> bool" where
  "quickPredict_onStatus matchCode reply s =
     (case quickPredict_onStatus_try matchCode reply s of
        Inl error \<Rightarrow> (quickPredict_catch matchCode s, False)
      | Inr r \<Rightarrow> r)"

definition quickPredict_afterRefresh :: "string \<Rightarrow> manager \<Rightarrow> manager" where
  "quickPredict_afterRefresh matchCode s =
     (if \<not> hasProcessingResult s matchCode Quick
      then scheduleProcessingRefresh matchCode Quick None None s
      else setMatchProcessing matchCode None s)"

definition quickPredict_onLaunch_try ::
  "string \<Rightarrow> simple_payload http_reply \<Rightarrow> manager \<Rightarrow> message + (manager \<times> bool)" where
  "quickPredict_onLaunch_try matchCode reply s =
     thenE (awaitFetch reply) (\<lambda>(code, body).
       thenE (awaitJson body) (\<lambda>parsed.
         thenE (readObject parsed) (\<lambda>d.
           if sp_status d = Some ''success'' then
             (let (s1, started) = refreshMatchesData_begin s
              in if started then Inr (s1, True)
                 else Inr (quickPredict_afterRefresh matchCode s1, False))
           else Inr (setMatchProcessing matchCode None
                       (clearQuickPredictionTimer matchCode s), False))))"

definition quickPredict_onLaunch ::
  "string \<Rightarrow> simple_payload http_reply \<Rightarrow> manager \<Rightarrow> manager \<times> bool" where
  "quickPredict_onLaunch matchCode reply s =
     (case quickPredict_onLaunch_try matchCode reply s of
        Inl error \<Rightarrow> (quickPredict_catch matchCode s, False)
      | Inr r \<Rightarrow> r)"

definition quickPredict_onRefresh ::
  "string \<Rightarrow> string option \<Rightarrow> list_payload http_reply \<Rightarrow> manager \<Rightarrow> manager" where
  "quickPredict_onRefresh matchCode previousSelectedDate reply s =
     quickPredict_afterRefresh matchCode (refreshMatchesData_onReply previousSelectedDate reply s)"

definition quickPredictSingleMatch ::
  "string \<Rightarrow> status_payload http_reply \<Rightarrow> simple_payload http_reply \<Rightarrow>
   list_payload http_reply \<Rightarrow> manager \<Rightarrow> manager" where
  "quickPredictSingleMatch matchCode statusReply launchReply refreshReply s =
     (let (s1, launched) = quickPredict_onStatus matchCode statusReply (quickPredict_begin matchCode s)
      in if \<not> launched then s1
         else (let (s2, refreshing) = quickPredict_onLaunch matchCode launchReply s1
               in if \<not> refreshing then s2
                  else quickPredict_onRefresh matchCode (selectedDate (state s1)) refreshReply s2))"

text \<open>
  \<open>deepAnalysisSingleMatch\<close>: the same gate with the deep counters. A successful start
  leaves a timeout of 5 s for one refresh and enters the loop with 24 attempts, 10 s
  apart; nothing is refreshed or checked at once.
\<close>

definition deepAnalysis_begin :: "string \<Rightarrow> manager \<Rightarrow> manager" where
  "deepAnalysis_begin matchCode s = send (GetPredictionStatus matchCode) s"

definition deepAnalysis_onStatus_try ::
  "string \<Rightarrow> status_payload http_reply \<Rightarrow> manager \<Rightarrow> message + (manager \<times> bool)" where
  "deepAnalysis_onStatus_try matchCode reply s =
     thenE (awaitFetch reply) (\<lambda>(code, body).
       thenE (awaitJson body) (\<lambda>parsed.
         thenE (readObject parsed) (\<lambda>statusData.
           if ps_status statusData \<noteq> Some ''success'' then Inr (s, False)
           else thenE (readData statusData) (\<lambda>d.
             if \<not> is_within_window d then Inr (s, False)
             else if has_deep_analysis d then Inr (s, False)
             else if \<not> can_deep_analysis d then
               (case deep_queue d of None \<Rightarrow> Inl NullAccessError | Some _ \<Rightarrow> Inr (s, False))
             else Inr (send (PostDeepAnalysis matchCode)
                         (setMatchProcessing matchCode (Some Deep) s), True)))))"

definition deepAnalysis_onStatus ::
  "string \<Rightarrow> status_payload http_reply \<Rightarrow> manager \<Rightarrow> manager \<times> bool" where
  "deepAnalysis_onStatus matchCode reply s =
     (case deepAnalysis_onStatus_try matchCode reply s of
        Inl error \<Rightarrow> (setMatchProcessing matchCode None s, False)
      | Inr r \<Rightarrow> r)"

definition deepAnalysis_onLaunch_try ::
  "string \<Rightarrow> simple_payload http_reply \<Rightarrow> manager \<Rightarrow> message + manager" where
  "deepAnalysis_onLaunch_try matchCode reply s =
     thenE (awaitFetch reply) (\<lambda>(code, body).
       thenE (awaitJson body) (\<lambda>parsed.
         thenE (readObject parsed) (\<lambda>d.
           if sp_status d = Some ''success'' then
             Inr (scheduleProcessingRefresh matchCode Deep (Some 24) (Some 10000)
                    (snd (setTimeout DelayedRefresh 5000 s)))
           else Inr (setMatchProcessing matchCode None s))))"

definition deepAnalysis_onLaunch ::
  "string \<Rightarrow> simple_payload http_reply \<Rightarrow> manager \<Rightarrow> manager" where
  "deepAnalysis_onLaunch matchCode reply s =
     (case deepAnalysis_onLaunch_try matchCode reply s of
        Inl error \<Rightarrow> setMatchProcessing matchCode None s
      | Inr s1 \<Rightarrow> s1)"

definition deepAnalysisSingleMatch ::
  "string \<Rightarrow> status_payload http_reply \<Rightarrow> simple_payload http_reply \<Rightarrow> manager \<Rightarrow> manager" where
  "deepAnalysisSingleMatch matchCode statusReply launchReply s =
     (let (s1, launched) = deepAnalysis_onStatus matchCode statusReply (deepAnalysis_begin matchCode s)
      in if \<not> launched then s1 else deepAnalysis_onLaunch matchCode launchReply s1)"

subsection \<open>Batch jobs: polling\<close>

text \<open>The answer of the task-status endpoint: the envelope and the job record in it.\<close>

record task_info =
  t_status :: "string option"
  t_total_matches :: "nat option"
  t_match_count :: "nat option"
  t_completed_matches :: "nat option"
  t_success_count :: "nat option"
  t_failed_count :: "nat option"
  t_results :: "string option list option"
  t_current_step :: "string option"
  t_current_match :: "string option"
  t_error :: "string option"

record task_payload =
  tp_status :: "string option"
  tp_message :: "string option"
  tp_data :: "task_info option"

text \<open>\<open>a ?? b\<close>.\<close>

definition orElse :: "'a option \<Rightarrow> 'a option \<Rightarrow> 'a option" where
  "orElse a b = (case a of None \<Rightarrow> b | Some x \<Rightarrow> Some x)"

definition describeTaskStep :: "string option \<Rightarrow> string option \<Rightarrow> step_desc" where
  "describeTaskStep step currentMatch =
     (case step of
        None \<Rightarrow> None
      | Some st \<Rightarrow>
          if st = [] then None
          else (let matchLabel = (case currentMatch of None \<Rightarrow> None
                                  | Some m \<Rightarrow> if m = [] then None else Some m)
                in Some (if st = ''select'' then SelectStep
                         else if st = ''collect'' then CollectStep
                         else if st = ''generate'' then GenerateStep
                         else if st = ''quick_predict'' then QuickPredictStep
                         else OtherStep st, matchLabel)))"

definition progressText :: "nat \<Rightarrow> nat \<Rightarrow> (nat \<times> nat) option" where
  "progressText completed totalCount = (if totalCount \<noteq> 0 then Some (completed, totalCount) else None)"

definition restoreQuickPredictionButton :: "manager \<Rightarrow> manager" where
  "restoreQuickPredictionButton s =
     s\<lparr> quickButton := \<lparr> disabled = False,
                           label = (case quickPredictionButtonState s of
                                      None \<Rightarrow> DefaultLabel | Some l \<Rightarrow> l) \<rparr>,
        quickPredictionButtonState := None \<rparr>"

definition restoreDeepAnalysisButton :: "manager \<Rightarrow> manager" where
  "restoreDeepAnalysisButton s =
     s\<lparr> deepButton := \<lparr> disabled = False,
                          label = (case deepAnalysisButtonState s of
                                     None \<Rightarrow> DefaultLabel | Some l \<Rightarrow> l) \<rparr>,
        deepAnalysisButtonState := None \<rparr>"

definition stopQuickPredictionPolling :: "manager \<Rightarrow> manager" where
  "stopQuickPredictionPolling s =
     (let s1 = s\<lparr> quickPredictionPollingActive := False \<rparr>
      in case quickPredictionPollingTimer s1 of
           None \<Rightarrow> s1
         | Some timerId \<Rightarrow> (clearTimeout timerId s1)\<lparr> quickPredictionPollingTimer := None \<rparr>)"

definition stopDeepAnalysisPolling :: "manager \<Rightarrow> manager" where
  "stopDeepAnalysisPolling s =
     (let s1 = s\<lparr> deepAnalysisPollingActive := False \<rparr>
      in case deepAnalysisPollingTimer s1 of
           None \<Rightarrow> s1
         | Some timerId \<Rightarrow> (clearTimeout timerId s1)\<lparr> deepAnalysisPollingTimer := None \<rparr>)"

definition handleQuickPredictionNotFound :: "manager \<Rightarrow> manager" where
  "handleQuickPredictionNotFound s =
     updateStatus StatusQuickNotFound
       (restoreQuickPredictionButton
          ((showInterruptButton False (stopQuickPredictionPolling s))\<lparr> currentTaskId := None \<rparr>))"

definition handleDeepAnalysisNotFound :: "manager \<Rightarrow> manager" where
  "handleDeepAnalysisNotFound s =
     updateStatus StatusDeepNotFound
       (restoreDeepAnalysisButton
          ((showInterruptButton False (stopDeepAnalysisPolling s))\<lparr> currentTaskId := None \<rparr>))"

text \<open>
  \<open>_handleQuickPredictionStatus\<close>. A completed job starts a refresh of the data and
  does not wait for it.
\<close>

definition handleQuickPredictionStatus :: "task_info option \<Rightarrow> manager \<Rightarrow> manager" where
  "handleQuickPredictionStatus task s =
     (case task of
        None \<Rightarrow> s
      | Some t \<Rightarrow>
          (let totalCount = orZero (orElse (t_total_matches t) (t_match_count t));
               completed = orZero (orElse (t_completed_matches t) (t_success_count t));
               stepDesc = describeTaskStep (t_current_step t) (t_current_match t)
           in if t_status t = Some ''pending'' \<or> t_status t = Some ''running'' then
                updateStatus (StatusQuickInProgress (progressText completed totalCount) stepDesc) s
              else
                (let s1 = restoreQuickPredictionButton
                            ((showInterruptButton False (stopQuickPredictionPolling s))
                               \<lparr> currentTaskId := None \<rparr>)
                 in if t_status t = Some ''completed'' then
                      (let successCount = (case t_success_count t of None \<Rightarrow> completed | Some n \<Rightarrow> n)
                       in fst (refreshMatchesData_begin
                            (updateStatus (StatusQuickCompleted successCount
                               (if totalCount \<noteq> 0 then Some totalCount else None)) s1)))
                    else if t_status t = Some ''failed'' then updateStatus StatusQuickFailed s1
                    else if t_status t = Some ''interrupted'' then updateStatus StatusQuickInterrupted s1
                    else updateStatus (StatusQuickOther (t_status t)) s1)))"

definition handleDeepAnalysisStatus :: "task_info option \<Rightarrow> manager \<Rightarrow> manager" where
  "handleDeepAnalysisStatus task s =
     (case task of
        None \<Rightarrow> s
      | Some t \<Rightarrow>
          (let totalCount = orZero (orElse (t_total_matches t) (t_match_count t));
               completed = orZero (t_completed_matches t);
               stepDesc = describeTaskStep (t_current_step t) (t_current_match t)
           in if t_status t = Some ''pending'' \<or> t_status t = Some ''running'' then
                updateStatus (StatusDeepInProgress (progressText completed totalCount) stepDesc) s
              else
                (let s1 = restoreDeepAnalysisButton
                            ((showInterruptButton False (stopDeepAnalysisPolling s))
                               \<lparr> currentTaskId := None \<rparr>)
                 in if t_status t = Some ''completed'' then
                      (let successCount =
                             (case t_results t of
                                Some rs \<Rightarrow> length (filter (\<lambda>r. r = Some ''success'') rs)
                              | None \<Rightarrow> (case t_success_count t of None \<Rightarrow> completed | Some n \<Rightarrow> n));
                           failedCount =
                             (case t_results t of
                                Some rs \<Rightarrow> length (filter (\<lambda>r. r = Some ''failed'') rs)
                              | None \<Rightarrow> orZero (t_failed_count t))
                       in fst (refreshMatchesData_begin
                            (updateStatus (StatusDeepCompleted successCount
                               (if totalCount \<noteq> 0 then Some totalCount else None) failedCount) s1)))
                    else if t_status t = Some ''failed'' then updateStatus StatusDeepFailed s1
                    else if t_status t = Some ''interrupted'' then updateStatus StatusDeepInterrupted s1
                    else updateStatus (StatusDeepOther (t_status t)) s1)))"

text \<open>
  The closure \<open>poll\<close> of a batch poller, in two pieces: the latch check and the status
  request (\<open>True\<close> when the request was sent), and the handling of the reply. A reply
  that is a 404 or carries the status \<open>error\<close> ends the poll without a new timeout; a
  rejected fetch is caught and a body that does not parse counts as no data; in every
  other case the next poll is set 3000 ms later while the latch is still set.
\<close>

definition parsedData :: "'a json_body option \<Rightarrow> 'a option" where
  "parsedData body = (case body of Some (JsonObject d) \<Rightarrow> Some d | _ \<Rightarrow> None)"

definition quickPoll_begin :: "string \<Rightarrow> manager \<Rightarrow> manager \<times> bool" where
  "quickPoll_begin taskId s =
     (if \<not> quickPredictionPollingActive s then (s, False)
      else (send (GetTaskStatus taskId) s, True))"

definition quickPoll_reschedule :: "string \<Rightarrow> manager \<Rightarrow> manager" where
  "quickPoll_reschedule taskId s =
     (if quickPredictionPollingActive s then
        (let (timerId, s1) = setTimeout (QuickPoll taskId) 3000 s
         in s1\<lparr> quickPredictionPollingTimer := Some timerId \<rparr>)
      else s)"

definition quickPoll_onReply :: "string \<Rightarrow> task_payload http_reply \<Rightarrow> manager \<Rightarrow> manager" where
  "quickPoll_onReply taskId reply s =
     (case reply of
        NetworkFailure m \<Rightarrow> quickPoll_reschedule taskId s
      | HttpReply code body \<Rightarrow>
          (let d = parsedData body
           in if code = 404 \<or> (case d of None \<Rightarrow> False | Some p \<Rightarrow> tp_status p = Some ''error'')
              then handleQuickPredictionNotFound s
              else quickPoll_reschedule taskId
                     (case d of
                        None \<Rightarrow> s
                      | Some p \<Rightarrow> if tp_status p = Some ''success''
                                  then handleQuickPredictionStatus (tp_data p) s else s)))"

definition startQuickPredictionPolling :: "string \<Rightarrow> manager \<Rightarrow> manager \<times> bool" where
  "startQuickPredictionPolling taskId s =
     (if taskId = [] then (s, False)
      else quickPoll_begin taskId ((stopQuickPredictionPolling s)\<lparr> quickPredictionPollingActive := True \<rparr>))"

definition deepPoll_begin :: "string \<Rightarrow> manager \<Rightarrow> manager \<times> bool" where
  "deepPoll_begin taskId s =
     (if \<not> deepAnalysisPollingActive s then (s, False)
      else (send (GetTaskStatus taskId) s, True))"

definition deepPoll_reschedule :: "string \<Rightarrow> manager \<Rightarrow> manager" where
  "deepPoll_reschedule taskId s =
     (if deepAnalysisPollingActive s then
        (let (timerId, s1) = setTimeout (DeepPoll taskId) 3000 s
         in s1\<lparr> deepAnalysisPollingTimer := Some timerId \<rparr>)
      else s)"

definition deepPoll_onReply :: "string \<Rightarrow> task_payload http_reply \<Rightarrow> manager \<Rightarrow> manager" where
  "deepPoll_onReply taskId reply s =
     (case reply of
        NetworkFailure m \<Rightarrow> deepPoll_reschedule taskId s
      | HttpReply code body \<Rightarrow>
          (let d = parsedData body
           in if code = 404 \<or> (case d of None \<Rightarrow> False | Some p \<Rightarrow> tp_status p = Some ''error'')
              then handleDeepAnalysisNotFound s
              else deepPoll_reschedule taskId
                     (case d of
                        None \<Rightarrow> s
                      | Some p \<Rightarrow> if tp_status p = Some ''success''
                                  then handleDeepAnalysisStatus (tp_data p) s else s)))"

definition startDeepAnalysisPolling :: "string \<Rightarrow> manager \<Rightarrow> manager \<times> bool" where
  "startDeepAnalysisPolling taskId s =
     (if taskId = [] then (s, False)
      else deepPoll_begin taskId ((stopDeepAnalysisPolling s)\<lparr> deepAnalysisPollingActive := True \<rparr>))"

subsection \<open>Interrupt all\<close>

text \<open>
  \<open>interruptCurrentTask\<close>: nothing without the user's confirmation; the request; and on
  a reply that is ok and carries the status \<open>success\<close>, the status line, both pollers
  stopped, the interrupt button hidden, the task id forgotten and both buttons restored.
  Any other reply only raises a toast.
\<close>

definition interrupt_begin :: "bool \<Rightarrow> manager \<Rightarrow> manager \<times> bool" where
  "interrupt_begin confirmed s = (if \<not> confirmed then (s, False) else (send PostInterruptAll s, True))"

definition interrupt_onReply :: "simple_payload http_reply \<Rightarrow> manager \<Rightarrow> manager" where
  "interrupt_onReply reply s =
     (case reply of
        NetworkFailure m \<Rightarrow> s
      | HttpReply code body \<Rightarrow>
          (case parsedData body of
             None \<Rightarrow> s
           | Some d \<Rightarrow>
               if \<not> ok code \<or> sp_status d \<noteq> Some ''success'' then s
               else restoreDeepAnalysisButton
                      (restoreQuickPredictionButton
                         ((showInterruptButton False
                             (stopDeepAnalysisPolling
                                (stopQuickPredictionPolling
                                   (updateStatus (StatusAllInterrupted
                                      (case sp_message d of None \<Rightarrow> None
                                       | Some m \<Rightarrow> if m = [] then None else Some m)) s))))
                            \<lparr> currentTaskId := None \<rparr>))))"

definition interruptCurrentTask :: "bool \<Rightarrow> simple_payload http_reply \<Rightarrow> manager \<Rightarrow> manager" where
  "interruptCurrentTask confirmed reply s =
     (let (s1, sent) = interrupt_begin confirmed s
      in if sent then interrupt_onReply reply s1 else s1)"

section \<open>Replies and what they mean\<close>

subsection \<open>Replies to the data access client\<close>

text \<open>
  The replies a method has to fold into an error. For \<open>fetchAllMatches\<close> and
  \<open>fetchResults\<close>: a rejected fetch, a status code outside 200..299, a body that
  does not parse, a \<open>null\<close> body or a payload whose status is not \<open>success\<close>
  (\<open>listReplyFails\<close>). For \<open>fetchMatches\<close> the first four, whatever the payload
  says (\<open>replyUnreadable\<close>). For \<open>triggerResultScraping\<close> and \<open>fetchStats\<close>
  the first three (\<open>transportFails\<close>).
\<close>

definition listReplyFails :: "list_payload http_reply \<Rightarrow> bool" where
  "listReplyFails reply =
     (case reply of
        NetworkFailure m \<Rightarrow> True
      | HttpReply code body \<Rightarrow>
          (if ok code then
             (case body of
                None \<Rightarrow> True
              | Some JsonNull \<Rightarrow> True
              | Some (JsonObject p) \<Rightarrow> p_status p \<noteq> Some ''success'')
           else True))"

definition replyUnreadable :: "'a http_reply \<Rightarrow> bool" where
  "replyUnreadable reply =
     (case reply of
        NetworkFailure m \<Rightarrow> True
      | HttpReply code body \<Rightarrow>
          (if ok code then
             (case body of
                None \<Rightarrow> True
              | Some JsonNull \<Rightarrow> True
              | Some (JsonObject p) \<Rightarrow> False)
           else True))"

definition transportFails :: "'a http_reply \<Rightarrow> bool" where
  "transportFails reply =
     (case reply of
        NetworkFailure m \<Rightarrow> True
      | HttpReply code body \<Rightarrow> (if ok code then body = None else True))"

subsection \<open>Replies to the orchestrator\<close>

text \<open>
  The reply to the interrupt request that counts as success: a status code in 200..299
  and a parsed object whose status is \<open>success\<close>.
\<close>

definition interruptSucceeds :: "simple_payload http_reply \<Rightarrow> bool" where
  "interruptSucceeds reply =
     (case reply of
        NetworkFailure m \<Rightarrow> False
      | HttpReply code body \<Rightarrow>
          (case body of
             Some (JsonObject d) \<Rightarrow> ok code \<and> sp_status d = Some ''success''
           | _ \<Rightarrow> False))"

text \<open>
  How a poll reply is classified: the job is still running (status \<open>pending\<close> or
  \<open>running\<close> in a well-formed answer that is no 404), the task is gone (a 404, or an
  answer whose own status is \<open>error\<close>), or the reply is a transient failure (the fetch
  was rejected, or the body is missing or did not parse, and the code is no 404).
\<close>

definition stillRunning :: "task_payload http_reply \<Rightarrow> task_info \<Rightarrow> bool" where
  "stillRunning reply t =
     (case reply of
        NetworkFailure m \<Rightarrow> False
      | HttpReply code body \<Rightarrow>
          (case parsedData body of
             None \<Rightarrow> False
           | Some p \<Rightarrow> code \<noteq> 404 \<and> tp_status p = Some ''success'' \<and> tp_data p = Some t \<and>
                      (t_status t = Some ''pending'' \<or> t_status t = Some ''running'')))"

definition taskGone :: "task_payload http_reply \<Rightarrow> bool" where
  "taskGone reply =
     (case reply of
        NetworkFailure m \<Rightarrow> False
      | HttpReply code body \<Rightarrow>
          code = 404 \<or> (case parsedData body of None \<Rightarrow> False | Some p \<Rightarrow> tp_status p = Some ''error''))"

definition transientFailure :: "task_payload http_reply \<Rightarrow> bool" where
  "transientFailure reply =
     (case reply of
        NetworkFailure m \<Rightarrow> True
      | HttpReply code body \<Rightarrow> code \<noteq> 404 \<and> parsedData body = None)"

text \<open>
  The answers of the two endpoints of a single-match launch that let it go on: a status
  answer that passes the gate for the kind, and a job-start answer whose status is
  \<open>success\<close> (the status code of either is not looked at). \<open>gateRejects\<close> is a
  status answer on which the launch returns without doing anything: a status that is not
  \<open>success\<close>, a fixture outside the window or with a deep analysis, or a full queue
  whose counters are there. \<open>gateThrows\<close> is every other status answer, on which the
  launch throws and its \<open>catch\<close> runs: a rejected fetch, a body that does not parse or
  is \<open>null\<close>, a \<open>success\<close> without \<open>data\<close>, or a full queue whose counters are
  missing.
\<close>

definition gatePasses :: "kind \<Rightarrow> status_payload http_reply \<Rightarrow> bool" where
  "gatePasses type reply =
     (case reply of
        NetworkFailure m \<Rightarrow> False
      | HttpReply code body \<Rightarrow>
          (case parsedData body of
             None \<Rightarrow> False
           | Some p \<Rightarrow>
               ps_status p = Some ''success'' \<and>
               (case ps_data p of
                  None \<Rightarrow> False
                | Some d \<Rightarrow> is_within_window d \<and> \<not> has_deep_analysis d \<and>
                    (case type of Quick \<Rightarrow> can_quick_predict d | Deep \<Rightarrow> can_deep_analysis d))))"

definition gateRejects :: "kind \<Rightarrow> status_payload http_reply \<Rightarrow> bool" where
  "gateRejects type reply =
     (case reply of
        NetworkFailure m \<Rightarrow> False
      | HttpReply code body \<Rightarrow>
          (case parsedData body of
             None \<Rightarrow> False
           | Some p \<Rightarrow>
               (if ps_status p = Some ''success'' then
                  (case ps_data p of
                     None \<Rightarrow> False
                   | Some d \<Rightarrow>
                       (if is_within_window d \<and> \<not> has_deep_analysis d then
                          (case type of
                             Quick \<Rightarrow> \<not> can_quick_predict d \<and> quick_queue d \<noteq> None
                           | Deep \<Rightarrow> \<not> can_deep_analysis d \<and> deep_queue d \<noteq> None)
                        else True))
                else True)))"

definition gateThrows :: "kind \<Rightarrow> status_payload http_reply \<Rightarrow> bool" where
  "gateThrows type reply =
     (case reply of
        NetworkFailure m \<Rightarrow> True
      | HttpReply code body \<Rightarrow>
          (case parsedData body of
             None \<Rightarrow> True
           | Some p \<Rightarrow>
               (if ps_status p = Some ''success'' then
                  (case ps_data p of
                     None \<Rightarrow> True
                   | Some d \<Rightarrow>
                       is_within_window d \<and> \<not> has_deep_analysis d \<and>
                       (case type of
                          Quick \<Rightarrow> \<not> can_quick_predict d \<and> quick_queue d = None
                        | Deep \<Rightarrow> \<not> can_deep_analysis d \<and> deep_queue d = None))
                else False)))"

definition launchSucceeds :: "simple_payload http_reply \<Rightarrow> bool" where
  "launchSucceeds reply =
     (case reply of
        NetworkFailure m \<Rightarrow> False
      | HttpReply code body \<Rightarrow>
          (case parsedData body of None \<Rightarrow> False | Some d \<Rightarrow> sp_status d = Some ''success''))"

subsection \<open>The confirmation predicate on fetched data\<close>

text \<open>
  The confirmation predicate on a list of records: the first record with the code decides.
  \<open>_hasProcessingResult\<close> is this predicate on the pending fixtures followed by the
  completed results of the store.
\<close>

definition confirmsIn :: "match_record list \<Rightarrow> string \<Rightarrow> kind \<Rightarrow> bool" where
  "confirmsIn ms matchCode type =
     (case find (\<lambda>m. match_code m = matchCode) ms of
        None \<Rightarrow> False
      | Some m \<Rightarrow>
          (case type of
             Quick \<Rightarrow> (case scores m of None \<Rightarrow> False | Some xs \<Rightarrow> xs \<noteq> [])
           | Deep \<Rightarrow> source_type m = Some ''deep'' \<or> prediction_type m = Some ''deep''))"

text \<open>What a refresh with the given reply makes of the predicate.\<close>

definition confirmsAfter ::
  "list_payload http_reply \<Rightarrow> manager \<Rightarrow> string \<Rightarrow> kind \<Rightarrow> bool" where
  "confirmsAfter reply s matchCode type =
     (let res = fetchAllMatches False (NetworkFailure []) reply
      in if status res = ''success''
         then confirmsIn (filter (\<lambda>m. \<not> is_completed m) (data res) @
                          filter (\<lambda>m. is_completed m) (data res)) matchCode type
         else hasProcessingResult s matchCode type)"

text \<open>A reply whose data, once stored, makes the confirmation predicate true.\<close>

definition replyConfirms :: "list_payload http_reply \<Rightarrow> string \<Rightarrow> kind \<Rightarrow> bool" where
  "replyConfirms reply matchCode type =
     (let res = fetchAllMatches False (NetworkFailure []) reply
      in status res = ''success'' \<and>
         confirmsIn (filter (\<lambda>m. \<not> is_completed m) (data res) @
                     filter (\<lambda>m. is_completed m) (data res)) matchCode type)"

text \<open>
  The test of the sweep for one code: the code is processing, and the confirmation
  predicate of its kind holds in the data of the store.
\<close>

definition resultArrived :: "manager \<Rightarrow> string \<Rightarrow> bool" where
  "resultArrived s c =
     (case map_of (processingStates s) c of
        None \<Rightarrow> False
      | Some t \<Rightarrow> hasProcessingResult s c t)"

section \<open>The event loop: timeouts coming due\<close>

text \<open>
  The browser's part in a self-healing loop: for each tick, whether the reset of the
  refresh latch came due before it, and the reply its refresh gets. \<open>runLoop\<close> fires
  the timeout registered for the code once per element, for as long as one is registered
  and pending and holds a tick, and counts the ticks it ran.
\<close>

type_synonym tick_env = "bool \<times> list_payload http_reply"

fun runLoop :: "string \<Rightarrow> tick_env list \<Rightarrow> manager \<Rightarrow> manager \<times> nat" where
  "runLoop code [] s = (s, 0)"
| "runLoop code ((latchReset, reply) # es) s =
     (let s0 = (if latchReset then resetRefreshing s else s)
      in case map_of (quickPredictionTimers s0) code of
           None \<Rightarrow> (s0, 0)
         | Some timerId \<Rightarrow>
             (case fireTimer timerId s0 of
                Some (LoopTick loop, s1) \<Rightarrow>
                  (let (s2, n) = runLoop code es (loop_tick loop reply s1) in (s2, Suc n))
              | _ \<Rightarrow> (s0, 0)))"

text \<open>
  A timeout that holds a tick of a self-healing loop comes due: the tick starts and, when
  the latch is free, waits for its refresh. A timeout that holds the reset of the latch
  comes due.
\<close>

definition fireLoopTimer :: "timer_id \<Rightarrow> manager \<Rightarrow> (loop_closure \<times> manager \<times> bool) option" where
  "fireLoopTimer timerId s =
     (case fireTimer timerId s of
        Some (LoopTick loop, s1) \<Rightarrow> Some (loop_begin loop s1)
      | _ \<Rightarrow> None)"

definition fireResetTimer :: "timer_id \<Rightarrow> manager \<Rightarrow> manager option" where
  "fireResetTimer timerId s =
     (case fireTimer timerId s of
        Some (ResetRefreshing, s1) \<Rightarrow> Some (resetRefreshing s1)
      | _ \<Rightarrow> None)"

section \<open>Sample data\<close>

text \<open>
  Records: one whose \<open>group_date\<close> is too short for a key, and one whose
  \<open>group_date\<close> is a date followed by a time.
\<close>

definition shortDated :: match_record where
  "shortDated = fixture ''A001'' True (Some ''2024-1-4'')"

definition fullDated :: match_record where
  "fullDated = fixture ''A002'' True (Some ''2024-11-04 19:30'')"

text \<open>
  Replies: a plain success; status answers that let either launch go on, that stop it, and
  that never arrive; the merged list of the given records; the answer of a running task.
\<close>

definition successReply :: "simple_payload http_reply" where
  "successReply = HttpReply 200 (Some (JsonObject \<lparr> sp_status = Some ''success'', sp_message = None \<rparr>))"

definition eligibleStatus :: "status_payload http_reply" where
  "eligibleStatus = HttpReply 200 (Some (JsonObject \<lparr> ps_status = Some ''success'', ps_message = None,
     ps_data = Some \<lparr> is_within_window = True, has_deep_analysis = False, can_quick_predict = True,
       can_deep_analysis = True, quick_queue = Some (0, 3), deep_queue = Some (0, 1) \<rparr> \<rparr>))"

definition rejectingStatus :: "status_payload http_reply" where
  "rejectingStatus = HttpReply 200 (Some (JsonObject \<lparr> ps_status = Some ''error'',
     ps_message = Some ''match not found'', ps_data = None \<rparr>))"

definition offlineStatus :: "status_payload http_reply" where
  "offlineStatus = NetworkFailure ''Failed to fetch''"

definition allMatchesReply :: "match_record list \<Rightarrow> list_payload http_reply" where
  "allMatchesReply ms = HttpReply 200 (Some (JsonObject \<lparr> p_status = Some ''success'',
     p_data = Some ms, p_count = Some (length ms), p_schedule_count = Some (length ms),
     p_completed_count = Some 0, p_message = None \<rparr>))"

definition runningTask :: task_info where
  "runningTask = \<lparr> t_status = Some ''running'', t_total_matches = Some 10, t_match_count = None,
     t_completed_matches = Some 4, t_success_count = None, t_failed_count = None,
     t_results = None, t_current_step = Some ''collect'', t_current_match = Some ''C003'',
     t_error = None \<rparr>"

definition runningReply :: "task_payload http_reply" where
  "runningReply = HttpReply 200 (Some (JsonObject \<lparr> tp_status = Some ''success'', tp_message = None,
     tp_data = Some runningTask \<rparr>))"

text \<open>
  A manager whose two batch pollers wait for their next poll, of task \<open>T1\<close> and of
  task \<open>T2\<close>.
\<close>

definition pollingManager :: manager where
  "pollingManager = newManager\<lparr> quickPredictionPollingActive := True,
     deepAnalysisPollingActive := True,
     quickPredictionPollingTimer := Some 1, deepAnalysisPollingTimer := Some 2,
     timers := [(1, 3000, QuickPoll ''T1''), (2, 3000, DeepPoll ''T2'')],
     nextTimerId := 3, currentTaskId := Some ''T2'', interruptButtonVisible := True,
     quickButton := \<lparr> disabled = True, label = BusyLabel \<rparr>,
     deepButton := \<lparr> disabled = True, label = BusyLabel \<rparr>,
     quickPredictionButtonState := Some OriginalLabel,
     deepAnalysisButtonState := Some OriginalLabel \<rparr>"

text \<open>A manager that has loaded the given records.\<close>

definition loadedManager :: "match_record list \<Rightarrow> manager" where
  "loadedManager ms =
     loadMergedData_onResult None (fetchAllMatches False (NetworkFailure []) (allMatchesReply ms))
       newManager"

text \<open>
  A manager with a quick job for \<open>A001\<close> (its first tick pending as timeout 1) and a deep
  job for \<open>B002\<close>, and fetched data in which \<open>A001\<close> has a predicted score and
  \<open>B002\<close> has no deep analysis.
\<close>

definition twoJobsManager :: manager where
  "twoJobsManager =
     scheduleProcessingRefresh ''A001'' Quick None None
       (setMatchProcessing ''B002'' (Some Deep)
          (setMatchProcessing ''A001'' (Some Quick) newManager))"

definition scoredData :: "match_record list" where
  "scoredData = [(fixture ''A001'' False (Some ''2024-11-04''))\<lparr> scores := Some [''2-1''] \<rparr>,
                 fixture ''B002'' False (Some ''2024-11-04'')]"

text \<open>
  A manager that has loaded fixture \<open>A001\<close>, one that has loaded \<open>A001\<close>
  already tagged as deep, and the first one after a deep launch for \<open>A001\<close>.
\<close>

definition fixtureLoaded :: manager where
  "fixtureLoaded = loadedManager [fixture ''A001'' False (Some ''2024-11-04'')]"

definition deepTaggedLoaded :: manager where
  "deepTaggedLoaded =
     loadedManager [(fixture ''A001'' False (Some ''2024-11-04''))\<lparr> prediction_type := Some ''deep'' \<rparr>]"

definition deepLaunched :: manager where
  "deepLaunched = deepAnalysisSingleMatch ''A001'' eligibleStatus successReply fixtureLoaded"

text \<open>
  The quick launch for \<open>A001\<close> after its gate, and after a refresh that brought the
  score (\<open>quickRefreshed\<close>) or brought none (\<open>quickUnconfirmed\<close>).
\<close>

definition quickLaunched :: manager where
  "quickLaunched =
     fst (quickPredict_onStatus ''A001'' eligibleStatus (quickPredict_begin ''A001'' fixtureLoaded))"

definition quickRefreshed :: manager where
  "quickRefreshed =
     refreshMatchesData_onReply (selectedDate (state quickLaunched)) (allMatchesReply scoredData)
       (fst (quickPredict_onLaunch ''A001'' successReply quickLaunched))"

definition quickUnconfirmed :: manager where
  "quickUnconfirmed =
     refreshMatchesData_onReply (selectedDate (state quickLaunched))
       (allMatchesReply [fixture ''A001'' False (Some ''2024-11-04'')])
       (fst (quickPredict_onLaunch ''A001'' successReply quickLaunched))"

text \<open>
  Ticks: \<open>n\<close> ticks whose refresh brings \<open>A001\<close> without a prediction, and
  \<open>n\<close> ticks whose refresh is rejected by the network.
\<close>

definition unconfirmedTicks :: "nat \<Rightarrow> tick_env list" where
  "unconfirmedTicks n = replicate n (True, allMatchesReply [fixture ''A001'' False (Some ''2024-11-04'')])"

definition offlineTicks :: "nat \<Rightarrow> tick_env list" where
  "offlineTicks n = replicate n (False, NetworkFailure ''Failed to fetch'')"

text \<open>
  A run in which a second quick launch for \<open>A001\<close> completes while a tick of the first
  loop waits for its refresh: the first launch ends with its loop scheduled; the latch
  reset and then the first tick come due; the tick's refresh is in flight when the second
  launch passes the gate, starts its job, finds the latch set, and schedules its own
  loop; then the reply to the tick's refresh arrives, without a prediction.
\<close>

definition overlappingLaunches :: "manager option" where
  "overlappingLaunches =
     (let unscored = allMatchesReply [fixture ''A001'' False (Some ''2024-11-04'')];
          s1 = quickPredictSingleMatch ''A001'' eligibleStatus successReply unscored fixtureLoaded
      in case fireResetTimer 1 s1 of
           None \<Rightarrow> None
         | Some s2 \<Rightarrow>
             (case fireLoopTimer 2 s2 of
                None \<Rightarrow> None
              | Some (loop1, s3, waiting) \<Rightarrow>
                  (let (s4, launched) =
                         quickPredict_onStatus ''A001'' eligibleStatus (quickPredict_begin ''A001'' s3);
                       (s5, refreshing) = quickPredict_onLaunch ''A001'' successReply s4
                   in if waiting \<and> launched \<and> \<not> refreshing
                      then Some (loop_onReply loop1 (selectedDate (state s2)) unscored s5)
                      else None)))"

section \<open>Properties of the grouping\<close>

lemma map_of_pushToGroup:
  "map_of (pushToGroup k r g) k' =
     (if k' = k then Some ((case map_of g k of None \<Rightarrow> [] | Some rs \<Rightarrow> rs) @ [r])
      else map_of g k')"
  by (simp add: pushToGroup_def update_conv')

lemma map_of_groupStep:
  "map_of (groupStep ex r g) k =
     (if ex r = Some k \<and> k \<noteq> []
      then Some ((case map_of g k of None \<Rightarrow> [] | Some rs \<Rightarrow> rs) @ [r])
      else map_of g k)"
  by (auto simp: groupStep_def map_of_pushToGroup split: option.splits)

lemma map_of_fold_groupStep:
  "map_of (fold (groupStep ex) rs g) k =
     (case map_of g k of
        None \<Rightarrow> (if filter (\<lambda>r. ex r = Some k \<and> k \<noteq> []) rs = [] then None
                 else Some (filter (\<lambda>r. ex r = Some k \<and> k \<noteq> []) rs))
      | Some old \<Rightarrow> Some (old @ filter (\<lambda>r. ex r = Some k \<and> k \<noteq> []) rs))"
proof (induction rs arbitrary: g)
  case Nil
  then show ?case by (simp split: option.splits)
next
  case (Cons r rs)
  show ?case
    by (simp add: Cons.IH map_of_groupStep split: option.splits)
qed

lemma map_of_groupByDate:
  "map_of (groupByDate ex rs) k =
     (if filter (\<lambda>r. ex r = Some k \<and> k \<noteq> []) rs = [] then None
      else Some (filter (\<lambda>r. ex r = Some k \<and> k \<noteq> []) rs))"
  by (simp add: groupByDate_def map_of_fold_groupStep)

lemma extractMatchDateKey_eq: "extractMatchDateKey = extractDateKey"
  by (rule ext) (simp add: extractMatchDateKey_def extractDateKey_def)

lemma extractDateKey_None:
  assumes "group_date d = None \<or> (\<exists>g. group_date d = Some g \<and> (trim g = [] \<or> length g < 10))"
  shows "extractDateKey d = None"
  using assms by (auto simp: extractDateKey_def split: option.splits)

lemma extractDateKey_nonempty: "extractDateKey d = Some k \<Longrightarrow> k \<noteq> []"
  by (auto simp: extractDateKey_def split: option.splits if_splits)

lemma map_of_groupByDate_extractDateKey:
  "map_of (groupByDate extractDateKey rs) k =
     (if filter (\<lambda>r. extractDateKey r = Some k) rs = [] then None
      else Some (filter (\<lambda>r. extractDateKey r = Some k) rs))"
proof -
  have "(\<lambda>r. extractDateKey r = Some k \<and> k \<noteq> []) = (\<lambda>r. extractDateKey r = Some k)"
    by (auto dest: extractDateKey_nonempty)
  then show ?thesis by (simp add: map_of_groupByDate)
qed

lemma groupByDate_Nil: "groupByDate ex [] = []"
  by (simp add: groupByDate_def)

lemma dateGroups_updateResults:
  "dateGroups (updateResultsDateGroups st) = groupByDate extractDateKey (results st)"
  by (simp add: updateResultsDateGroups_def groupByDate_Nil)

lemma matchDateGroups_updateMatch:
  "matchDateGroups (updateMatchDateGroups st) = groupByDate extractDateKey (matches st)"
  by (simp add: updateMatchDateGroups_def extractMatchDateKey_eq)

lemma dateGroups_setState:
  "upd_results u = Some rs \<Longrightarrow> dateGroups (setState u st) = groupByDate extractDateKey rs"
  by (simp add: setState_def mergeUpdates_def updateResultsDateGroups_def
      updateMatchDateGroups_def Let_def groupByDate_Nil)

lemma matchDateGroups_setState:
  "upd_matches u = Some ms \<Longrightarrow> matchDateGroups (setState u st) = groupByDate extractDateKey ms"
  by (simp add: setState_def mergeUpdates_def updateResultsDateGroups_def
      updateMatchDateGroups_def Let_def extractMatchDateKey_eq)

lemma setState_idem: "setState u (setState u st) = setState u st"
  by (cases st) (auto simp: setState_def mergeUpdates_def updateResultsDateGroups_def
      updateMatchDateGroups_def Let_def split: option.splits)

lemma member_of_group:
  assumes "map_of (groupByDate extractDateKey rs) k = Some g" and "r \<in> set g"
  shows "extractDateKey r = Some k"
  using assms by (auto simp: map_of_groupByDate_extractDateKey split: if_splits)

text \<open>
  What the extractor does: a record whose \<open>group_date\<close> is absent, empty, blank or
  shorter than 10 characters has no grouping key (both extractors return null), and after
  a grouping recomputation of either partition it is in no date group. A record whose
  \<open>group_date\<close> is not blank and has 10 characters or more always gets the key cut out
  of it, and a recomputation puts it in the group of that key. Nothing looks at what the
  characters are.
\<close>

lemma grouping_key_by_length:
  "(group_date d = None \<or> (\<exists>g. group_date d = Some g \<and> (trim g = [] \<or> length g < 10)) \<longrightarrow>
      extractDateKey d = None \<and> extractMatchDateKey d = None \<and>
      (\<forall>k g. map_of (dateGroups (updateResultsDateGroups st)) k = Some g \<longrightarrow> d \<notin> set g) \<and>
      (\<forall>k g. map_of (matchDateGroups (updateMatchDateGroups st)) k = Some g \<longrightarrow> d \<notin> set g) \<and>
      (\<forall>k g rs. upd_results u = Some rs \<longrightarrow>
         map_of (dateGroups (setState u st)) k = Some g \<longrightarrow> d \<notin> set g) \<and>
      (\<forall>k g ms. upd_matches u = Some ms \<longrightarrow>
         map_of (matchDateGroups (setState u st)) k = Some g \<longrightarrow> d \<notin> set g)) \<and>
   (\<forall>g. group_date e = Some g \<and> trim g \<noteq> [] \<and> 10 \<le> length g \<longrightarrow>
      extractDateKey e = Some (slice g 5 7 @ ''-'' @ slice g 8 10) \<and>
      extractMatchDateKey e = Some (slice g 5 7 @ ''-'' @ slice g 8 10) \<and>
      (e \<in> set (results st) \<longrightarrow>
         (\<exists>grp. map_of (dateGroups (updateResultsDateGroups st))
                  (slice g 5 7 @ ''-'' @ slice g 8 10) = Some grp \<and> e \<in> set grp)) \<and>
      (e \<in> set (matches st) \<longrightarrow>
         (\<exists>grp. map_of (matchDateGroups (updateMatchDateGroups st))
                  (slice g 5 7 @ ''-'' @ slice g 8 10) = Some grp \<and> e \<in> set grp)))"
proof (intro conjI impI allI)
  assume "group_date d = None \<or> (\<exists>g. group_date d = Some g \<and> (trim g = [] \<or> length g < 10))"
  then show none: "extractDateKey d = None"
    by (rule extractDateKey_None)
  then show "extractMatchDateKey d = None"
    by (simp add: extractMatchDateKey_eq)
  have out: "\<And>rs k g. map_of (groupByDate extractDateKey rs) k = Some g \<Longrightarrow> d \<notin> set g"
    using none member_of_group by fastforce
  show "\<And>k g. map_of (dateGroups (updateResultsDateGroups st)) k = Some g \<Longrightarrow> d \<notin> set g"
    using out by (simp add: dateGroups_updateResults)
  show "\<And>k g. map_of (matchDateGroups (updateMatchDateGroups st)) k = Some g \<Longrightarrow> d \<notin> set g"
    using out by (simp add: matchDateGroups_updateMatch)
  show "\<And>k g rs. upd_results u = Some rs \<Longrightarrow>
         map_of (dateGroups (setState u st)) k = Some g \<Longrightarrow> d \<notin> set g"
    using out by (simp add: dateGroups_setState)
  show "\<And>k g ms. upd_matches u = Some ms \<Longrightarrow>
         map_of (matchDateGroups (setState u st)) k = Some g \<Longrightarrow> d \<notin> set g"
    using out by (simp add: matchDateGroups_setState)
next
  fix g
  assume long: "group_date e = Some g \<and> trim g \<noteq> [] \<and> 10 \<le> length g"
  then have "g \<noteq> []" by auto
  with long show key: "extractDateKey e = Some (slice g 5 7 @ ''-'' @ slice g 8 10)"
    by (simp add: extractDateKey_def)
  then show "extractMatchDateKey e = Some (slice g 5 7 @ ''-'' @ slice g 8 10)"
    by (simp add: extractMatchDateKey_eq)
  have grouped: "\<And>rs. e \<in> set rs \<Longrightarrow>
      \<exists>grp. map_of (groupByDate extractDateKey rs) (slice g 5 7 @ ''-'' @ slice g 8 10) = Some grp
            \<and> e \<in> set grp"
    using key by (auto simp: map_of_groupByDate_extractDateKey filter_empty_conv)
  show "e \<in> set (results st) \<Longrightarrow>
         (\<exists>grp. map_of (dateGroups (updateResultsDateGroups st))
                  (slice g 5 7 @ ''-'' @ slice g 8 10) = Some grp \<and> e \<in> set grp)"
    using grouped by (simp add: dateGroups_updateResults)
  show "e \<in> set (matches st) \<Longrightarrow>
         (\<exists>grp. map_of (matchDateGroups (updateMatchDateGroups st))
                  (slice g 5 7 @ ''-'' @ slice g 8 10) = Some grp \<and> e \<in> set grp)"
    using grouped by (simp add: matchDateGroups_updateMatch)
qed

lemma grouping_key_by_length_example:
  "extractDateKey shortDated = None \<and>
   extractDateKey fullDated = Some ''11-04'' \<and>
   dateGroups (updateResultsDateGroups (initialState\<lparr> results := [shortDated, fullDated] \<rparr>))
     = [(''11-04'', [fullDated])] \<and>
   shortDated \<notin> set [fullDated]"
proof -
  let ?st = "initialState\<lparr> results := [shortDated, fullDated] \<rparr>"
  have short: "group_date shortDated = None \<or>
      (\<exists>g. group_date shortDated = Some g \<and> (trim g = [] \<or> length g < 10))"
    by (simp add: shortDated_def fixture_def)
  have long: "group_date fullDated = Some ''2024-11-04 19:30'' \<and>
      trim ''2024-11-04 19:30'' \<noteq> [] \<and> 10 \<le> length ''2024-11-04 19:30''"
    by (simp add: fullDated_def fixture_def trim_def isWhiteSpace_def)
  have mem: "fullDated \<in> set (results ?st)"
    by simp
  have key: "slice ''2024-11-04 19:30'' 5 7 @ ''-'' @ slice ''2024-11-04 19:30'' 8 10 = ''11-04''"
    by (simp add: slice_def)
  have grp: "dateGroups (updateResultsDateGroups ?st) = [(''11-04'', [fullDated])]"
    by (simp add: updateResultsDateGroups_def groupByDate_def groupStep_def pushToGroup_def
        extractDateKey_def shortDated_def fullDated_def fixture_def slice_def trim_def
        isWhiteSpace_def)
  have ne: "shortDated \<noteq> fullDated"
    by (simp add: shortDated_def fullDated_def fixture_def)
  from grouping_key_by_length [of shortDated ?st noUpdates fullDated]
    short long mem key grp ne
  show ?thesis by simp
qed

text \<open>
  Claim C5 does not hold of the code. The extractor is documented to return an
  \<open>MM-DD\<close> key, or null when there is no valid \<open>group_date\<close>, and expects the format
  \<open>YYYY-MM-DD\<close>; but it tests only that the value is there, not blank and at least 10
  characters long. The \<open>group_date\<close> \<open>no date here\<close> is no date string, yet the extractor
  returns the key \<open>te-he\<close> for it, and a grouping recomputation puts the record in a date
  group of that name.
\<close>

theorem non_date_group_date_gets_key:
  "\<not> hasDateFormat ''no date here'' \<and>
   extractDateKey (fixture ''A001'' True (Some ''no date here'')) = Some ''te-he'' \<and>
   map_of (dateGroups (updateResultsDateGroups
       (initialState\<lparr> results := [fixture ''A001'' True (Some ''no date here'')] \<rparr>))) ''te-he''
     = Some [fixture ''A001'' True (Some ''no date here'')]"
  by (simp add: hasDateFormat_def isDigit_def slice_def extractDateKey_def fixture_def trim_def
      isWhiteSpace_def dateGroups_updateResults map_of_groupByDate_extractDateKey initialState_def)

text \<open>
  Claim C6. When \<open>setState\<close> is given the results (the matches), the grouping of that
  partition is rebuilt from those records alone: it is the same whatever the store held
  before, and the group of a key is exactly the records of the partition with that key,
  in their order. Recomputing twice from the same data gives the same state.
\<close>

theorem grouping_is_full_recompute:
  "(upd_results u = Some rs \<longrightarrow>
      dateGroups (setState u st) = dateGroups (setState u st') \<and>
      (\<forall>k. map_of (dateGroups (setState u st)) k =
         (if filter (\<lambda>r. extractDateKey r = Some k) rs = [] then None
          else Some (filter (\<lambda>r. extractDateKey r = Some k) rs)))) \<and>
   (upd_matches u = Some ms \<longrightarrow>
      matchDateGroups (setState u st) = matchDateGroups (setState u st') \<and>
      (\<forall>k. map_of (matchDateGroups (setState u st)) k =
         (if filter (\<lambda>r. extractMatchDateKey r = Some k) ms = [] then None
          else Some (filter (\<lambda>r. extractMatchDateKey r = Some k) ms)))) \<and>
   setState u (setState u st) = setState u st \<and>
   updateResultsDateGroups (updateResultsDateGroups st) = updateResultsDateGroups st \<and>
   updateMatchDateGroups (updateMatchDateGroups st) = updateMatchDateGroups st"
proof -
  have a: "updateResultsDateGroups (updateResultsDateGroups st) = updateResultsDateGroups st"
    by (simp add: updateResultsDateGroups_def)
  have b: "updateMatchDateGroups (updateMatchDateGroups st) = updateMatchDateGroups st"
    by (simp add: updateMatchDateGroups_def)
  show ?thesis
    using a b
    by (simp add: dateGroups_setState matchDateGroups_setState setState_idem
        map_of_groupByDate_extractDateKey extractMatchDateKey_eq)
qed

theorem grouping_is_full_recompute_witness:
  "dateGroups (setState (noUpdates\<lparr> upd_results := Some
        [fixture ''A001'' True (Some ''2024-11-04''), fixture ''A002'' True (Some ''2024-11-05''),
         fixture ''A003'' True (Some ''2024-11-04'')] \<rparr>) initialState)
     = dateGroups (setState (noUpdates\<lparr> upd_results := Some
        [fixture ''A001'' True (Some ''2024-11-04''), fixture ''A002'' True (Some ''2024-11-05''),
         fixture ''A003'' True (Some ''2024-11-04'')] \<rparr>)
        (initialState\<lparr> dateGroups := [(''11-01'', [fixture ''Z009'' True (Some ''2024-11-01'')])] \<rparr>)) \<and>
   map_of (dateGroups (setState (noUpdates\<lparr> upd_results := Some
        [fixture ''A001'' True (Some ''2024-11-04''), fixture ''A002'' True (Some ''2024-11-05''),
         fixture ''A003'' True (Some ''2024-11-04'')] \<rparr>) initialState)) ''11-04''
     = Some [fixture ''A001'' True (Some ''2024-11-04''), fixture ''A003'' True (Some ''2024-11-04'')]"
proof -
  let ?rs = "[fixture ''A001'' True (Some ''2024-11-04''), fixture ''A002'' True (Some ''2024-11-05''),
         fixture ''A003'' True (Some ''2024-11-04'')]"
  let ?u = "noUpdates\<lparr> upd_results := Some ?rs \<rparr>"
  have hyp: "upd_results ?u = Some ?rs" by simp
  let ?st1 = "initialState\<lparr> dateGroups := [(''11-01'', [fixture ''Z009'' True (Some ''2024-11-01'')])] \<rparr>"
  note full = grouping_is_full_recompute [of ?u ?rs initialState ?st1]
  from full hyp have same: "dateGroups (setState ?u initialState) = dateGroups (setState ?u ?st1)"
    by blast
  from full hyp have "map_of (dateGroups (setState ?u initialState)) ''11-04'' =
      (if filter (\<lambda>r. extractDateKey r = Some ''11-04'') ?rs = [] then None
       else Some (filter (\<lambda>r. extractDateKey r = Some ''11-04'') ?rs))"
    by blast
  then have group: "map_of (dateGroups (setState ?u initialState)) ''11-04''
      = Some [fixture ''A001'' True (Some ''2024-11-04''), fixture ''A003'' True (Some ''2024-11-04'')]"
    by (simp add: extractDateKey_def fixture_def slice_def trim_def isWhiteSpace_def)
  from same group show ?thesis by simp
qed

section \<open>Properties of the data access client\<close>

lemma status_errorResult: "status (errorResult e) = ''error''"
  and data_errorResult: "data (errorResult e) = []"
  and message_errorResult: "message (errorResult e) = Some (orUnknown e)"
  by (simp_all add: errorResult_def)

lemma thenE_Inl: "thenE (Inl e) f = Inl e"
  and thenE_Inr: "thenE (Inr x) f = f x"
  by (simp_all add: thenE_def)

lemma fetchMatches_try_status:
  "fetchMatches_try f cr sr = Inr r \<Longrightarrow> status r = ''success''"
  by (auto simp: fetchMatches_try_def thenE_def awaitFetch_def awaitJson_def readObject_def
      split: if_splits http_reply.splits option.splits json_body.splits sum.splits prod.splits)

lemma fetchAllMatches_try_status:
  "fetchAllMatches_try f cr ar = Inr r \<Longrightarrow> status r = ''success''"
  by (auto simp: fetchAllMatches_try_def thenE_def awaitFetch_def awaitJson_def readObject_def
      split: if_splits http_reply.splits option.splits json_body.splits sum.splits prod.splits)

lemma fetchResults_try_status:
  "fetchResults_try rr = Inr r \<Longrightarrow> status r = ''success'' \<or> status r = ''error''"
  by (auto simp: fetchResults_try_def thenE_def awaitFetch_def awaitJson_def readObject_def
      split: if_splits http_reply.splits option.splits json_body.splits sum.splits prod.splits)

lemma fetchMatches_status:
  "status (fetchMatches f cr sr) = ''success'' \<or> status (fetchMatches f cr sr) = ''error''"
  by (cases "fetchMatches_try f cr sr")
     (auto simp: fetchMatches_def status_errorResult dest: fetchMatches_try_status)

lemma fetchAllMatches_status:
  "status (fetchAllMatches f cr ar) = ''success'' \<or> status (fetchAllMatches f cr ar) = ''error''"
  by (cases "fetchAllMatches_try f cr ar")
     (auto simp: fetchAllMatches_def status_errorResult dest: fetchAllMatches_try_status)

lemma fetchResults_status:
  "status (fetchResults rr) = ''success'' \<or> status (fetchResults rr) = ''error''"
  by (cases "fetchResults_try rr")
     (auto simp: fetchResults_def status_errorResult dest: fetchResults_try_status)

lemma fetchAllMatches_fails:
  "listReplyFails ar \<Longrightarrow> \<exists>e. fetchAllMatches f cr ar = errorResult e"
  by (auto simp: listReplyFails_def fetchAllMatches_def fetchAllMatches_try_def thenE_def
      awaitFetch_def awaitJson_def readObject_def
      split: if_splits http_reply.splits option.splits json_body.splits sum.splits prod.splits)

lemma fetchResults_fails:
  "listReplyFails rr \<Longrightarrow> status (fetchResults rr) = ''error'' \<and> data (fetchResults rr) = [] \<and>
     message (fetchResults rr) \<noteq> None"
  by (auto simp: listReplyFails_def fetchResults_def fetchResults_try_def thenE_def errorResult_def
      awaitFetch_def awaitJson_def readObject_def
      split: if_splits http_reply.splits option.splits json_body.splits sum.splits prod.splits)

lemma triggerResultScraping_fails:
  "transportFails tr \<Longrightarrow> \<exists>e. triggerResultScraping tr = simpleError e"
  by (auto simp: transportFails_def triggerResultScraping_def triggerResultScraping_try_def thenE_def
      awaitFetch_def awaitJson_def
      split: if_splits http_reply.splits option.splits sum.splits prod.splits)

lemma fetchStats_fails:
  "transportFails tr \<Longrightarrow> \<exists>e. fetchStats tr = simpleError e"
  by (auto simp: transportFails_def fetchStats_def fetchStats_try_def thenE_def
      awaitFetch_def awaitJson_def
      split: if_splits http_reply.splits option.splits sum.splits prod.splits)

lemma triggerResultScraping_passes:
  "ok code \<Longrightarrow> triggerResultScraping (HttpReply code (Some b)) = passThrough b"
  by (simp add: triggerResultScraping_def triggerResultScraping_try_def thenE_def
      awaitFetch_def awaitJson_def)

lemma fetchStats_passes:
  "ok code \<Longrightarrow> fetchStats (HttpReply code (Some b)) = passThrough b"
  by (simp add: fetchStats_def fetchStats_try_def thenE_def awaitFetch_def awaitJson_def)

lemma fetchMatches_fails:
  "(f \<and> replyUnreadable cr) \<or> (\<not> f \<and> replyUnreadable sr) \<Longrightarrow>
     \<exists>e. fetchMatches f cr sr = errorResult e"
  by (auto simp: replyUnreadable_def fetchMatches_def fetchMatches_try_def thenE_def
      awaitFetch_def awaitJson_def readObject_def
      split: if_splits http_reply.splits option.splits json_body.splits sum.splits prod.splits)

text \<open>
  Claim C8, as the code has it. \<open>fetchMatches\<close>, \<open>fetchAllMatches\<close> and
  \<open>fetchResults\<close> always return a result whose status is \<open>success\<close> or \<open>error\<close>,
  and a rejected fetch, a status code outside 200..299, a body that does not parse, a
  \<open>null\<close> body and (for the last two) a payload whose status is not \<open>success\<close> all
  give the status \<open>error\<close> with a message and no data. \<open>triggerResultScraping\<close> and
  \<open>fetchStats\<close> turn a rejected fetch, a bad status code and a body that does not
  parse into an error object, and hand any parsed body back as it is. No method throws:
  each is a total function whose \<open>catch\<close> takes every error of its body.
  \<open>mergeArticleStatus\<close> returns the array it was given.
\<close>

theorem data_service_normalization:
  "(status (fetchMatches f cr sr) = ''success'' \<or> status (fetchMatches f cr sr) = ''error'') \<and>
   (status (fetchAllMatches f' cr' ar) = ''success'' \<or> status (fetchAllMatches f' cr' ar) = ''error'') \<and>
   (status (fetchResults rr) = ''success'' \<or> status (fetchResults rr) = ''error'') \<and>
   ((f \<and> replyUnreadable cr) \<or> (\<not> f \<and> replyUnreadable sr) \<longrightarrow>
      status (fetchMatches f cr sr) = ''error'' \<and> data (fetchMatches f cr sr) = [] \<and>
      message (fetchMatches f cr sr) \<noteq> None) \<and>
   (listReplyFails ar \<longrightarrow>
      status (fetchAllMatches f' cr' ar) = ''error'' \<and> data (fetchAllMatches f' cr' ar) = [] \<and>
      message (fetchAllMatches f' cr' ar) \<noteq> None) \<and>
   (listReplyFails rr \<longrightarrow>
      status (fetchResults rr) = ''error'' \<and> data (fetchResults rr) = [] \<and>
      message (fetchResults rr) \<noteq> None) \<and>
   (transportFails tr \<longrightarrow>
      (\<exists>m. triggerResultScraping tr = JsonObject \<lparr> sr_status = Some ''error'', sr_message = Some m \<rparr>) \<and>
      (\<exists>m. fetchStats tr = JsonObject \<lparr> sr_status = Some ''error'', sr_message = Some m \<rparr>)) \<and>
   (ok code \<longrightarrow>
      triggerResultScraping (HttpReply code (Some b)) = passThrough b \<and>
      fetchStats (HttpReply code (Some b)) = passThrough b) \<and>
   mergeArticleStatus ms = ms"
proof -
  have m: "(f \<and> replyUnreadable cr) \<or> (\<not> f \<and> replyUnreadable sr) \<longrightarrow>
      status (fetchMatches f cr sr) = ''error'' \<and> data (fetchMatches f cr sr) = [] \<and>
      message (fetchMatches f cr sr) \<noteq> None"
    using fetchMatches_fails [of f cr sr]
    by (auto simp: status_errorResult data_errorResult message_errorResult)
  have a: "listReplyFails ar \<longrightarrow>
      status (fetchAllMatches f' cr' ar) = ''error'' \<and> data (fetchAllMatches f' cr' ar) = [] \<and>
      message (fetchAllMatches f' cr' ar) \<noteq> None"
    using fetchAllMatches_fails [of ar f' cr']
    by (auto simp: status_errorResult data_errorResult message_errorResult)
  have t: "transportFails tr \<longrightarrow>
      (\<exists>m. triggerResultScraping tr = JsonObject \<lparr> sr_status = Some ''error'', sr_message = Some m \<rparr>) \<and>
      (\<exists>m. fetchStats tr = JsonObject \<lparr> sr_status = Some ''error'', sr_message = Some m \<rparr>)"
    using triggerResultScraping_fails [of tr] fetchStats_fails [of tr]
    by (auto simp: simpleError_def)
  show ?thesis
    using m a t fetchMatches_status [of f cr sr] fetchAllMatches_status [of f' cr' ar]
      fetchResults_status [of rr] fetchResults_fails [of rr]
      triggerResultScraping_passes [of code b] fetchStats_passes [of code b]
    by (simp add: mergeArticleStatus_def)
qed

theorem data_service_normalization_witness:
  "status (fetchAllMatches False (NetworkFailure []) (HttpReply 200 (Some JsonNull))) = ''error'' \<and>
   message (fetchAllMatches False (NetworkFailure []) (HttpReply 200 (Some JsonNull))) \<noteq> None \<and>
   status (fetchResults (HttpReply 500 None)) = ''error'' \<and>
   status (fetchMatches True (HttpReply 200 (Some JsonNull)) (NetworkFailure [])) = ''error'' \<and>
   data (fetchMatches True (HttpReply 200 (Some JsonNull)) (NetworkFailure [])) = [] \<and>
   (\<exists>m. fetchStats (NetworkFailure ''Failed to fetch'') =
          JsonObject \<lparr> sr_status = Some ''error'', sr_message = Some m \<rparr>) \<and>
   triggerResultScraping
     (HttpReply 200 (Some (JsonObject \<lparr> sp_status = Some ''success'', sp_message = Some ''done'' \<rparr>)))
     = JsonObject \<lparr> sr_status = Some ''success'', sr_message = Some (ServerMessage ''done'') \<rparr>"
proof -
  have h1: "listReplyFails (HttpReply 200 (Some JsonNull))"
    by (simp add: listReplyFails_def ok_def)
  have h2: "listReplyFails (HttpReply 500 None)"
    by (simp add: listReplyFails_def ok_def)
  have h3: "transportFails (NetworkFailure ''Failed to fetch'' :: simple_payload http_reply)"
    by (simp add: transportFails_def)
  have h4: "(True \<and> replyUnreadable (HttpReply 200 (Some JsonNull) :: collect_payload http_reply)) \<or>
            (\<not> True \<and> replyUnreadable (NetworkFailure [] :: list_payload http_reply))"
    by (simp add: replyUnreadable_def ok_def)
  have h5: "ok 200" by (simp add: ok_def)
  from data_service_normalization [of True "HttpReply 200 (Some JsonNull)" "NetworkFailure []" False
      "NetworkFailure []" "HttpReply 200 (Some JsonNull)" "HttpReply 500 None"
      "NetworkFailure ''Failed to fetch''" 200
      "JsonObject \<lparr> sp_status = Some ''success'', sp_message = Some ''done'' \<rparr>" "[]"]
    h1 h2 h3 h4 h5
  show ?thesis by (simp add: passThrough_def)
qed

text \<open>
  The claim as the specification words it fails: a parsed body goes through
  \<open>triggerResultScraping\<close> and \<open>fetchStats\<close> untouched, so the status of what they
  return can be anything, or missing, and the value can be \<open>null\<close>.
\<close>

theorem passthrough_status_counterexample:
  "triggerResultScraping
     (HttpReply 200 (Some (JsonObject \<lparr> sp_status = Some ''failed'', sp_message = None \<rparr>)))
     = JsonObject \<lparr> sr_status = Some ''failed'', sr_message = None \<rparr> \<and>
   triggerResultScraping (HttpReply 200 (Some JsonNull)) = JsonNull \<and>
   fetchStats (HttpReply 200 (Some (JsonObject \<lparr> sp_status = None, sp_message = None \<rparr>)))
     = JsonObject \<lparr> sr_status = None, sr_message = None \<rparr>"
  by (simp add: triggerResultScraping_def triggerResultScraping_try_def fetchStats_def
      fetchStats_try_def thenE_def awaitFetch_def awaitJson_def passThrough_def ok_def)

section \<open>Properties of the orchestrator\<close>

subsection \<open>What each operation does to each field\<close>

lemma delete_absent: "map_of al k = None \<Longrightarrow> AList.delete k al = al"
  by (simp add: map_of_eq_None_iff)

lemma send_fields [simp]:
  "state (send r s) = state s"
  "refreshingMatches (send r s) = refreshingMatches s"
  "quickPredictionTimers (send r s) = quickPredictionTimers s"
  "processingStates (send r s) = processingStates s"
  "sortedDatesCache (send r s) = sortedDatesCache s"
  "currentTaskId (send r s) = currentTaskId s"
  "quickPredictionButtonState (send r s) = quickPredictionButtonState s"
  "deepAnalysisButtonState (send r s) = deepAnalysisButtonState s"
  "quickPredictionPollingActive (send r s) = quickPredictionPollingActive s"
  "deepAnalysisPollingActive (send r s) = deepAnalysisPollingActive s"
  "quickPredictionPollingTimer (send r s) = quickPredictionPollingTimer s"
  "deepAnalysisPollingTimer (send r s) = deepAnalysisPollingTimer s"
  "timers (send r s) = timers s"
  "nextTimerId (send r s) = nextTimerId s"
  "requests (send r s) = requests s @ [r]"
  "statusLine (send r s) = statusLine s"
  "quickButton (send r s) = quickButton s"
  "deepButton (send r s) = deepButton s"
  "interruptButtonVisible (send r s) = interruptButtonVisible s"
  by (simp_all add: send_def)

lemma updateStatus_fields [simp]:
  "state (updateStatus line s) = state s"
  "refreshingMatches (updateStatus line s) = refreshingMatches s"
  "quickPredictionTimers (updateStatus line s) = quickPredictionTimers s"
  "processingStates (updateStatus line s) = processingStates s"
  "sortedDatesCache (updateStatus line s) = sortedDatesCache s"
  "currentTaskId (updateStatus line s) = currentTaskId s"
  "quickPredictionButtonState (updateStatus line s) = quickPredictionButtonState s"
  "deepAnalysisButtonState (updateStatus line s) = deepAnalysisButtonState s"
  "quickPredictionPollingActive (updateStatus line s) = quickPredictionPollingActive s"
  "deepAnalysisPollingActive (updateStatus line s) = deepAnalysisPollingActive s"
  "quickPredictionPollingTimer (updateStatus line s) = quickPredictionPollingTimer s"
  "deepAnalysisPollingTimer (updateStatus line s) = deepAnalysisPollingTimer s"
  "timers (updateStatus line s) = timers s"
  "nextTimerId (updateStatus line s) = nextTimerId s"
  "requests (updateStatus line s) = requests s"
  "statusLine (updateStatus line s) = line"
  "quickButton (updateStatus line s) = quickButton s"
  "deepButton (updateStatus line s) = deepButton s"
  "interruptButtonVisible (updateStatus line s) = interruptButtonVisible s"
  by (simp_all add: updateStatus_def)

lemma showInterruptButton_fields [simp]:
  "state (showInterruptButton b s) = state s"
  "refreshingMatches (showInterruptButton b s) = refreshingMatches s"
  "quickPredictionTimers (showInterruptButton b s) = quickPredictionTimers s"
  "processingStates (showInterruptButton b s) = processingStates s"
  "sortedDatesCache (showInterruptButton b s) = sortedDatesCache s"
  "currentTaskId (showInterruptButton b s) = currentTaskId s"
  "quickPredictionButtonState (showInterruptButton b s) = quickPredictionButtonState s"
  "deepAnalysisButtonState (showInterruptButton b s) = deepAnalysisButtonState s"
  "quickPredictionPollingActive (showInterruptButton b s) = quickPredictionPollingActive s"
  "deepAnalysisPollingActive (showInterruptButton b s) = deepAnalysisPollingActive s"
  "quickPredictionPollingTimer (showInterruptButton b s) = quickPredictionPollingTimer s"
  "deepAnalysisPollingTimer (showInterruptButton b s) = deepAnalysisPollingTimer s"
  "timers (showInterruptButton b s) = timers s"
  "nextTimerId (showInterruptButton b s) = nextTimerId s"
  "requests (showInterruptButton b s) = requests s"
  "statusLine (showInterruptButton b s) = statusLine s"
  "quickButton (showInterruptButton b s) = quickButton s"
  "deepButton (showInterruptButton b s) = deepButton s"
  "interruptButtonVisible (showInterruptButton b s) = b"
  by (simp_all add: showInterruptButton_def)

lemma clearTimeout_fields [simp]:
  "state (clearTimeout t s) = state s"
  "refreshingMatches (clearTimeout t s) = refreshingMatches s"
  "quickPredictionTimers (clearTimeout t s) = quickPredictionTimers s"
  "processingStates (clearTimeout t s) = processingStates s"
  "sortedDatesCache (clearTimeout t s) = sortedDatesCache s"
  "currentTaskId (clearTimeout t s) = currentTaskId s"
  "quickPredictionButtonState (clearTimeout t s) = quickPredictionButtonState s"
  "deepAnalysisButtonState (clearTimeout t s) = deepAnalysisButtonState s"
  "quickPredictionPollingActive (clearTimeout t s) = quickPredictionPollingActive s"
  "deepAnalysisPollingActive (clearTimeout t s) = deepAnalysisPollingActive s"
  "quickPredictionPollingTimer (clearTimeout t s) = quickPredictionPollingTimer s"
  "deepAnalysisPollingTimer (clearTimeout t s) = deepAnalysisPollingTimer s"
  "timers (clearTimeout t s) = AList.delete t (timers s)"
  "nextTimerId (clearTimeout t s) = nextTimerId s"
  "requests (clearTimeout t s) = requests s"
  "statusLine (clearTimeout t s) = statusLine s"
  "quickButton (clearTimeout t s) = quickButton s"
  "deepButton (clearTimeout t s) = deepButton s"
  "interruptButtonVisible (clearTimeout t s) = interruptButtonVisible s"
  by (simp_all add: clearTimeout_def)

lemma resetRefreshing_fields [simp]:
  "state (resetRefreshing s) = state s"
  "refreshingMatches (resetRefreshing s) = False"
  "quickPredictionTimers (resetRefreshing s) = quickPredictionTimers s"
  "processingStates (resetRefreshing s) = processingStates s"
  "sortedDatesCache (resetRefreshing s) = sortedDatesCache s"
  "currentTaskId (resetRefreshing s) = currentTaskId s"
  "quickPredictionButtonState (resetRefreshing s) = quickPredictionButtonState s"
  "deepAnalysisButtonState (resetRefreshing s) = deepAnalysisButtonState s"
  "quickPredictionPollingActive (resetRefreshing s) = quickPredictionPollingActive s"
  "deepAnalysisPollingActive (resetRefreshing s) = deepAnalysisPollingActive s"
  "quickPredictionPollingTimer (resetRefreshing s) = quickPredictionPollingTimer s"
  "deepAnalysisPollingTimer (resetRefreshing s) = deepAnalysisPollingTimer s"
  "timers (resetRefreshing s) = timers s"
  "nextTimerId (resetRefreshing s) = nextTimerId s"
  "requests (resetRefreshing s) = requests s"
  "statusLine (resetRefreshing s) = statusLine s"
  "quickButton (resetRefreshing s) = quickButton s"
  "deepButton (resetRefreshing s) = deepButton s"
  "interruptButtonVisible (resetRefreshing s) = interruptButtonVisible s"
  by (simp_all add: resetRefreshing_def)

lemma fst_setTimeout [simp]: "fst (setTimeout task delay s) = nextTimerId s"
  by (simp add: setTimeout_def)

lemma setTimeout_fields [simp]:
  "state (snd (setTimeout task delay s)) = state s"
  "refreshingMatches (snd (setTimeout task delay s)) = refreshingMatches s"
  "quickPredictionTimers (snd (setTimeout task delay s)) = quickPredictionTimers s"
  "processingStates (snd (setTimeout task delay s)) = processingStates s"
  "sortedDatesCache (snd (setTimeout task delay s)) = sortedDatesCache s"
  "currentTaskId (snd (setTimeout task delay s)) = currentTaskId s"
  "quickPredictionButtonState (snd (setTimeout task delay s)) = quickPredictionButtonState s"
  "deepAnalysisButtonState (snd (setTimeout task delay s)) = deepAnalysisButtonState s"
  "quickPredictionPollingActive (snd (setTimeout task delay s)) = quickPredictionPollingActive s"
  "deepAnalysisPollingActive (snd (setTimeout task delay s)) = deepAnalysisPollingActive s"
  "quickPredictionPollingTimer (snd (setTimeout task delay s)) = quickPredictionPollingTimer s"
  "deepAnalysisPollingTimer (snd (setTimeout task delay s)) = deepAnalysisPollingTimer s"
  "timers (snd (setTimeout task delay s)) = AList.update (nextTimerId s) (delay, task) (timers s)"
  "nextTimerId (snd (setTimeout task delay s)) = Suc (nextTimerId s)"
  "requests (snd (setTimeout task delay s)) = requests s"
  "statusLine (snd (setTimeout task delay s)) = statusLine s"
  "quickButton (snd (setTimeout task delay s)) = quickButton s"
  "deepButton (snd (setTimeout task delay s)) = deepButton s"
  "interruptButtonVisible (snd (setTimeout task delay s)) = interruptButtonVisible s"
  by (simp_all add: setTimeout_def)

lemma clearQuickPredictionTimer_fields [simp]:
  "state (clearQuickPredictionTimer c s) = state s"
  "refreshingMatches (clearQuickPredictionTimer c s) = refreshingMatches s"
  "quickPredictionTimers (clearQuickPredictionTimer c s) = AList.delete c (quickPredictionTimers s)"
  "processingStates (clearQuickPredictionTimer c s) = processingStates s"
  "sortedDatesCache (clearQuickPredictionTimer c s) = sortedDatesCache s"
  "currentTaskId (clearQuickPredictionTimer c s) = currentTaskId s"
  "quickPredictionButtonState (clearQuickPredictionTimer c s) = quickPredictionButtonState s"
  "deepAnalysisButtonState (clearQuickPredictionTimer c s) = deepAnalysisButtonState s"
  "quickPredictionPollingActive (clearQuickPredictionTimer c s) = quickPredictionPollingActive s"
  "deepAnalysisPollingActive (clearQuickPredictionTimer c s) = deepAnalysisPollingActive s"
  "quickPredictionPollingTimer (clearQuickPredictionTimer c s) = quickPredictionPollingTimer s"
  "deepAnalysisPollingTimer (clearQuickPredictionTimer c s) = deepAnalysisPollingTimer s"
  "timers (clearQuickPredictionTimer c s) = (case map_of (quickPredictionTimers s) c of None \<Rightarrow> timers s | Some t \<Rightarrow> AList.delete t (timers s))"
  "nextTimerId (clearQuickPredictionTimer c s) = nextTimerId s"
  "requests (clearQuickPredictionTimer c s) = requests s"
  "statusLine (clearQuickPredictionTimer c s) = statusLine s"
  "quickButton (clearQuickPredictionTimer c s) = quickButton s"
  "deepButton (clearQuickPredictionTimer c s) = deepButton s"
  "interruptButtonVisible (clearQuickPredictionTimer c s) = interruptButtonVisible s"
  by (simp_all add: clearQuickPredictionTimer_def clearTimeout_def delete_absent split: option.splits)

lemma setMatchProcessing_None_fields [simp]:
  "state (setMatchProcessing c None s) = state s"
  "refreshingMatches (setMatchProcessing c None s) = refreshingMatches s"
  "quickPredictionTimers (setMatchProcessing c None s) = AList.delete c (quickPredictionTimers s)"
  "processingStates (setMatchProcessing c None s) = AList.delete c (processingStates s)"
  "sortedDatesCache (setMatchProcessing c None s) = sortedDatesCache s"
  "currentTaskId (setMatchProcessing c None s) = currentTaskId s"
  "quickPredictionButtonState (setMatchProcessing c None s) = quickPredictionButtonState s"
  "deepAnalysisButtonState (setMatchProcessing c None s) = deepAnalysisButtonState s"
  "quickPredictionPollingActive (setMatchProcessing c None s) = quickPredictionPollingActive s"
  "deepAnalysisPollingActive (setMatchProcessing c None s) = deepAnalysisPollingActive s"
  "quickPredictionPollingTimer (setMatchProcessing c None s) = quickPredictionPollingTimer s"
  "deepAnalysisPollingTimer (setMatchProcessing c None s) = deepAnalysisPollingTimer s"
  "timers (setMatchProcessing c None s) = (case map_of (quickPredictionTimers s) c of None \<Rightarrow> timers s | Some t \<Rightarrow> AList.delete t (timers s))"
  "nextTimerId (setMatchProcessing c None s) = nextTimerId s"
  "requests (setMatchProcessing c None s) = requests s"
  "statusLine (setMatchProcessing c None s) = statusLine s"
  "quickButton (setMatchProcessing c None s) = quickButton s"
  "deepButton (setMatchProcessing c None s) = deepButton s"
  "interruptButtonVisible (setMatchProcessing c None s) = interruptButtonVisible s"
  by (simp_all add: setMatchProcessing_def split: option.splits)

lemma setMatchProcessing_Some_fields [simp]:
  "state (setMatchProcessing c (Some t) s) = state s"
  "refreshingMatches (setMatchProcessing c (Some t) s) = refreshingMatches s"
  "quickPredictionTimers (setMatchProcessing c (Some t) s) = quickPredictionTimers s"
  "processingStates (setMatchProcessing c (Some t) s) = AList.update c t (processingStates s)"
  "sortedDatesCache (setMatchProcessing c (Some t) s) = sortedDatesCache s"
  "currentTaskId (setMatchProcessing c (Some t) s) = currentTaskId s"
  "quickPredictionButtonState (setMatchProcessing c (Some t) s) = quickPredictionButtonState s"
  "deepAnalysisButtonState (setMatchProcessing c (Some t) s) = deepAnalysisButtonState s"
  "quickPredictionPollingActive (setMatchProcessing c (Some t) s) = quickPredictionPollingActive s"
  "deepAnalysisPollingActive (setMatchProcessing c (Some t) s) = deepAnalysisPollingActive s"
  "quickPredictionPollingTimer (setMatchProcessing c (Some t) s) = quickPredictionPollingTimer s"
  "deepAnalysisPollingTimer (setMatchProcessing c (Some t) s) = deepAnalysisPollingTimer s"
  "timers (setMatchProcessing c (Some t) s) = timers s"
  "nextTimerId (setMatchProcessing c (Some t) s) = nextTimerId s"
  "requests (setMatchProcessing c (Some t) s) = requests s"
  "statusLine (setMatchProcessing c (Some t) s) = statusLine s"
  "quickButton (setMatchProcessing c (Some t) s) = quickButton s"
  "deepButton (setMatchProcessing c (Some t) s) = deepButton s"
  "interruptButtonVisible (setMatchProcessing c (Some t) s) = interruptButtonVisible s"
  by (simp_all add: setMatchProcessing_def)

lemma restoreQuickPredictionButton_fields [simp]:
  "state (restoreQuickPredictionButton s) = state s"
  "refreshingMatches (restoreQuickPredictionButton s) = refreshingMatches s"
  "quickPredictionTimers (restoreQuickPredictionButton s) = quickPredictionTimers s"
  "processingStates (restoreQuickPredictionButton s) = processingStates s"
  "sortedDatesCache (restoreQuickPredictionButton s) = sortedDatesCache s"
  "currentTaskId (restoreQuickPredictionButton s) = currentTaskId s"
  "quickPredictionButtonState (restoreQuickPredictionButton s) = None"
  "deepAnalysisButtonState (restoreQuickPredictionButton s) = deepAnalysisButtonState s"
  "quickPredictionPollingActive (restoreQuickPredictionButton s) = quickPredictionPollingActive s"
  "deepAnalysisPollingActive (restoreQuickPredictionButton s) = deepAnalysisPollingActive s"
  "quickPredictionPollingTimer (restoreQuickPredictionButton s) = quickPredictionPollingTimer s"
  "deepAnalysisPollingTimer (restoreQuickPredictionButton s) = deepAnalysisPollingTimer s"
  "timers (restoreQuickPredictionButton s) = timers s"
  "nextTimerId (restoreQuickPredictionButton s) = nextTimerId s"
  "requests (restoreQuickPredictionButton s) = requests s"
  "statusLine (restoreQuickPredictionButton s) = statusLine s"
  "quickButton (restoreQuickPredictionButton s) = \<lparr> disabled = False, label = (case quickPredictionButtonState s of None \<Rightarrow> DefaultLabel | Some l \<Rightarrow> l) \<rparr>"
  "deepButton (restoreQuickPredictionButton s) = deepButton s"
  "interruptButtonVisible (restoreQuickPredictionButton s) = interruptButtonVisible s"
  by (simp_all add: restoreQuickPredictionButton_def)

lemma restoreDeepAnalysisButton_fields [simp]:
  "state (restoreDeepAnalysisButton s) = state s"
  "refreshingMatches (restoreDeepAnalysisButton s) = refreshingMatches s"
  "quickPredictionTimers (restoreDeepAnalysisButton s) = quickPredictionTimers s"
  "processingStates (restoreDeepAnalysisButton s) = processingStates s"
  "sortedDatesCache (restoreDeepAnalysisButton s) = sortedDatesCache s"
  "currentTaskId (restoreDeepAnalysisButton s) = currentTaskId s"
  "quickPredictionButtonState (restoreDeepAnalysisButton s) = quickPredictionButtonState s"
  "deepAnalysisButtonState (restoreDeepAnalysisButton s) = None"
  "quickPredictionPollingActive (restoreDeepAnalysisButton s) = quickPredictionPollingActive s"
  "deepAnalysisPollingActive (restoreDeepAnalysisButton s) = deepAnalysisPollingActive s"
  "quickPredictionPollingTimer (restoreDeepAnalysisButton s) = quickPredictionPollingTimer s"
  "deepAnalysisPollingTimer (restoreDeepAnalysisButton s) = deepAnalysisPollingTimer s"
  "timers (restoreDeepAnalysisButton s) = timers s"
  "nextTimerId (restoreDeepAnalysisButton s) = nextTimerId s"
  "requests (restoreDeepAnalysisButton s) = requests s"
  "statusLine (restoreDeepAnalysisButton s) = statusLine s"
  "quickButton (restoreDeepAnalysisButton s) = quickButton s"
  "deepButton (restoreDeepAnalysisButton s) = \<lparr> disabled = False, label = (case deepAnalysisButtonState s of None \<Rightarrow> DefaultLabel | Some l \<Rightarrow> l) \<rparr>"
  "interruptButtonVisible (restoreDeepAnalysisButton s) = interruptButtonVisible s"
  by (simp_all add: restoreDeepAnalysisButton_def)

lemma stopQuickPredictionPolling_fields [simp]:
  "state (stopQuickPredictionPolling s) = state s"
  "refreshingMatches (stopQuickPredictionPolling s) = refreshingMatches s"
  "quickPredictionTimers (stopQuickPredictionPolling s) = quickPredictionTimers s"
  "processingStates (stopQuickPredictionPolling s) = processingStates s"
  "sortedDatesCache (stopQuickPredictionPolling s) = sortedDatesCache s"
  "currentTaskId (stopQuickPredictionPolling s) = currentTaskId s"
  "quickPredictionButtonState (stopQuickPredictionPolling s) = quickPredictionButtonState s"
  "deepAnalysisButtonState (stopQuickPredictionPolling s) = deepAnalysisButtonState s"
  "quickPredictionPollingActive (stopQuickPredictionPolling s) = False"
  "deepAnalysisPollingActive (stopQuickPredictionPolling s) = deepAnalysisPollingActive s"
  "quickPredictionPollingTimer (stopQuickPredictionPolling s) = None"
  "deepAnalysisPollingTimer (stopQuickPredictionPolling s) = deepAnalysisPollingTimer s"
  "timers (stopQuickPredictionPolling s) = (case quickPredictionPollingTimer s of None \<Rightarrow> timers s | Some t \<Rightarrow> AList.delete t (timers s))"
  "nextTimerId (stopQuickPredictionPolling s) = nextTimerId s"
  "requests (stopQuickPredictionPolling s) = requests s"
  "statusLine (stopQuickPredictionPolling s) = statusLine s"
  "quickButton (stopQuickPredictionPolling s) = quickButton s"
  "deepButton (stopQuickPredictionPolling s) = deepButton s"
  "interruptButtonVisible (stopQuickPredictionPolling s) = interruptButtonVisible s"
  by (simp_all add: stopQuickPredictionPolling_def clearTimeout_def Let_def split: option.splits)

lemma stopDeepAnalysisPolling_fields [simp]:
  "state (stopDeepAnalysisPolling s) = state s"
  "refreshingMatches (stopDeepAnalysisPolling s) = refreshingMatches s"
  "quickPredictionTimers (stopDeepAnalysisPolling s) = quickPredictionTimers s"
  "processingStates (stopDeepAnalysisPolling s) = processingStates s"
  "sortedDatesCache (stopDeepAnalysisPolling s) = sortedDatesCache s"
  "currentTaskId (stopDeepAnalysisPolling s) = currentTaskId s"
  "quickPredictionButtonState (stopDeepAnalysisPolling s) = quickPredictionButtonState s"
  "deepAnalysisButtonState (stopDeepAnalysisPolling s) = deepAnalysisButtonState s"
  "quickPredictionPollingActive (stopDeepAnalysisPolling s) = quickPredictionPollingActive s"
  "deepAnalysisPollingActive (stopDeepAnalysisPolling s) = False"
  "quickPredictionPollingTimer (stopDeepAnalysisPolling s) = quickPredictionPollingTimer s"
  "deepAnalysisPollingTimer (stopDeepAnalysisPolling s) = None"
  "timers (stopDeepAnalysisPolling s) = (case deepAnalysisPollingTimer s of None \<Rightarrow> timers s | Some t \<Rightarrow> AList.delete t (timers s))"
  "nextTimerId (stopDeepAnalysisPolling s) = nextTimerId s"
  "requests (stopDeepAnalysisPolling s) = requests s"
  "statusLine (stopDeepAnalysisPolling s) = statusLine s"
  "quickButton (stopDeepAnalysisPolling s) = quickButton s"
  "deepButton (stopDeepAnalysisPolling s) = deepButton s"
  "interruptButtonVisible (stopDeepAnalysisPolling s) = interruptButtonVisible s"
  by (simp_all add: stopDeepAnalysisPolling_def clearTimeout_def Let_def split: option.splits)

lemma showDateContent_fields [simp]:
  "state (showDateContent d s) = setState (noUpdates\<lparr> upd_selectedDate := Some (Some d) \<rparr>) (state s)"
  "refreshingMatches (showDateContent d s) = refreshingMatches s"
  "quickPredictionTimers (showDateContent d s) = quickPredictionTimers s"
  "processingStates (showDateContent d s) = processingStates s"
  "sortedDatesCache (showDateContent d s) = sortedDatesCache s"
  "currentTaskId (showDateContent d s) = currentTaskId s"
  "quickPredictionButtonState (showDateContent d s) = quickPredictionButtonState s"
  "deepAnalysisButtonState (showDateContent d s) = deepAnalysisButtonState s"
  "quickPredictionPollingActive (showDateContent d s) = quickPredictionPollingActive s"
  "deepAnalysisPollingActive (showDateContent d s) = deepAnalysisPollingActive s"
  "quickPredictionPollingTimer (showDateContent d s) = quickPredictionPollingTimer s"
  "deepAnalysisPollingTimer (showDateContent d s) = deepAnalysisPollingTimer s"
  "timers (showDateContent d s) = timers s"
  "nextTimerId (showDateContent d s) = nextTimerId s"
  "requests (showDateContent d s) = requests s"
  "statusLine (showDateContent d s) = statusLine s"
  "quickButton (showDateContent d s) = quickButton s"
  "deepButton (showDateContent d s) = deepButton s"
  "interruptButtonVisible (showDateContent d s) = interruptButtonVisible s"
  by (simp_all add: showDateContent_def)

lemma renderMergedTable_fields [simp]:
  "state (renderMergedTable ms s) = state s"
  "refreshingMatches (renderMergedTable ms s) = refreshingMatches s"
  "quickPredictionTimers (renderMergedTable ms s) = quickPredictionTimers s"
  "processingStates (renderMergedTable ms s) = processingStates s"
  "sortedDatesCache (renderMergedTable ms s) = (if ms = [] then sortedDatesCache s else rev (sort (map fst (groupByDate extractMatchDateKey ms))))"
  "currentTaskId (renderMergedTable ms s) = currentTaskId s"
  "quickPredictionButtonState (renderMergedTable ms s) = quickPredictionButtonState s"
  "deepAnalysisButtonState (renderMergedTable ms s) = deepAnalysisButtonState s"
  "quickPredictionPollingActive (renderMergedTable ms s) = quickPredictionPollingActive s"
  "deepAnalysisPollingActive (renderMergedTable ms s) = deepAnalysisPollingActive s"
  "quickPredictionPollingTimer (renderMergedTable ms s) = quickPredictionPollingTimer s"
  "deepAnalysisPollingTimer (renderMergedTable ms s) = deepAnalysisPollingTimer s"
  "timers (renderMergedTable ms s) = timers s"
  "nextTimerId (renderMergedTable ms s) = nextTimerId s"
  "requests (renderMergedTable ms s) = requests s"
  "statusLine (renderMergedTable ms s) = statusLine s"
  "quickButton (renderMergedTable ms s) = quickButton s"
  "deepButton (renderMergedTable ms s) = deepButton s"
  "interruptButtonVisible (renderMergedTable ms s) = interruptButtonVisible s"
  by (simp_all add: renderMergedTable_def)

lemma scheduleProcessingRefresh_fields [simp]:
  "state (scheduleProcessingRefresh c ty ma iv s) = state s"
  "refreshingMatches (scheduleProcessingRefresh c ty ma iv s) = refreshingMatches s"
  "quickPredictionTimers (scheduleProcessingRefresh c ty ma iv s) = AList.update c (nextTimerId s) (AList.delete c (quickPredictionTimers s))"
  "processingStates (scheduleProcessingRefresh c ty ma iv s) = processingStates s"
  "sortedDatesCache (scheduleProcessingRefresh c ty ma iv s) = sortedDatesCache s"
  "currentTaskId (scheduleProcessingRefresh c ty ma iv s) = currentTaskId s"
  "quickPredictionButtonState (scheduleProcessingRefresh c ty ma iv s) = quickPredictionButtonState s"
  "deepAnalysisButtonState (scheduleProcessingRefresh c ty ma iv s) = deepAnalysisButtonState s"
  "quickPredictionPollingActive (scheduleProcessingRefresh c ty ma iv s) = quickPredictionPollingActive s"
  "deepAnalysisPollingActive (scheduleProcessingRefresh c ty ma iv s) = deepAnalysisPollingActive s"
  "quickPredictionPollingTimer (scheduleProcessingRefresh c ty ma iv s) = quickPredictionPollingTimer s"
  "deepAnalysisPollingTimer (scheduleProcessingRefresh c ty ma iv s) = deepAnalysisPollingTimer s"
  "timers (scheduleProcessingRefresh c ty ma iv s) = AList.update (nextTimerId s) ((case iv of Some n \<Rightarrow> n | None \<Rightarrow> if ty = Deep then 10000 else 5000), LoopTick \<lparr> lc_matchCode = c, lc_type = ty, lc_attemptsLimit = (case ma of Some n \<Rightarrow> n | None \<Rightarrow> if ty = Deep then 18 else 5), lc_interval = (case iv of Some n \<Rightarrow> n | None \<Rightarrow> if ty = Deep then 10000 else 5000), lc_attempts = 0 \<rparr>) (case map_of (quickPredictionTimers s) c of None \<Rightarrow> timers s | Some t \<Rightarrow> AList.delete t (timers s))"
  "nextTimerId (scheduleProcessingRefresh c ty ma iv s) = Suc (nextTimerId s)"
  "requests (scheduleProcessingRefresh c ty ma iv s) = requests s"
  "statusLine (scheduleProcessingRefresh c ty ma iv s) = statusLine s"
  "quickButton (scheduleProcessingRefresh c ty ma iv s) = quickButton s"
  "deepButton (scheduleProcessingRefresh c ty ma iv s) = deepButton s"
  "interruptButtonVisible (scheduleProcessingRefresh c ty ma iv s) = interruptButtonVisible s"
  by (simp_all add: scheduleProcessingRefresh_def Let_def split_beta)

lemma quickPoll_reschedule_fields [simp]:
  "state (quickPoll_reschedule taskId s) = state s"
  "refreshingMatches (quickPoll_reschedule taskId s) = refreshingMatches s"
  "quickPredictionTimers (quickPoll_reschedule taskId s) = quickPredictionTimers s"
  "processingStates (quickPoll_reschedule taskId s) = processingStates s"
  "sortedDatesCache (quickPoll_reschedule taskId s) = sortedDatesCache s"
  "currentTaskId (quickPoll_reschedule taskId s) = currentTaskId s"
  "quickPredictionButtonState (quickPoll_reschedule taskId s) = quickPredictionButtonState s"
  "deepAnalysisButtonState (quickPoll_reschedule taskId s) = deepAnalysisButtonState s"
  "quickPredictionPollingActive (quickPoll_reschedule taskId s) = quickPredictionPollingActive s"
  "deepAnalysisPollingActive (quickPoll_reschedule taskId s) = deepAnalysisPollingActive s"
  "quickPredictionPollingTimer (quickPoll_reschedule taskId s) = (if quickPredictionPollingActive s then Some (nextTimerId s) else quickPredictionPollingTimer s)"
  "deepAnalysisPollingTimer (quickPoll_reschedule taskId s) = deepAnalysisPollingTimer s"
  "timers (quickPoll_reschedule taskId s) = (if quickPredictionPollingActive s then AList.update (nextTimerId s) (3000, QuickPoll taskId) (timers s) else timers s)"
  "nextTimerId (quickPoll_reschedule taskId s) = (if quickPredictionPollingActive s then Suc (nextTimerId s) else nextTimerId s)"
  "requests (quickPoll_reschedule taskId s) = requests s"
  "statusLine (quickPoll_reschedule taskId s) = statusLine s"
  "quickButton (quickPoll_reschedule taskId s) = quickButton s"
  "deepButton (quickPoll_reschedule taskId s) = deepButton s"
  "interruptButtonVisible (quickPoll_reschedule taskId s) = interruptButtonVisible s"
  by (simp_all add: quickPoll_reschedule_def split_beta)

lemma deepPoll_reschedule_fields [simp]:
  "state (deepPoll_reschedule taskId s) = state s"
  "refreshingMatches (deepPoll_reschedule taskId s) = refreshingMatches s"
  "quickPredictionTimers (deepPoll_reschedule taskId s) = quickPredictionTimers s"
  "processingStates (deepPoll_reschedule taskId s) = processingStates s"
  "sortedDatesCache (deepPoll_reschedule taskId s) = sortedDatesCache s"
  "currentTaskId (deepPoll_reschedule taskId s) = currentTaskId s"
  "quickPredictionButtonState (deepPoll_reschedule taskId s) = quickPredictionButtonState s"
  "deepAnalysisButtonState (deepPoll_reschedule taskId s) = deepAnalysisButtonState s"
  "quickPredictionPollingActive (deepPoll_reschedule taskId s) = quickPredictionPollingActive s"
  "deepAnalysisPollingActive (deepPoll_reschedule taskId s) = deepAnalysisPollingActive s"
  "quickPredictionPollingTimer (deepPoll_reschedule taskId s) = quickPredictionPollingTimer s"
  "deepAnalysisPollingTimer (deepPoll_reschedule taskId s) = (if deepAnalysisPollingActive s then Some (nextTimerId s) else deepAnalysisPollingTimer s)"
  "timers (deepPoll_reschedule taskId s) = (if deepAnalysisPollingActive s then AList.update (nextTimerId s) (3000, DeepPoll taskId) (timers s) else timers s)"
  "nextTimerId (deepPoll_reschedule taskId s) = (if deepAnalysisPollingActive s then Suc (nextTimerId s) else nextTimerId s)"
  "requests (deepPoll_reschedule taskId s) = requests s"
  "statusLine (deepPoll_reschedule taskId s) = statusLine s"
  "quickButton (deepPoll_reschedule taskId s) = quickButton s"
  "deepButton (deepPoll_reschedule taskId s) = deepButton s"
  "interruptButtonVisible (deepPoll_reschedule taskId s) = interruptButtonVisible s"
  by (simp_all add: deepPoll_reschedule_def split_beta)

lemma handleQuickPredictionNotFound_fields [simp]:
  "state (handleQuickPredictionNotFound s) = state s"
  "refreshingMatches (handleQuickPredictionNotFound s) = refreshingMatches s"
  "quickPredictionTimers (handleQuickPredictionNotFound s) = quickPredictionTimers s"
  "processingStates (handleQuickPredictionNotFound s) = processingStates s"
  "sortedDatesCache (handleQuickPredictionNotFound s) = sortedDatesCache s"
  "currentTaskId (handleQuickPredictionNotFound s) = None"
  "quickPredictionButtonState (handleQuickPredictionNotFound s) = None"
  "deepAnalysisButtonState (handleQuickPredictionNotFound s) = deepAnalysisButtonState s"
  "quickPredictionPollingActive (handleQuickPredictionNotFound s) = False"
  "deepAnalysisPollingActive (handleQuickPredictionNotFound s) = deepAnalysisPollingActive s"
  "quickPredictionPollingTimer (handleQuickPredictionNotFound s) = None"
  "deepAnalysisPollingTimer (handleQuickPredictionNotFound s) = deepAnalysisPollingTimer s"
  "timers (handleQuickPredictionNotFound s) = (case quickPredictionPollingTimer s of None \<Rightarrow> timers s | Some t \<Rightarrow> AList.delete t (timers s))"
  "nextTimerId (handleQuickPredictionNotFound s) = nextTimerId s"
  "requests (handleQuickPredictionNotFound s) = requests s"
  "statusLine (handleQuickPredictionNotFound s) = StatusQuickNotFound"
  "quickButton (handleQuickPredictionNotFound s) = \<lparr> disabled = False, label = (case quickPredictionButtonState s of None \<Rightarrow> DefaultLabel | Some l \<Rightarrow> l) \<rparr>"
  "deepButton (handleQuickPredictionNotFound s) = deepButton s"
  "interruptButtonVisible (handleQuickPredictionNotFound s) = False"
  by (simp_all add: handleQuickPredictionNotFound_def)

lemma handleDeepAnalysisNotFound_fields [simp]:
  "state (handleDeepAnalysisNotFound s) = state s"
  "refreshingMatches (handleDeepAnalysisNotFound s) = refreshingMatches s"
  "quickPredictionTimers (handleDeepAnalysisNotFound s) = quickPredictionTimers s"
  "processingStates (handleDeepAnalysisNotFound s) = processingStates s"
  "sortedDatesCache (handleDeepAnalysisNotFound s) = sortedDatesCache s"
  "currentTaskId (handleDeepAnalysisNotFound s) = None"
  "quickPredictionButtonState (handleDeepAnalysisNotFound s) = quickPredictionButtonState s"
  "deepAnalysisButtonState (handleDeepAnalysisNotFound s) = None"
  "quickPredictionPollingActive (handleDeepAnalysisNotFound s) = quickPredictionPollingActive s"
  "deepAnalysisPollingActive (handleDeepAnalysisNotFound s) = False"
  "quickPredictionPollingTimer (handleDeepAnalysisNotFound s) = quickPredictionPollingTimer s"
  "deepAnalysisPollingTimer (handleDeepAnalysisNotFound s) = None"
  "timers (handleDeepAnalysisNotFound s) = (case deepAnalysisPollingTimer s of None \<Rightarrow> timers s | Some t \<Rightarrow> AList.delete t (timers s))"
  "nextTimerId (handleDeepAnalysisNotFound s) = nextTimerId s"
  "requests (handleDeepAnalysisNotFound s) = requests s"
  "statusLine (handleDeepAnalysisNotFound s) = StatusDeepNotFound"
  "quickButton (handleDeepAnalysisNotFound s) = quickButton s"
  "deepButton (handleDeepAnalysisNotFound s) = \<lparr> disabled = False, label = (case deepAnalysisButtonState s of None \<Rightarrow> DefaultLabel | Some l \<Rightarrow> l) \<rparr>"
  "interruptButtonVisible (handleDeepAnalysisNotFound s) = False"
  by (simp_all add: handleDeepAnalysisNotFound_def)

lemma interrupt_onReply_success:
  assumes "interruptSucceeds reply"
  shows "\<exists>line. interrupt_onReply reply s =
     restoreDeepAnalysisButton
       (restoreQuickPredictionButton
          ((showInterruptButton False
              (stopDeepAnalysisPolling
                 (stopQuickPredictionPolling (updateStatus line s))))
             \<lparr> currentTaskId := None \<rparr>))"
  using assms
  by (auto simp: interruptSucceeds_def interrupt_onReply_def parsedData_def
      split: http_reply.splits option.splits json_body.splits)

text \<open>
  Claim C4, as the code has it. When the interrupt-all request succeeds, both batch
  pollers stop in that pass: their latches are cleared, their pending timeouts are
  cancelled, a poll that still runs sends nothing, the interrupt button is hidden, the
  task id is forgotten and both trigger buttons are enabled again. Per-entity processing
  state, the timer registry and every other pending timeout are left as they were.
\<close>

theorem interrupt_stops_pollers_only:
  assumes "interruptSucceeds reply"
  shows "\<not> quickPredictionPollingActive (interruptCurrentTask True reply s) \<and>
         \<not> deepAnalysisPollingActive (interruptCurrentTask True reply s) \<and>
         quickPredictionPollingTimer (interruptCurrentTask True reply s) = None \<and>
         deepAnalysisPollingTimer (interruptCurrentTask True reply s) = None \<and>
         (\<forall>t. quickPredictionPollingTimer s = Some t \<or> deepAnalysisPollingTimer s = Some t \<longrightarrow>
              map_of (timers (interruptCurrentTask True reply s)) t = None) \<and>
         (\<forall>t. quickPredictionPollingTimer s \<noteq> Some t \<and> deepAnalysisPollingTimer s \<noteq> Some t \<longrightarrow>
              map_of (timers (interruptCurrentTask True reply s)) t = map_of (timers s) t) \<and>
         fst (quickPoll_begin taskId (interruptCurrentTask True reply s)) = interruptCurrentTask True reply s \<and>
         fst (deepPoll_begin taskId (interruptCurrentTask True reply s)) = interruptCurrentTask True reply s \<and>
         \<not> interruptButtonVisible (interruptCurrentTask True reply s) \<and>
         currentTaskId (interruptCurrentTask True reply s) = None \<and>
         \<not> disabled (quickButton (interruptCurrentTask True reply s)) \<and>
         \<not> disabled (deepButton (interruptCurrentTask True reply s)) \<and>
         processingStates (interruptCurrentTask True reply s) = processingStates s \<and>
         quickPredictionTimers (interruptCurrentTask True reply s) = quickPredictionTimers s \<and>
         requests (interruptCurrentTask True reply s) = requests s @ [PostInterruptAll]"
proof -
  obtain line where eq: "interruptCurrentTask True reply s =
     restoreDeepAnalysisButton
       (restoreQuickPredictionButton
          ((showInterruptButton False
              (stopDeepAnalysisPolling
                 (stopQuickPredictionPolling (updateStatus line (send PostInterruptAll s)))))
             \<lparr> currentTaskId := None \<rparr>))"
    using interrupt_onReply_success [OF assms, of "send PostInterruptAll s"]
    by (auto simp: interruptCurrentTask_def interrupt_begin_def)
  show ?thesis
    unfolding eq
    by (simp add: quickPoll_begin_def deepPoll_begin_def delete_conv' split: option.splits)
qed

theorem interrupt_stops_pollers_only_witness:
  "interruptSucceeds successReply \<and>
   quickPredictionPollingActive pollingManager \<and>
   map_of (timers pollingManager) 1 = Some (3000, QuickPoll ''T1'') \<and>
   \<not> quickPredictionPollingActive (interruptCurrentTask True successReply pollingManager) \<and>
   map_of (timers (interruptCurrentTask True successReply pollingManager)) 1 = None \<and>
   requests (interruptCurrentTask True successReply pollingManager) = [PostInterruptAll]"
proof -
  have h: "interruptSucceeds successReply"
    by (simp add: interruptSucceeds_def successReply_def ok_def)
  have q: "quickPredictionPollingTimer pollingManager = Some 1"
    by (simp add: pollingManager_def)
  from interrupt_stops_pollers_only [OF h, of pollingManager] q h
  show ?thesis
    by (simp add: pollingManager_def newManager_def)
qed

text \<open>
  The claim as the specification words it fails: a successful interrupt leaves the
  per-entity processing state and the self-healing timer of a code as they were.
\<close>

theorem interrupt_keeps_processing_counterexample:
  "getMatchProcessingType
     (scheduleProcessingRefresh ''A001'' Quick None None
        (setMatchProcessing ''A001'' (Some Quick) newManager)) ''A001'' = Some Quick \<and>
   getMatchProcessingType
     (interruptCurrentTask True successReply
        (scheduleProcessingRefresh ''A001'' Quick None None
           (setMatchProcessing ''A001'' (Some Quick) newManager))) ''A001'' = Some Quick \<and>
   map_of (timers
     (interruptCurrentTask True successReply
        (scheduleProcessingRefresh ''A001'' Quick None None
           (setMatchProcessing ''A001'' (Some Quick) newManager)))) 1
     = Some (5000, LoopTick \<lparr> lc_matchCode = ''A001'', lc_type = Quick, lc_attemptsLimit = 5,
                               lc_interval = 5000, lc_attempts = 0 \<rparr>)"
proof -
  have h: "interruptSucceeds successReply"
    by (simp add: interruptSucceeds_def successReply_def ok_def)
  obtain line where eq: "\<And>s. interruptCurrentTask True successReply s =
     restoreDeepAnalysisButton
       (restoreQuickPredictionButton
          ((showInterruptButton False
              (stopDeepAnalysisPolling
                 (stopQuickPredictionPolling (updateStatus line (send PostInterruptAll s)))))
             \<lparr> currentTaskId := None \<rparr>))"
    by (simp add: interruptCurrentTask_def interrupt_begin_def interrupt_onReply_def
        parsedData_def successReply_def ok_def)
  show ?thesis
    unfolding eq
    by (simp add: getMatchProcessingType_def newManager_def)
qed

subsection \<open>Batch polling\<close>

lemma handleQuickPredictionStatus_running:
  assumes "t_status t = Some ''pending'' \<or> t_status t = Some ''running''"
  shows "handleQuickPredictionStatus (Some t) s =
     updateStatus (StatusQuickInProgress
            (progressText (orZero (orElse (t_completed_matches t) (t_success_count t)))
                          (orZero (orElse (t_total_matches t) (t_match_count t))))
            (describeTaskStep (t_current_step t) (t_current_match t))) s"
  using assms unfolding handleQuickPredictionStatus_def Let_def
  by (simp only: option.case if_True)

lemma quickPoll_running:
  assumes "stillRunning reply t"
  shows "quickPoll_onReply taskId reply s =
     quickPoll_reschedule taskId
       (updateStatus (StatusQuickInProgress
            (progressText (orZero (orElse (t_completed_matches t) (t_success_count t)))
                          (orZero (orElse (t_total_matches t) (t_match_count t))))
            (describeTaskStep (t_current_step t) (t_current_match t))) s)"
proof (cases reply)
  case (NetworkFailure m)
  with assms show ?thesis by (simp add: stillRunning_def)
next
  case (HttpReply code body)
  with assms obtain p where p: "parsedData body = Some p" "code \<noteq> 404"
      "tp_status p = Some ''success''" "tp_data p = Some t"
      "t_status t = Some ''pending'' \<or> t_status t = Some ''running''"
    by (auto simp: stillRunning_def split: option.splits)
  show ?thesis
    unfolding quickPoll_onReply_def HttpReply
    by (simp add: p handleQuickPredictionStatus_running [OF p(5)])
qed

lemma quickPoll_gone:
  assumes "taskGone reply"
  shows "quickPoll_onReply taskId reply s = handleQuickPredictionNotFound s"
proof (cases reply)
  case (NetworkFailure m)
  with assms show ?thesis by (simp add: taskGone_def)
next
  case (HttpReply code body)
  with assms have "code = 404 \<or> (case parsedData body of None \<Rightarrow> False | Some p \<Rightarrow> tp_status p = Some ''error'')"
    by (simp add: taskGone_def)
  then show ?thesis
    unfolding quickPoll_onReply_def HttpReply by (simp add: Let_def)
qed

lemma quickPoll_transient:
  assumes "transientFailure reply"
  shows "quickPoll_onReply taskId reply s = quickPoll_reschedule taskId s"
proof (cases reply)
  case (NetworkFailure m)
  then show ?thesis by (simp add: quickPoll_onReply_def)
next
  case (HttpReply code body)
  with assms have "code \<noteq> 404" "parsedData body = None"
    by (simp_all add: transientFailure_def)
  then show ?thesis
    unfolding quickPoll_onReply_def HttpReply by (simp add: Let_def)
qed

lemma handleDeepAnalysisStatus_running:
  assumes "t_status t = Some ''pending'' \<or> t_status t = Some ''running''"
  shows "handleDeepAnalysisStatus (Some t) s =
     updateStatus (StatusDeepInProgress
            (progressText (orZero (t_completed_matches t))
                          (orZero (orElse (t_total_matches t) (t_match_count t))))
            (describeTaskStep (t_current_step t) (t_current_match t))) s"
  using assms unfolding handleDeepAnalysisStatus_def Let_def
  by (simp only: option.case if_True)

lemma deepPoll_running:
  assumes "stillRunning reply t"
  shows "deepPoll_onReply taskId reply s =
     deepPoll_reschedule taskId
       (updateStatus (StatusDeepInProgress
            (progressText (orZero (t_completed_matches t))
                          (orZero (orElse (t_total_matches t) (t_match_count t))))
            (describeTaskStep (t_current_step t) (t_current_match t))) s)"
proof (cases reply)
  case (NetworkFailure m)
  with assms show ?thesis by (simp add: stillRunning_def)
next
  case (HttpReply code body)
  with assms obtain p where p: "parsedData body = Some p" "code \<noteq> 404"
      "tp_status p = Some ''success''" "tp_data p = Some t"
      "t_status t = Some ''pending'' \<or> t_status t = Some ''running''"
    by (auto simp: stillRunning_def split: option.splits)
  show ?thesis
    unfolding deepPoll_onReply_def HttpReply
    by (simp add: p handleDeepAnalysisStatus_running [OF p(5)])
qed

lemma deepPoll_gone:
  assumes "taskGone reply"
  shows "deepPoll_onReply taskId reply s = handleDeepAnalysisNotFound s"
proof (cases reply)
  case (NetworkFailure m)
  with assms show ?thesis by (simp add: taskGone_def)
next
  case (HttpReply code body)
  with assms have "code = 404 \<or> (case parsedData body of None \<Rightarrow> False | Some p \<Rightarrow> tp_status p = Some ''error'')"
    by (simp add: taskGone_def)
  then show ?thesis
    unfolding deepPoll_onReply_def HttpReply by (simp add: Let_def)
qed

lemma deepPoll_transient:
  assumes "transientFailure reply"
  shows "deepPoll_onReply taskId reply s = deepPoll_reschedule taskId s"
proof (cases reply)
  case (NetworkFailure m)
  then show ?thesis by (simp add: deepPoll_onReply_def)
next
  case (HttpReply code body)
  with assms have "code \<noteq> 404" "parsedData body = None"
    by (simp_all add: transientFailure_def)
  then show ?thesis
    unfolding deepPoll_onReply_def HttpReply by (simp add: Let_def)
qed

lemma quickPoll_running_effect:
  assumes "quickPredictionPollingActive s" and "stillRunning reply t"
  shows "quickPredictionPollingActive (quickPoll_onReply taskId reply s) \<and>
         quickPredictionPollingTimer (quickPoll_onReply taskId reply s) = Some (nextTimerId s) \<and>
         map_of (timers (quickPoll_onReply taskId reply s)) (nextTimerId s)
           = Some (3000, QuickPoll taskId) \<and>
         statusLine (quickPoll_onReply taskId reply s)
           = StatusQuickInProgress
               (progressText (orZero (orElse (t_completed_matches t) (t_success_count t)))
                             (orZero (orElse (t_total_matches t) (t_match_count t))))
               (describeTaskStep (t_current_step t) (t_current_match t)) \<and>
         requests (quickPoll_onReply taskId reply s) = requests s \<and>
         quickPoll_begin taskId (quickPoll_onReply taskId reply s)
           = (send (GetTaskStatus taskId) (quickPoll_onReply taskId reply s), True)"
  unfolding quickPoll_running [OF assms(2)] quickPoll_begin_def
  using assms(1) by (simp add: update_conv')

lemma quickPoll_gone_effect:
  assumes "taskGone reply"
  shows "\<not> quickPredictionPollingActive (quickPoll_onReply taskId reply s) \<and>
         quickPredictionPollingTimer (quickPoll_onReply taskId reply s) = None \<and>
         nextTimerId (quickPoll_onReply taskId reply s) = nextTimerId s \<and>
         (\<forall>i. map_of (timers (quickPoll_onReply taskId reply s)) i
               = (if quickPredictionPollingTimer s = Some i then None else map_of (timers s) i)) \<and>
         \<not> disabled (quickButton (quickPoll_onReply taskId reply s)) \<and>
         \<not> interruptButtonVisible (quickPoll_onReply taskId reply s) \<and>
         currentTaskId (quickPoll_onReply taskId reply s) = None \<and>
         requests (quickPoll_onReply taskId reply s) = requests s \<and>
         quickPoll_begin anyTask (quickPoll_onReply taskId reply s)
           = (quickPoll_onReply taskId reply s, False)"
  unfolding quickPoll_gone [OF assms] quickPoll_begin_def
  by (simp add: delete_conv' split: option.splits)

lemma quickPoll_transient_effect:
  assumes "quickPredictionPollingActive s" and "transientFailure reply"
  shows "quickPoll_onReply taskId reply s
           = (snd (setTimeout (QuickPoll taskId) 3000 s))
               \<lparr> quickPredictionPollingTimer := Some (nextTimerId s) \<rparr> \<and>
         quickPredictionPollingActive (quickPoll_onReply taskId reply s) \<and>
         statusLine (quickPoll_onReply taskId reply s) = statusLine s \<and>
         requests (quickPoll_onReply taskId reply s) = requests s"
proof -
  have "quickPoll_onReply taskId reply s
      = (snd (setTimeout (QuickPoll taskId) 3000 s))\<lparr> quickPredictionPollingTimer := Some (nextTimerId s) \<rparr>"
    using assms(1) by (simp add: quickPoll_transient [OF assms(2)] quickPoll_reschedule_def split_beta)
  then show ?thesis using assms(1) by simp
qed

lemma deepPoll_running_effect:
  assumes "deepAnalysisPollingActive s" and "stillRunning reply t"
  shows "deepAnalysisPollingActive (deepPoll_onReply taskId reply s) \<and>
         deepAnalysisPollingTimer (deepPoll_onReply taskId reply s) = Some (nextTimerId s) \<and>
         map_of (timers (deepPoll_onReply taskId reply s)) (nextTimerId s)
           = Some (3000, DeepPoll taskId) \<and>
         statusLine (deepPoll_onReply taskId reply s)
           = StatusDeepInProgress
               (progressText (orZero (t_completed_matches t))
                             (orZero (orElse (t_total_matches t) (t_match_count t))))
               (describeTaskStep (t_current_step t) (t_current_match t)) \<and>
         requests (deepPoll_onReply taskId reply s) = requests s \<and>
         deepPoll_begin taskId (deepPoll_onReply taskId reply s)
           = (send (GetTaskStatus taskId) (deepPoll_onReply taskId reply s), True)"
  unfolding deepPoll_running [OF assms(2)] deepPoll_begin_def
  using assms(1) by (simp add: update_conv')

lemma deepPoll_gone_effect:
  assumes "taskGone reply"
  shows "\<not> deepAnalysisPollingActive (deepPoll_onReply taskId reply s) \<and>
         deepAnalysisPollingTimer (deepPoll_onReply taskId reply s) = None \<and>
         nextTimerId (deepPoll_onReply taskId reply s) = nextTimerId s \<and>
         (\<forall>i. map_of (timers (deepPoll_onReply taskId reply s)) i
               = (if deepAnalysisPollingTimer s = Some i then None else map_of (timers s) i)) \<and>
         \<not> disabled (deepButton (deepPoll_onReply taskId reply s)) \<and>
         \<not> interruptButtonVisible (deepPoll_onReply taskId reply s) \<and>
         currentTaskId (deepPoll_onReply taskId reply s) = None \<and>
         requests (deepPoll_onReply taskId reply s) = requests s \<and>
         deepPoll_begin anyTask (deepPoll_onReply taskId reply s)
           = (deepPoll_onReply taskId reply s, False)"
  unfolding deepPoll_gone [OF assms] deepPoll_begin_def
  by (simp add: delete_conv' split: option.splits)

lemma deepPoll_transient_effect:
  assumes "deepAnalysisPollingActive s" and "transientFailure reply"
  shows "deepPoll_onReply taskId reply s
           = (snd (setTimeout (DeepPoll taskId) 3000 s))
               \<lparr> deepAnalysisPollingTimer := Some (nextTimerId s) \<rparr> \<and>
         deepAnalysisPollingActive (deepPoll_onReply taskId reply s) \<and>
         statusLine (deepPoll_onReply taskId reply s) = statusLine s \<and>
         requests (deepPoll_onReply taskId reply s) = requests s"
proof -
  have "deepPoll_onReply taskId reply s
      = (snd (setTimeout (DeepPoll taskId) 3000 s))\<lparr> deepAnalysisPollingTimer := Some (nextTimerId s) \<rparr>"
    using assms(1) by (simp add: deepPoll_transient [OF assms(2)] deepPoll_reschedule_def split_beta)
  then show ?thesis using assms(1) by simp
qed

text \<open>
  Claim C9, for the quick and for the deep batch poller. While the latch of the poller is
  set: a reply that shows the job \<open>pending\<close> or \<open>running\<close> updates the progress
  readout, sends nothing, and sets the next poll 3000 ms later, which will send the next
  status request; a reply that is a 404 or carries the status \<open>error\<close> clears the
  latch, cancels the poll timeout, sets no new one, enables the trigger button, hides the
  interrupt button, forgets the task id, and makes any later poll a no-op that sends
  nothing; a rejected fetch or a body that does not parse changes nothing but the next
  poll, set 3000 ms later.
\<close>

theorem poll_reply_classification:
  "(quickPredictionPollingActive s \<and> stillRunning reply t \<longrightarrow>
    quickPredictionPollingActive (quickPoll_onReply taskId reply s) \<and>
             quickPredictionPollingTimer (quickPoll_onReply taskId reply s) = Some (nextTimerId s) \<and>
             map_of (timers (quickPoll_onReply taskId reply s)) (nextTimerId s)
               = Some (3000, QuickPoll taskId) \<and>
             statusLine (quickPoll_onReply taskId reply s)
               = StatusQuickInProgress
                   (progressText (orZero (orElse (t_completed_matches t) (t_success_count t)))
                                 (orZero (orElse (t_total_matches t) (t_match_count t))))
                   (describeTaskStep (t_current_step t) (t_current_match t)) \<and>
             requests (quickPoll_onReply taskId reply s) = requests s \<and>
             quickPoll_begin taskId (quickPoll_onReply taskId reply s)
               = (send (GetTaskStatus taskId) (quickPoll_onReply taskId reply s), True)) \<and>
   (taskGone reply \<longrightarrow>
    \<not> quickPredictionPollingActive (quickPoll_onReply taskId reply s) \<and>
             quickPredictionPollingTimer (quickPoll_onReply taskId reply s) = None \<and>
             nextTimerId (quickPoll_onReply taskId reply s) = nextTimerId s \<and>
             (\<forall>i. map_of (timers (quickPoll_onReply taskId reply s)) i
                   = (if quickPredictionPollingTimer s = Some i then None else map_of (timers s) i)) \<and>
             \<not> disabled (quickButton (quickPoll_onReply taskId reply s)) \<and>
             \<not> interruptButtonVisible (quickPoll_onReply taskId reply s) \<and>
             currentTaskId (quickPoll_onReply taskId reply s) = None \<and>
             requests (quickPoll_onReply taskId reply s) = requests s \<and>
             quickPoll_begin anyTask (quickPoll_onReply taskId reply s)
               = (quickPoll_onReply taskId reply s, False)) \<and>
   (quickPredictionPollingActive s \<and> transientFailure reply \<longrightarrow>
    quickPoll_onReply taskId reply s
               = (snd (setTimeout (QuickPoll taskId) 3000 s))
                   \<lparr> quickPredictionPollingTimer := Some (nextTimerId s) \<rparr> \<and>
             quickPredictionPollingActive (quickPoll_onReply taskId reply s) \<and>
             statusLine (quickPoll_onReply taskId reply s) = statusLine s \<and>
             requests (quickPoll_onReply taskId reply s) = requests s) \<and>
   (deepAnalysisPollingActive s \<and> stillRunning reply t \<longrightarrow>
    deepAnalysisPollingActive (deepPoll_onReply taskId reply s) \<and>
             deepAnalysisPollingTimer (deepPoll_onReply taskId reply s) = Some (nextTimerId s) \<and>
             map_of (timers (deepPoll_onReply taskId reply s)) (nextTimerId s)
               = Some (3000, DeepPoll taskId) \<and>
             statusLine (deepPoll_onReply taskId reply s)
               = StatusDeepInProgress
                   (progressText (orZero (t_completed_matches t))
                                 (orZero (orElse (t_total_matches t) (t_match_count t))))
                   (describeTaskStep (t_current_step t) (t_current_match t)) \<and>
             requests (deepPoll_onReply taskId reply s) = requests s \<and>
             deepPoll_begin taskId (deepPoll_onReply taskId reply s)
               = (send (GetTaskStatus taskId) (deepPoll_onReply taskId reply s), True)) \<and>
   (taskGone reply \<longrightarrow>
    \<not> deepAnalysisPollingActive (deepPoll_onReply taskId reply s) \<and>
             deepAnalysisPollingTimer (deepPoll_onReply taskId reply s) = None \<and>
             nextTimerId (deepPoll_onReply taskId reply s) = nextTimerId s \<and>
             (\<forall>i. map_of (timers (deepPoll_onReply taskId reply s)) i
                   = (if deepAnalysisPollingTimer s = Some i then None else map_of (timers s) i)) \<and>
             \<not> disabled (deepButton (deepPoll_onReply taskId reply s)) \<and>
             \<not> interruptButtonVisible (deepPoll_onReply taskId reply s) \<and>
             currentTaskId (deepPoll_onReply taskId reply s) = None \<and>
             requests (deepPoll_onReply taskId reply s) = requests s \<and>
             deepPoll_begin anyTask (deepPoll_onReply taskId reply s)
               = (deepPoll_onReply taskId reply s, False)) \<and>
   (deepAnalysisPollingActive s \<and> transientFailure reply \<longrightarrow>
    deepPoll_onReply taskId reply s
               = (snd (setTimeout (DeepPoll taskId) 3000 s))
                   \<lparr> deepAnalysisPollingTimer := Some (nextTimerId s) \<rparr> \<and>
             deepAnalysisPollingActive (deepPoll_onReply taskId reply s) \<and>
             statusLine (deepPoll_onReply taskId reply s) = statusLine s \<and>
             requests (deepPoll_onReply taskId reply s) = requests s)"
  using quickPoll_running_effect [of s reply t taskId] quickPoll_gone_effect [of reply taskId s anyTask]
    quickPoll_transient_effect [of s reply taskId]
    deepPoll_running_effect [of s reply t taskId] deepPoll_gone_effect [of reply taskId s anyTask]
    deepPoll_transient_effect [of s reply taskId]
  by blast

theorem poll_reply_classification_witness:
  "quickPredictionPollingActive pollingManager \<and> deepAnalysisPollingActive pollingManager \<and>
   stillRunning runningReply runningTask \<and>
   statusLine (quickPoll_onReply ''T1'' runningReply pollingManager)
     = StatusQuickInProgress (Some (4, 10)) (Some (CollectStep, Some ''C003'')) \<and>
   map_of (timers (quickPoll_onReply ''T1'' runningReply pollingManager)) 3
     = Some (3000, QuickPoll ''T1'') \<and>
   statusLine (deepPoll_onReply ''T2'' runningReply pollingManager)
     = StatusDeepInProgress (Some (4, 10)) (Some (CollectStep, Some ''C003'')) \<and>
   taskGone (HttpReply 404 None) \<and>
   \<not> quickPredictionPollingActive (quickPoll_onReply ''T1'' (HttpReply 404 None) pollingManager) \<and>
   map_of (timers (quickPoll_onReply ''T1'' (HttpReply 404 None) pollingManager)) 1 = None \<and>
   \<not> deepAnalysisPollingActive (deepPoll_onReply ''T2'' (HttpReply 404 None) pollingManager) \<and>
   transientFailure (NetworkFailure ''Failed to fetch'') \<and>
   quickPredictionPollingActive (quickPoll_onReply ''T1'' (NetworkFailure ''Failed to fetch'') pollingManager) \<and>
   deepAnalysisPollingActive (deepPoll_onReply ''T2'' (NetworkFailure ''Failed to fetch'') pollingManager)"
proof -
  have q: "quickPredictionPollingActive pollingManager" and d: "deepAnalysisPollingActive pollingManager"
    and n: "nextTimerId pollingManager = 3" and qt: "quickPredictionPollingTimer pollingManager = Some 1"
    by (simp_all add: pollingManager_def)
  have r: "stillRunning runningReply runningTask"
    by (simp add: stillRunning_def runningReply_def parsedData_def runningTask_def)
  have g: "taskGone (HttpReply 404 None)"
    by (simp add: taskGone_def)
  have f: "transientFailure (NetworkFailure ''Failed to fetch'')"
    by (simp add: transientFailure_def)
  have v: "progressText (orZero (orElse (t_completed_matches runningTask) (t_success_count runningTask)))
             (orZero (orElse (t_total_matches runningTask) (t_match_count runningTask))) = Some (4, 10)"
      "progressText (orZero (t_completed_matches runningTask))
             (orZero (orElse (t_total_matches runningTask) (t_match_count runningTask))) = Some (4, 10)"
      "describeTaskStep (t_current_step runningTask) (t_current_match runningTask)
         = Some (CollectStep, Some ''C003'')"
    by (simp_all add: runningTask_def progressText_def orZero_def orElse_def describeTaskStep_def)
  from poll_reply_classification [of pollingManager runningReply runningTask "''T1''"] q r n v
  have a: "statusLine (quickPoll_onReply ''T1'' runningReply pollingManager)
       = StatusQuickInProgress (Some (4, 10)) (Some (CollectStep, Some ''C003''))"
    "map_of (timers (quickPoll_onReply ''T1'' runningReply pollingManager)) 3
       = Some (3000, QuickPoll ''T1'')"
    by simp_all
  from poll_reply_classification [of pollingManager runningReply runningTask "''T2''"] d r v
  have b: "statusLine (deepPoll_onReply ''T2'' runningReply pollingManager)
       = StatusDeepInProgress (Some (4, 10)) (Some (CollectStep, Some ''C003''))"
    by simp
  from poll_reply_classification [of pollingManager "HttpReply 404 None" runningTask "''T1''"] g qt
  have c: "\<not> quickPredictionPollingActive (quickPoll_onReply ''T1'' (HttpReply 404 None) pollingManager)"
    "map_of (timers (quickPoll_onReply ''T1'' (HttpReply 404 None) pollingManager)) 1 = None"
    by simp_all
  from poll_reply_classification [of pollingManager "HttpReply 404 None" runningTask "''T2''"] g
  have e: "\<not> deepAnalysisPollingActive (deepPoll_onReply ''T2'' (HttpReply 404 None) pollingManager)"
    by simp
  from poll_reply_classification [of pollingManager "NetworkFailure ''Failed to fetch''" runningTask "''T1''"] q f
  have h: "quickPredictionPollingActive (quickPoll_onReply ''T1'' (NetworkFailure ''Failed to fetch'') pollingManager)"
    by simp
  from poll_reply_classification [of pollingManager "NetworkFailure ''Failed to fetch''" runningTask "''T2''"] d f
  have i: "deepAnalysisPollingActive (deepPoll_onReply ''T2'' (NetworkFailure ''Failed to fetch'') pollingManager)"
    by simp
  from q d r g f a b c e h i show ?thesis by simp
qed

subsection \<open>Single-match launches\<close>

lemma quickPredict_onStatus_pass:
  assumes "gatePasses Quick reply"
  shows "quickPredict_onStatus c reply s =
           (send (PostQuickPredict c) (setMatchProcessing c (Some Quick) s), True)"
proof (cases reply)
  case (NetworkFailure m)
  with assms show ?thesis by (simp add: gatePasses_def)
next
  case (HttpReply code body)
  with assms obtain p d where p: "body = Some (JsonObject p)" "ps_status p = Some ''success''"
      "ps_data p = Some d" "is_within_window d" "\<not> has_deep_analysis d" "can_quick_predict d"
    by (auto simp: gatePasses_def parsedData_def split: option.splits json_body.splits)
  show ?thesis
    unfolding quickPredict_onStatus_def quickPredict_onStatus_try_def HttpReply
    by (simp add: p thenE_def awaitFetch_def awaitJson_def readObject_def readData_def)
qed

lemma deepAnalysis_onStatus_pass:
  assumes "gatePasses Deep reply"
  shows "deepAnalysis_onStatus c reply s =
           (send (PostDeepAnalysis c) (setMatchProcessing c (Some Deep) s), True)"
proof (cases reply)
  case (NetworkFailure m)
  with assms show ?thesis by (simp add: gatePasses_def)
next
  case (HttpReply code body)
  with assms obtain p d where p: "body = Some (JsonObject p)" "ps_status p = Some ''success''"
      "ps_data p = Some d" "is_within_window d" "\<not> has_deep_analysis d" "can_deep_analysis d"
    by (auto simp: gatePasses_def parsedData_def split: option.splits json_body.splits)
  show ?thesis
    unfolding deepAnalysis_onStatus_def deepAnalysis_onStatus_try_def HttpReply
    by (simp add: p thenE_def awaitFetch_def awaitJson_def readObject_def readData_def)
qed

lemma quickPredict_onStatus_reject:
  assumes "gateRejects Quick reply"
  shows "quickPredict_onStatus c reply s = (s, False)"
proof (cases reply)
  case (NetworkFailure m)
  with assms show ?thesis by (simp add: gateRejects_def)
next
  case (HttpReply code body)
  with assms obtain p where p: "body = Some (JsonObject p)"
    by (auto simp: gateRejects_def parsedData_def split: option.splits json_body.splits)
  from assms show ?thesis
    unfolding quickPredict_onStatus_def quickPredict_onStatus_try_def HttpReply p
    by (auto simp: gateRejects_def parsedData_def thenE_def awaitFetch_def awaitJson_def
        readObject_def readData_def split: option.splits if_splits)
qed

lemma deepAnalysis_onStatus_reject:
  assumes "gateRejects Deep reply"
  shows "deepAnalysis_onStatus c reply s = (s, False)"
proof (cases reply)
  case (NetworkFailure m)
  with assms show ?thesis by (simp add: gateRejects_def)
next
  case (HttpReply code body)
  with assms obtain p where p: "body = Some (JsonObject p)"
    by (auto simp: gateRejects_def parsedData_def split: option.splits json_body.splits)
  from assms show ?thesis
    unfolding deepAnalysis_onStatus_def deepAnalysis_onStatus_try_def HttpReply p
    by (auto simp: gateRejects_def parsedData_def thenE_def awaitFetch_def awaitJson_def
        readObject_def readData_def split: option.splits if_splits)
qed

lemma launchSucceeds_cases:
  assumes "launchSucceeds reply"
  obtains code d where "reply = HttpReply code (Some (JsonObject d))" "sp_status d = Some ''success''"
  using assms
  by (auto simp: launchSucceeds_def parsedData_def split: http_reply.splits option.splits json_body.splits)

lemma quickPredict_onLaunch_success:
  assumes "launchSucceeds reply"
  shows "quickPredict_onLaunch c reply s =
           (if refreshingMatches s then (quickPredict_afterRefresh c s, False)
            else (loadMergedData_begin (s\<lparr> refreshingMatches := True \<rparr>), True))"
proof -
  from assms obtain code d where r: "reply = HttpReply code (Some (JsonObject d))"
      "sp_status d = Some ''success''"
    by (rule launchSucceeds_cases)
  show ?thesis
    unfolding quickPredict_onLaunch_def quickPredict_onLaunch_try_def r(1)
    by (simp add: r(2) thenE_def awaitFetch_def awaitJson_def readObject_def refreshMatchesData_begin_def)
qed

lemma deepAnalysis_onLaunch_success:
  assumes "launchSucceeds reply"
  shows "deepAnalysis_onLaunch c reply s =
           scheduleProcessingRefresh c Deep (Some 24) (Some 10000)
             (snd (setTimeout DelayedRefresh 5000 s))"
proof -
  from assms obtain code d where r: "reply = HttpReply code (Some (JsonObject d))"
      "sp_status d = Some ''success''"
    by (rule launchSucceeds_cases)
  show ?thesis
    unfolding deepAnalysis_onLaunch_def deepAnalysis_onLaunch_try_def r(1)
    by (simp add: r(2) thenE_def awaitFetch_def awaitJson_def readObject_def)
qed

lemma map_of_update_other: "k' \<noteq> k \<Longrightarrow> map_of (AList.update k v al) k' = map_of al k'"
  by (simp add: update_conv')

lemma gate_trichotomy:
  "(gatePasses k reply \<or> gateRejects k reply \<or> gateThrows k reply) \<and>
   \<not> (gatePasses k reply \<and> gateRejects k reply) \<and>
   \<not> (gatePasses k reply \<and> gateThrows k reply) \<and>
   \<not> (gateRejects k reply \<and> gateThrows k reply)"
  by (cases k)
     (auto simp: gatePasses_def gateRejects_def gateThrows_def
       split: http_reply.splits option.splits)

lemma quickPredict_onStatus_throw:
  assumes "gateThrows Quick reply"
  shows "quickPredict_onStatus c reply s = (quickPredict_catch c s, False)"
  using assms
  by (auto simp: gateThrows_def quickPredict_onStatus_def quickPredict_onStatus_try_def
      parsedData_def thenE_def awaitFetch_def awaitJson_def readObject_def readData_def
      split: http_reply.splits option.splits json_body.splits if_splits)

lemma deepAnalysis_onStatus_throw:
  assumes "gateThrows Deep reply"
  shows "deepAnalysis_onStatus c reply s = (setMatchProcessing c None s, False)"
  using assms
  by (auto simp: gateThrows_def deepAnalysis_onStatus_def deepAnalysis_onStatus_try_def
      parsedData_def thenE_def awaitFetch_def awaitJson_def readObject_def readData_def
      split: http_reply.splits option.splits json_body.splits if_splits)

lemma quickPredict_catch_fields:
  "processingStates (quickPredict_catch c s) = AList.delete c (processingStates s)"
  "quickPredictionTimers (quickPredict_catch c s) = AList.delete c (quickPredictionTimers s)"
  "timers (quickPredict_catch c s) =
     (case map_of (quickPredictionTimers s) c of None \<Rightarrow> timers s | Some t \<Rightarrow> AList.delete t (timers s))"
  "requests (quickPredict_catch c s) = requests s"
  by (simp_all add: quickPredict_catch_def delete_conv' delete_idem)



subsection \<open>The sweep of a load\<close>

lemma hasProcessingResult_state:
  "state s' = state s \<Longrightarrow> hasProcessingResult s' c t = hasProcessingResult s c t"
  by (simp add: hasProcessingResult_def getMatchData_def)

lemma hasProcessingResult_data:
  "matches (state s') = matches (state s) \<Longrightarrow> results (state s') = results (state s) \<Longrightarrow>
     hasProcessingResult s' c t = hasProcessingResult s c t"
  by (simp add: hasProcessingResult_def getMatchData_def)

lemma sweepStep_fields [simp]:
  "state (sweepStep c s) = state s"
  "refreshingMatches (sweepStep c s) = refreshingMatches s"
  "quickPredictionTimers (sweepStep c s) = (if resultArrived s c then AList.delete c (quickPredictionTimers s) else quickPredictionTimers s)"
  "processingStates (sweepStep c s) = (if resultArrived s c then AList.delete c (processingStates s) else processingStates s)"
  "sortedDatesCache (sweepStep c s) = sortedDatesCache s"
  "currentTaskId (sweepStep c s) = currentTaskId s"
  "quickPredictionButtonState (sweepStep c s) = quickPredictionButtonState s"
  "deepAnalysisButtonState (sweepStep c s) = deepAnalysisButtonState s"
  "quickPredictionPollingActive (sweepStep c s) = quickPredictionPollingActive s"
  "deepAnalysisPollingActive (sweepStep c s) = deepAnalysisPollingActive s"
  "quickPredictionPollingTimer (sweepStep c s) = quickPredictionPollingTimer s"
  "deepAnalysisPollingTimer (sweepStep c s) = deepAnalysisPollingTimer s"
  "timers (sweepStep c s) = (if resultArrived s c then (case map_of (quickPredictionTimers s) c of None \<Rightarrow> timers s | Some t \<Rightarrow> AList.delete t (timers s)) else timers s)"
  "nextTimerId (sweepStep c s) = nextTimerId s"
  "requests (sweepStep c s) = requests s"
  "statusLine (sweepStep c s) = statusLine s"
  "quickButton (sweepStep c s) = quickButton s"
  "deepButton (sweepStep c s) = deepButton s"
  "interruptButtonVisible (sweepStep c s) = interruptButtonVisible s"
  by (simp_all add: sweepStep_def resultArrived_def split: option.splits)

lemma fold_sweepStep_unchanged [simp]:
  "state (fold sweepStep cs s) = state s \<and>
   refreshingMatches (fold sweepStep cs s) = refreshingMatches s \<and>
   sortedDatesCache (fold sweepStep cs s) = sortedDatesCache s \<and>
   currentTaskId (fold sweepStep cs s) = currentTaskId s \<and>
   quickPredictionButtonState (fold sweepStep cs s) = quickPredictionButtonState s \<and>
   deepAnalysisButtonState (fold sweepStep cs s) = deepAnalysisButtonState s \<and>
   quickPredictionPollingActive (fold sweepStep cs s) = quickPredictionPollingActive s \<and>
   deepAnalysisPollingActive (fold sweepStep cs s) = deepAnalysisPollingActive s \<and>
   quickPredictionPollingTimer (fold sweepStep cs s) = quickPredictionPollingTimer s \<and>
   deepAnalysisPollingTimer (fold sweepStep cs s) = deepAnalysisPollingTimer s \<and>
   nextTimerId (fold sweepStep cs s) = nextTimerId s \<and>
   requests (fold sweepStep cs s) = requests s \<and>
   statusLine (fold sweepStep cs s) = statusLine s \<and>
   quickButton (fold sweepStep cs s) = quickButton s \<and>
   deepButton (fold sweepStep cs s) = deepButton s \<and>
   interruptButtonVisible (fold sweepStep cs s) = interruptButtonVisible s"
  by (induction cs arbitrary: s) simp_all

lemma hasProcessingResult_sweepStep [simp]:
  "hasProcessingResult (sweepStep x s) c t = hasProcessingResult s c t"
  by (simp add: hasProcessingResult_state [of "sweepStep x s" s])

lemma hasProcessingResult_fold_sweepStep [simp]:
  "hasProcessingResult (fold sweepStep cs s) c t = hasProcessingResult s c t"
  by (simp add: hasProcessingResult_state [of "fold sweepStep cs s" s])

lemma resultArrived_sweepStep_eq:
  "resultArrived (sweepStep x s) c = (resultArrived s c \<and> \<not> (c = x \<and> resultArrived s x))"
  by (auto simp: resultArrived_def delete_conv' split: option.splits)

lemma fold_sweepStep_processing:
  "map_of (processingStates (fold sweepStep cs s)) c =
     (if c \<in> set cs \<and> resultArrived s c then None else map_of (processingStates s) c)"
proof (induction cs arbitrary: s)
  case Nil
  show ?case by simp
next
  case (Cons x cs)
  show ?case
    by (auto simp: Cons.IH resultArrived_sweepStep_eq delete_conv')
qed

lemma fold_sweepStep_registry:
  "map_of (quickPredictionTimers (fold sweepStep cs s)) c =
     (if c \<in> set cs \<and> resultArrived s c then None else map_of (quickPredictionTimers s) c)"
proof (induction cs arbitrary: s)
  case Nil
  show ?case by simp
next
  case (Cons x cs)
  show ?case
    by (auto simp: Cons.IH resultArrived_sweepStep_eq delete_conv')
qed

lemma fold_sweepStep_timers_deleted:
  "map_of (timers s) i = None \<Longrightarrow> map_of (timers (fold sweepStep cs s)) i = None"
proof (induction cs arbitrary: s)
  case Nil
  then show ?case by simp
next
  case (Cons x cs)
  have "map_of (timers (sweepStep x s)) i = None"
    using Cons.prems by (simp add: delete_conv' split: option.splits)
  then show ?case using Cons.IH by simp
qed

lemma fold_sweepStep_timers_kept:
  "map_of (timers (fold sweepStep cs s)) i = None \<or>
   map_of (timers (fold sweepStep cs s)) i = map_of (timers s) i"
proof (induction cs arbitrary: s)
  case Nil
  show ?case by simp
next
  case (Cons x cs)
  have "map_of (timers (sweepStep x s)) i = None \<or>
        map_of (timers (sweepStep x s)) i = map_of (timers s) i"
    by (simp add: delete_conv' split: option.splits)
  then show ?case using Cons.IH [of "sweepStep x s"] by auto
qed

lemma fold_sweepStep_timer_cancelled:
  assumes "c \<in> set cs" and "resultArrived s c" and "map_of (quickPredictionTimers s) c = Some i"
  shows "map_of (timers (fold sweepStep cs s)) i = None"
  using assms
proof (induction cs arbitrary: s)
  case Nil
  then show ?case by simp
next
  case (Cons x cs)
  show ?case
  proof (cases "x = c")
    case True
    have "map_of (timers (sweepStep x s)) i = None"
      using Cons.prems True by (simp add: delete_conv')
    then show ?thesis by (simp add: fold_sweepStep_timers_deleted)
  next
    case False
    with Cons.prems have "c \<in> set cs" by simp
    moreover have "resultArrived (sweepStep x s) c"
      using False Cons.prems by (simp add: resultArrived_sweepStep_eq)
    moreover have "map_of (quickPredictionTimers (sweepStep x s)) c = Some i"
      using False Cons.prems by (simp add: delete_conv')
    ultimately show ?thesis using Cons.IH by simp
  qed
qed

lemma setState_data [simp]:
  "matches (setState u st) = (case upd_matches u of None \<Rightarrow> matches st | Some ms \<Rightarrow> ms)"
  "results (setState u st) = (case upd_results u of None \<Rightarrow> results st | Some rs \<Rightarrow> rs)"
  by (simp_all add: setState_def mergeUpdates_def Let_def updateResultsDateGroups_def
      updateMatchDateGroups_def)

lemma noUpdates_fields [simp]:
  "upd_matches noUpdates = None" "upd_results noUpdates = None"
  "upd_currentView noUpdates = None" "upd_selectedDate noUpdates = None"
  by (simp_all add: noUpdates_def)

lemma loadMergedData_onResult_unchanged [simp]:
  "refreshingMatches (loadMergedData_onResult prev res s) = refreshingMatches s"
  "currentTaskId (loadMergedData_onResult prev res s) = currentTaskId s"
  "quickPredictionButtonState (loadMergedData_onResult prev res s) = quickPredictionButtonState s"
  "deepAnalysisButtonState (loadMergedData_onResult prev res s) = deepAnalysisButtonState s"
  "quickPredictionPollingActive (loadMergedData_onResult prev res s) = quickPredictionPollingActive s"
  "deepAnalysisPollingActive (loadMergedData_onResult prev res s) = deepAnalysisPollingActive s"
  "quickPredictionPollingTimer (loadMergedData_onResult prev res s) = quickPredictionPollingTimer s"
  "deepAnalysisPollingTimer (loadMergedData_onResult prev res s) = deepAnalysisPollingTimer s"
  "nextTimerId (loadMergedData_onResult prev res s) = nextTimerId s"
  "requests (loadMergedData_onResult prev res s) = requests s"
  "quickButton (loadMergedData_onResult prev res s) = quickButton s"
  "deepButton (loadMergedData_onResult prev res s) = deepButton s"
  "interruptButtonVisible (loadMergedData_onResult prev res s) = interruptButtonVisible s"
  by (simp_all add: loadMergedData_onResult_def Let_def sweepProcessingStates_def
      split: option.splits)

lemma loadMergedData_onResult_error:
  "status res \<noteq> ''success'' \<Longrightarrow> loadMergedData_onResult prev res s = updateStatus StatusFetchFailed s"
  by (simp add: loadMergedData_onResult_def)

text \<open>The manager right after the store was given the new data, before the sweep.\<close>

lemma loadMergedData_onResult_data:
  assumes "status res = ''success''"
  shows "matches (state (loadMergedData_onResult prev res s)) = filter (\<lambda>m. \<not> is_completed m) (data res)"
    and "results (state (loadMergedData_onResult prev res s)) = filter (\<lambda>m. is_completed m) (data res)"
  using assms
  by (simp_all add: loadMergedData_onResult_def Let_def sweepProcessingStates_def
      mergeArticleStatus_def split: option.splits)

lemma loadMergedData_onResult_sweep:
  assumes "status res = ''success''"
  shows "\<exists>s1. matches (state s1) = matches (state (loadMergedData_onResult prev res s)) \<and>
              results (state s1) = results (state (loadMergedData_onResult prev res s)) \<and>
              processingStates s1 = processingStates s \<and>
              quickPredictionTimers s1 = quickPredictionTimers s \<and>
              timers s1 = timers s \<and>
              processingStates (loadMergedData_onResult prev res s)
                = processingStates (fold sweepStep (map fst (processingStates s)) s1) \<and>
              quickPredictionTimers (loadMergedData_onResult prev res s)
                = quickPredictionTimers (fold sweepStep (map fst (processingStates s)) s1) \<and>
              timers (loadMergedData_onResult prev res s)
                = timers (fold sweepStep (map fst (processingStates s)) s1)"
proof -
  let ?s1 = "renderMergedTable (mergeArticleStatus (data res))
      (s\<lparr> state := setState
          (noUpdates\<lparr> upd_matches := Some (filter (\<lambda>m. \<not> is_completed m) (mergeArticleStatus (data res))),
                     upd_results := Some (filter (\<lambda>m. is_completed m) (mergeArticleStatus (data res))),
                     upd_currentView := Some ''matches'' \<rparr>) (state s) \<rparr>)"
  show ?thesis
    using assms
    by (intro exI [of _ ?s1])
       (simp add: loadMergedData_onResult_def Let_def sweepProcessingStates_def
          mergeArticleStatus_def split: option.splits)
qed

lemma loadMergedData_onResult_processing:
  assumes "status res = ''success''"
  shows "map_of (processingStates (loadMergedData_onResult prev res s)) c =
           (case map_of (processingStates s) c of
              None \<Rightarrow> None
            | Some t \<Rightarrow> if hasProcessingResult (loadMergedData_onResult prev res s) c t then None
                        else Some t)"
    and "map_of (quickPredictionTimers (loadMergedData_onResult prev res s)) c =
           (case map_of (processingStates s) c of
              None \<Rightarrow> map_of (quickPredictionTimers s) c
            | Some t \<Rightarrow> if hasProcessingResult (loadMergedData_onResult prev res s) c t then None
                        else map_of (quickPredictionTimers s) c)"
    and "map_of (processingStates s) c = Some t \<Longrightarrow>
         hasProcessingResult (loadMergedData_onResult prev res s) c t \<Longrightarrow>
         map_of (quickPredictionTimers s) c = Some i \<Longrightarrow>
         map_of (timers (loadMergedData_onResult prev res s)) i = None"
    and "map_of (timers (loadMergedData_onResult prev res s)) i = None \<or>
         map_of (timers (loadMergedData_onResult prev res s)) i = map_of (timers s) i"
proof -
  let ?s' = "loadMergedData_onResult prev res s"
  from loadMergedData_onResult_sweep [OF assms, where prev = prev and s = s]
  obtain s1 where s1: "matches (state s1) = matches (state ?s')" "results (state s1) = results (state ?s')"
      "processingStates s1 = processingStates s" "quickPredictionTimers s1 = quickPredictionTimers s"
      "timers s1 = timers s"
      "processingStates ?s' = processingStates (fold sweepStep (map fst (processingStates s)) s1)"
      "quickPredictionTimers ?s' = quickPredictionTimers (fold sweepStep (map fst (processingStates s)) s1)"
      "timers ?s' = timers (fold sweepStep (map fst (processingStates s)) s1)"
    by blast
  have has: "\<And>c t. hasProcessingResult s1 c t = hasProcessingResult ?s' c t"
    using s1(1,2) by (rule hasProcessingResult_data)
  have arrived: "\<And>c. resultArrived s1 c =
      (case map_of (processingStates s) c of None \<Rightarrow> False | Some t \<Rightarrow> hasProcessingResult ?s' c t)"
    by (simp add: resultArrived_def s1(3) has split: option.splits)
  have key: "\<And>c t. map_of (processingStates s) c = Some t \<Longrightarrow> c \<in> set (map fst (processingStates s))"
    by (metis domI dom_map_of_conv_image_fst set_map)
  show "map_of (processingStates ?s') c =
           (case map_of (processingStates s) c of
              None \<Rightarrow> None
            | Some t \<Rightarrow> if hasProcessingResult ?s' c t then None else Some t)"
    by (auto simp: s1 fold_sweepStep_processing arrived dest: key split: option.splits)
  show "map_of (quickPredictionTimers ?s') c =
           (case map_of (processingStates s) c of
              None \<Rightarrow> map_of (quickPredictionTimers s) c
            | Some t \<Rightarrow> if hasProcessingResult ?s' c t then None
                        else map_of (quickPredictionTimers s) c)"
    by (auto simp: s1 fold_sweepStep_registry arrived dest: key split: option.splits)
  show "map_of (timers ?s') i = None \<or> map_of (timers ?s') i = map_of (timers s) i"
    using fold_sweepStep_timers_kept [of "map fst (processingStates s)" s1 i]
    by (simp add: s1)
  assume a: "map_of (processingStates s) c = Some t" "hasProcessingResult ?s' c t"
    "map_of (quickPredictionTimers s) c = Some i"
  have "map_of (timers (fold sweepStep (map fst (processingStates s)) s1)) i = None"
  proof (rule fold_sweepStep_timer_cancelled)
    show "c \<in> set (map fst (processingStates s))" using a(1) by (rule key)
    show "resultArrived s1 c" using a(1,2) by (simp add: arrived)
    show "map_of (quickPredictionTimers s1) c = Some i" using a(3) by (simp add: s1)
  qed
  then show "map_of (timers ?s') i = None" by (simp add: s1)
qed

text \<open>
  Claim C10. A load that succeeds stores the two partitions of the fetched data and sweeps
  the whole processing map against them: afterwards a code is processing exactly when it
  was before and the confirmation predicate of its kind does not hold in the new data, so
  no code is left processing with its result present; a code swept out has no registered
  timer any more and the timeout that was registered for it is cancelled, fired or not.
  The refresh of a self-healing tick and of a manual refresh is this load.
\<close>

theorem load_clears_confirmed_codes:
  assumes "status res = ''success''"
  shows "(\<forall>c. getMatchProcessingType (loadMergedData_onResult prev res s) c =
              (case getMatchProcessingType s c of
                 None \<Rightarrow> None
               | Some t \<Rightarrow> if hasProcessingResult (loadMergedData_onResult prev res s) c t
                           then None else Some t)) \<and>
         (\<forall>c t. getMatchProcessingType (loadMergedData_onResult prev res s) c = Some t \<longrightarrow>
              \<not> hasProcessingResult (loadMergedData_onResult prev res s) c t) \<and>
         (\<forall>c t. getMatchProcessingType s c = Some t \<and>
                hasProcessingResult (loadMergedData_onResult prev res s) c t \<longrightarrow>
              map_of (quickPredictionTimers (loadMergedData_onResult prev res s)) c = None \<and>
              (\<forall>i. map_of (quickPredictionTimers s) c = Some i \<longrightarrow>
                   map_of (timers (loadMergedData_onResult prev res s)) i = None)) \<and>
         matches (state (loadMergedData_onResult prev res s))
           = filter (\<lambda>m. \<not> is_completed m) (data res) \<and>
         results (state (loadMergedData_onResult prev res s))
           = filter (\<lambda>m. is_completed m) (data res) \<and>
         processingStates (refreshMatchesData_onReply prev reply s)
           = processingStates (loadMergedData_onResult prev
               (fetchAllMatches False (NetworkFailure []) reply) s) \<and>
         state (refreshMatchesData_onReply prev reply s)
           = state (loadMergedData_onResult prev (fetchAllMatches False (NetworkFailure []) reply) s)"
proof -
  note p = loadMergedData_onResult_processing [OF assms, where prev = prev and s = s]
  have a: "\<forall>c. getMatchProcessingType (loadMergedData_onResult prev res s) c =
              (case getMatchProcessingType s c of
                 None \<Rightarrow> None
               | Some t \<Rightarrow> if hasProcessingResult (loadMergedData_onResult prev res s) c t
                           then None else Some t)"
    by (simp add: getMatchProcessingType_def p(1))
  have b: "\<forall>c t. getMatchProcessingType (loadMergedData_onResult prev res s) c = Some t \<longrightarrow>
              \<not> hasProcessingResult (loadMergedData_onResult prev res s) c t"
    by (auto simp: getMatchProcessingType_def p(1) split: option.splits if_splits)
  have c: "\<forall>c t. getMatchProcessingType s c = Some t \<and>
                hasProcessingResult (loadMergedData_onResult prev res s) c t \<longrightarrow>
              map_of (quickPredictionTimers (loadMergedData_onResult prev res s)) c = None \<and>
              (\<forall>i. map_of (quickPredictionTimers s) c = Some i \<longrightarrow>
                   map_of (timers (loadMergedData_onResult prev res s)) i = None)"
    using p(3) by (auto simp: getMatchProcessingType_def p(2))
  show ?thesis
    using a b c loadMergedData_onResult_data [OF assms, where prev = prev and s = s]
    by (simp add: refreshMatchesData_onReply_def)
qed

lemma fetchAllMatches_allMatchesReply:
  "fetchAllMatches False cr (allMatchesReply ms) =
     \<lparr> status = ''success'', data = ms, count = length ms,
       schedule_count = Some (length ms), completed_count = Some 0, message = None \<rparr>"
  by (simp add: fetchAllMatches_def fetchAllMatches_try_def allMatchesReply_def thenE_def
      awaitFetch_def awaitJson_def readObject_def ok_def orEmpty_def orZero_def)

theorem load_clears_confirmed_codes_witness:
  "status (fetchAllMatches False (NetworkFailure []) (allMatchesReply scoredData)) = ''success'' \<and>
   getMatchProcessingType twoJobsManager ''A001'' = Some Quick \<and>
   getMatchProcessingType twoJobsManager ''B002'' = Some Deep \<and>
   map_of (quickPredictionTimers twoJobsManager) ''A001'' = Some 1 \<and>
   getMatchProcessingType
     (loadMergedData_onResult None
        (fetchAllMatches False (NetworkFailure []) (allMatchesReply scoredData)) twoJobsManager)
     ''A001'' = None \<and>
   getMatchProcessingType
     (loadMergedData_onResult None
        (fetchAllMatches False (NetworkFailure []) (allMatchesReply scoredData)) twoJobsManager)
     ''B002'' = Some Deep \<and>
   map_of (timers
     (loadMergedData_onResult None
        (fetchAllMatches False (NetworkFailure []) (allMatchesReply scoredData)) twoJobsManager))
     1 = None"
proof -
  let ?res = "fetchAllMatches False (NetworkFailure []) (allMatchesReply scoredData)"
  let ?s' = "loadMergedData_onResult None ?res twoJobsManager"
  have h: "status ?res = ''success''" and d: "data ?res = scoredData"
    by (simp_all add: fetchAllMatches_allMatchesReply)
  have before: "getMatchProcessingType twoJobsManager ''A001'' = Some Quick"
      "getMatchProcessingType twoJobsManager ''B002'' = Some Deep"
      "map_of (quickPredictionTimers twoJobsManager) ''A001'' = Some 1"
    by (simp_all add: twoJobsManager_def getMatchProcessingType_def newManager_def update_conv')
  note t = load_clears_confirmed_codes [OF h, where prev = None and s = twoJobsManager]
  from t have store: "matches (state ?s') = filter (\<lambda>m. \<not> is_completed m) scoredData"
      "results (state ?s') = filter (\<lambda>m. is_completed m) scoredData"
    by (simp_all add: d)
  have a: "hasProcessingResult ?s' ''A001'' Quick"
    and b: "\<not> hasProcessingResult ?s' ''B002'' Deep"
    unfolding hasProcessingResult_def getMatchData_def store
    by (simp_all add: scoredData_def fixture_def)
  from t have t1: "getMatchProcessingType ?s' ''A001'' =
      (case getMatchProcessingType twoJobsManager ''A001'' of None \<Rightarrow> None
       | Some t \<Rightarrow> if hasProcessingResult ?s' ''A001'' t then None else Some t)"
    and t2: "getMatchProcessingType ?s' ''B002'' =
      (case getMatchProcessingType twoJobsManager ''B002'' of None \<Rightarrow> None
       | Some t \<Rightarrow> if hasProcessingResult ?s' ''B002'' t then None else Some t)"
    and t3: "getMatchProcessingType twoJobsManager ''A001'' = Some Quick \<and> hasProcessingResult ?s' ''A001'' Quick
      \<longrightarrow> (\<forall>i. map_of (quickPredictionTimers twoJobsManager) ''A001'' = Some i \<longrightarrow> map_of (timers ?s') i = None)"
    by blast+
  have a1: "getMatchProcessingType ?s' ''A001'' = None"
    by (simp add: t1 before a)
  have b1: "getMatchProcessingType ?s' ''B002'' = Some Deep"
    by (simp add: t2 before b)
  have c1: "map_of (timers ?s') 1 = None"
    using t3 before a by blast
  from h before a1 b1 c1 show ?thesis by simp
qed

subsection \<open>Refreshing\<close>

lemma loadMergedData_begin_fields [simp]:
  "state (loadMergedData_begin s) = state s"
  "refreshingMatches (loadMergedData_begin s) = refreshingMatches s"
  "quickPredictionTimers (loadMergedData_begin s) = quickPredictionTimers s"
  "processingStates (loadMergedData_begin s) = processingStates s"
  "sortedDatesCache (loadMergedData_begin s) = sortedDatesCache s"
  "currentTaskId (loadMergedData_begin s) = currentTaskId s"
  "quickPredictionButtonState (loadMergedData_begin s) = quickPredictionButtonState s"
  "deepAnalysisButtonState (loadMergedData_begin s) = deepAnalysisButtonState s"
  "quickPredictionPollingActive (loadMergedData_begin s) = quickPredictionPollingActive s"
  "deepAnalysisPollingActive (loadMergedData_begin s) = deepAnalysisPollingActive s"
  "quickPredictionPollingTimer (loadMergedData_begin s) = quickPredictionPollingTimer s"
  "deepAnalysisPollingTimer (loadMergedData_begin s) = deepAnalysisPollingTimer s"
  "timers (loadMergedData_begin s) = timers s"
  "nextTimerId (loadMergedData_begin s) = nextTimerId s"
  "requests (loadMergedData_begin s) = requests s @ [GetAllMatches]"
  "statusLine (loadMergedData_begin s) = StatusFetching"
  "quickButton (loadMergedData_begin s) = quickButton s"
  "deepButton (loadMergedData_begin s) = deepButton s"
  "interruptButtonVisible (loadMergedData_begin s) = interruptButtonVisible s"
  by (simp_all add: loadMergedData_begin_def)

lemma refreshMatchesData_onReply_fields [simp]:
  "state (refreshMatchesData_onReply prev reply s) = state (loadMergedData_onResult prev (fetchAllMatches False (NetworkFailure []) reply) s)"
  "refreshingMatches (refreshMatchesData_onReply prev reply s) = refreshingMatches s"
  "quickPredictionTimers (refreshMatchesData_onReply prev reply s) = quickPredictionTimers (loadMergedData_onResult prev (fetchAllMatches False (NetworkFailure []) reply) s)"
  "processingStates (refreshMatchesData_onReply prev reply s) = processingStates (loadMergedData_onResult prev (fetchAllMatches False (NetworkFailure []) reply) s)"
  "sortedDatesCache (refreshMatchesData_onReply prev reply s) = sortedDatesCache (loadMergedData_onResult prev (fetchAllMatches False (NetworkFailure []) reply) s)"
  "currentTaskId (refreshMatchesData_onReply prev reply s) = currentTaskId s"
  "quickPredictionButtonState (refreshMatchesData_onReply prev reply s) = quickPredictionButtonState s"
  "deepAnalysisButtonState (refreshMatchesData_onReply prev reply s) = deepAnalysisButtonState s"
  "quickPredictionPollingActive (refreshMatchesData_onReply prev reply s) = quickPredictionPollingActive s"
  "deepAnalysisPollingActive (refreshMatchesData_onReply prev reply s) = deepAnalysisPollingActive s"
  "quickPredictionPollingTimer (refreshMatchesData_onReply prev reply s) = quickPredictionPollingTimer s"
  "deepAnalysisPollingTimer (refreshMatchesData_onReply prev reply s) = deepAnalysisPollingTimer s"
  "timers (refreshMatchesData_onReply prev reply s) = AList.update (nextTimerId s) (500, ResetRefreshing) (timers (loadMergedData_onResult prev (fetchAllMatches False (NetworkFailure []) reply) s))"
  "nextTimerId (refreshMatchesData_onReply prev reply s) = Suc (nextTimerId s)"
  "requests (refreshMatchesData_onReply prev reply s) = requests s"
  "statusLine (refreshMatchesData_onReply prev reply s) = statusLine (loadMergedData_onResult prev (fetchAllMatches False (NetworkFailure []) reply) s)"
  "quickButton (refreshMatchesData_onReply prev reply s) = quickButton s"
  "deepButton (refreshMatchesData_onReply prev reply s) = deepButton s"
  "interruptButtonVisible (refreshMatchesData_onReply prev reply s) = interruptButtonVisible s"
  by (simp_all add: refreshMatchesData_onReply_def)

lemma hasProcessingResult_confirmsIn:
  "hasProcessingResult s c t = confirmsIn (matches (state s) @ results (state s)) c t"
  by (simp add: hasProcessingResult_def confirmsIn_def getMatchData_def)

lemma hasProcessingResult_updateStatus [simp]:
  "hasProcessingResult (updateStatus line s) c t = hasProcessingResult s c t"
  by (simp add: hasProcessingResult_state [of "updateStatus line s" s])

lemma hasProcessingResult_after_load:
  "hasProcessingResult (loadMergedData_onResult prev (fetchAllMatches False (NetworkFailure []) reply) s) c t
     = confirmsAfter reply s c t"
proof (cases "status (fetchAllMatches False (NetworkFailure []) reply) = ''success''")
  case True
  then show ?thesis
    by (simp add: confirmsAfter_def Let_def hasProcessingResult_confirmsIn loadMergedData_onResult_data)
next
  case False
  then show ?thesis
    by (simp add: confirmsAfter_def Let_def loadMergedData_onResult_error)
qed

lemma hasProcessingResult_after_refresh:
  "hasProcessingResult (refreshMatchesData_onReply prev reply s) c t = confirmsAfter reply s c t"
  using hasProcessingResult_state [of "refreshMatchesData_onReply prev reply s"
      "loadMergedData_onResult prev (fetchAllMatches False (NetworkFailure []) reply) s" c t]
  by (simp add: hasProcessingResult_after_load)

lemma confirmsAfter_frame:
  "state s' = state s \<Longrightarrow> confirmsAfter reply s' c t = confirmsAfter reply s c t"
  by (simp add: confirmsAfter_def Let_def hasProcessingResult_state [of s' s])

subsection \<open>After the launch\<close>

lemma quickPredict_afterRefresh_confirmed:
  assumes "hasProcessingResult s c Quick"
  shows "quickPredict_afterRefresh c s = setMatchProcessing c None s"
  using assms by (simp add: quickPredict_afterRefresh_def)

lemma quickPredict_afterRefresh_unconfirmed:
  assumes "\<not> hasProcessingResult s c Quick"
  shows "quickPredict_afterRefresh c s = scheduleProcessingRefresh c Quick None None s"
  using assms by (simp add: quickPredict_afterRefresh_def)

text \<open>
  Claim C2, as the code has it. After a job-start request that succeeded:
  a quick launch refreshes the data once, at once, unless the refresh latch is set, in
  which case nothing is fetched and the data at hand is used; if the confirmation
  predicate then holds, the processing state of the code is cleared together with its
  registered timer and no timeout is set, and otherwise the self-healing loop is entered
  (5 attempts, 5000 ms apart). A deep launch sends nothing and checks nothing: it sets one
  timeout of 5000 ms for a refresh and always enters the loop (24 attempts, 10000 ms
  apart), leaving the processing state as it is. (The handle the browser gives out next
  is new, so it is not the one registered for the code.)
\<close>

theorem launch_success_paths:
  assumes "launchSucceeds la"
  shows "(\<not> refreshingMatches s \<longrightarrow>
            quickPredict_onLaunch c la s = (loadMergedData_begin (s\<lparr> refreshingMatches := True \<rparr>), True) \<and>
            requests (fst (quickPredict_onLaunch c la s)) = requests s @ [GetAllMatches]) \<and>
         (refreshingMatches s \<longrightarrow>
            quickPredict_onLaunch c la s = (quickPredict_afterRefresh c s, False) \<and>
            requests (fst (quickPredict_onLaunch c la s)) = requests s) \<and>
         quickPredict_onRefresh c prev rf s1
           = quickPredict_afterRefresh c (refreshMatchesData_onReply prev rf s1) \<and>
         (hasProcessingResult s2 c Quick \<longrightarrow>
            getMatchProcessingType (quickPredict_afterRefresh c s2) c = None \<and>
            map_of (quickPredictionTimers (quickPredict_afterRefresh c s2)) c = None \<and>
            nextTimerId (quickPredict_afterRefresh c s2) = nextTimerId s2 \<and>
            (\<forall>i. map_of (timers (quickPredict_afterRefresh c s2)) i
                  = (if map_of (quickPredictionTimers s2) c = Some i then None
                     else map_of (timers s2) i))) \<and>
         (\<not> hasProcessingResult s2 c Quick \<longrightarrow>
            processingStates (quickPredict_afterRefresh c s2) = processingStates s2 \<and>
            map_of (quickPredictionTimers (quickPredict_afterRefresh c s2)) c = Some (nextTimerId s2) \<and>
            map_of (timers (quickPredict_afterRefresh c s2)) (nextTimerId s2)
              = Some (5000, LoopTick \<lparr> lc_matchCode = c, lc_type = Quick, lc_attemptsLimit = 5,
                                        lc_interval = 5000, lc_attempts = 0 \<rparr>)) \<and>
         requests (deepAnalysis_onLaunch c la s) = requests s \<and>
         state (deepAnalysis_onLaunch c la s) = state s \<and>
         processingStates (deepAnalysis_onLaunch c la s) = processingStates s \<and>
         (map_of (quickPredictionTimers s) c \<noteq> Some (nextTimerId s) \<longrightarrow>
            map_of (timers (deepAnalysis_onLaunch c la s)) (nextTimerId s) = Some (5000, DelayedRefresh)) \<and>
         map_of (quickPredictionTimers (deepAnalysis_onLaunch c la s)) c = Some (Suc (nextTimerId s)) \<and>
         map_of (timers (deepAnalysis_onLaunch c la s)) (Suc (nextTimerId s))
           = Some (10000, LoopTick \<lparr> lc_matchCode = c, lc_type = Deep, lc_attemptsLimit = 24,
                                      lc_interval = 10000, lc_attempts = 0 \<rparr>)"
proof -
  have quick: "quickPredict_onLaunch c la s =
           (if refreshingMatches s then (quickPredict_afterRefresh c s, False)
            else (loadMergedData_begin (s\<lparr> refreshingMatches := True \<rparr>), True))"
    using assms by (rule quickPredict_onLaunch_success)
  have a: "\<not> refreshingMatches s \<longrightarrow>
            quickPredict_onLaunch c la s = (loadMergedData_begin (s\<lparr> refreshingMatches := True \<rparr>), True) \<and>
            requests (fst (quickPredict_onLaunch c la s)) = requests s @ [GetAllMatches]"
    by (simp add: quick)
  have b: "refreshingMatches s \<longrightarrow>
            quickPredict_onLaunch c la s = (quickPredict_afterRefresh c s, False) \<and>
            requests (fst (quickPredict_onLaunch c la s)) = requests s"
    by (simp add: quick quickPredict_afterRefresh_def)
  have d: "hasProcessingResult s2 c Quick \<longrightarrow>
            getMatchProcessingType (quickPredict_afterRefresh c s2) c = None \<and>
            map_of (quickPredictionTimers (quickPredict_afterRefresh c s2)) c = None \<and>
            nextTimerId (quickPredict_afterRefresh c s2) = nextTimerId s2 \<and>
            (\<forall>i. map_of (timers (quickPredict_afterRefresh c s2)) i
                  = (if map_of (quickPredictionTimers s2) c = Some i then None
                     else map_of (timers s2) i))"
    by (simp add: quickPredict_afterRefresh_confirmed getMatchProcessingType_def delete_conv'
        split: option.splits)
  have e: "\<not> hasProcessingResult s2 c Quick \<longrightarrow>
            processingStates (quickPredict_afterRefresh c s2) = processingStates s2 \<and>
            map_of (quickPredictionTimers (quickPredict_afterRefresh c s2)) c = Some (nextTimerId s2) \<and>
            map_of (timers (quickPredict_afterRefresh c s2)) (nextTimerId s2)
              = Some (5000, LoopTick \<lparr> lc_matchCode = c, lc_type = Quick, lc_attemptsLimit = 5,
                                        lc_interval = 5000, lc_attempts = 0 \<rparr>)"
    by (simp add: quickPredict_afterRefresh_unconfirmed update_conv')
  have f: "requests (deepAnalysis_onLaunch c la s) = requests s \<and>
         state (deepAnalysis_onLaunch c la s) = state s \<and>
         processingStates (deepAnalysis_onLaunch c la s) = processingStates s \<and>
         (map_of (quickPredictionTimers s) c \<noteq> Some (nextTimerId s) \<longrightarrow>
            map_of (timers (deepAnalysis_onLaunch c la s)) (nextTimerId s) = Some (5000, DelayedRefresh)) \<and>
         map_of (quickPredictionTimers (deepAnalysis_onLaunch c la s)) c = Some (Suc (nextTimerId s)) \<and>
         map_of (timers (deepAnalysis_onLaunch c la s)) (Suc (nextTimerId s))
           = Some (10000, LoopTick \<lparr> lc_matchCode = c, lc_type = Deep, lc_attemptsLimit = 24,
                                      lc_interval = 10000, lc_attempts = 0 \<rparr>)"
    by (simp add: deepAnalysis_onLaunch_success [OF assms] update_conv' delete_conv'
        split: option.splits)
  have g: "quickPredict_onRefresh c prev rf s1
           = quickPredict_afterRefresh c (refreshMatchesData_onReply prev rf s1)"
    by (simp add: quickPredict_onRefresh_def)
  from a b d e f g show ?thesis by blast
qed

lemma quickPredictSingleMatch_run:
  assumes "gatePasses Quick st" and "launchSucceeds la" and "\<not> refreshingMatches s"
  shows "quickPredictSingleMatch c st la rf s =
           quickPredict_afterRefresh c
             (refreshMatchesData_onReply (selectedDate (state s)) rf
                (loadMergedData_begin
                   ((send (PostQuickPredict c)
                       (setMatchProcessing c (Some Quick) (send (GetPredictionStatus c) s)))
                      \<lparr> refreshingMatches := True \<rparr>)))"
  using assms(3)
  by (simp add: quickPredictSingleMatch_def quickPredict_begin_def
      quickPredict_onStatus_pass [OF assms(1)] quickPredict_onLaunch_success [OF assms(2)]
      quickPredict_onRefresh_def)

lemma deepAnalysisSingleMatch_run:
  assumes "gatePasses Deep st" and "launchSucceeds la"
  shows "deepAnalysisSingleMatch c st la s =
           scheduleProcessingRefresh c Deep (Some 24) (Some 10000)
             (snd (setTimeout DelayedRefresh 5000
                (send (PostDeepAnalysis c)
                   (setMatchProcessing c (Some Deep) (send (GetPredictionStatus c) s)))))"
  by (simp add: deepAnalysisSingleMatch_def deepAnalysis_begin_def
      deepAnalysis_onStatus_pass [OF assms(1)] deepAnalysis_onLaunch_success [OF assms(2)])

lemma sample_replies:
  "gatePasses Quick eligibleStatus" "gatePasses Deep eligibleStatus" "launchSucceeds successReply"
  by (simp_all add: gatePasses_def launchSucceeds_def eligibleStatus_def successReply_def parsedData_def)

lemma loadMergedData_onResult_idle:
  assumes "processingStates s = []"
  shows "processingStates (loadMergedData_onResult prev res s) = []"
    and "quickPredictionTimers (loadMergedData_onResult prev res s) = quickPredictionTimers s"
    and "timers (loadMergedData_onResult prev res s) = timers s"
proof -
  have "processingStates (loadMergedData_onResult prev res s) = [] \<and>
        quickPredictionTimers (loadMergedData_onResult prev res s) = quickPredictionTimers s \<and>
        timers (loadMergedData_onResult prev res s) = timers s"
  proof (cases "status res = ''success''")
    case True
    from loadMergedData_onResult_sweep [OF True, where prev = prev and s = s] assms
    show ?thesis by auto
  next
    case False
    then show ?thesis by (simp add: loadMergedData_onResult_error assms)
  qed
  then show "processingStates (loadMergedData_onResult prev res s) = []"
    and "quickPredictionTimers (loadMergedData_onResult prev res s) = quickPredictionTimers s"
    and "timers (loadMergedData_onResult prev res s) = timers s"
    by simp_all
qed

lemma loadedManager_fields:
  "requests (loadedManager ms) = []" "\<not> refreshingMatches (loadedManager ms)"
  "nextTimerId (loadedManager ms) = 1" "processingStates (loadedManager ms) = []"
  "quickPredictionTimers (loadedManager ms) = []" "timers (loadedManager ms) = []"
  "matches (state (loadedManager ms)) = filter (\<lambda>m. \<not> is_completed m) ms"
  "results (state (loadedManager ms)) = filter (\<lambda>m. is_completed m) ms"
proof -
  have idle: "processingStates newManager = []" by (simp add: newManager_def)
  show "requests (loadedManager ms) = []" "\<not> refreshingMatches (loadedManager ms)"
    "nextTimerId (loadedManager ms) = 1"
    by (simp_all add: loadedManager_def newManager_def)
  show "processingStates (loadedManager ms) = []"
    "quickPredictionTimers (loadedManager ms) = []" "timers (loadedManager ms) = []"
    unfolding loadedManager_def loadMergedData_onResult_idle [OF idle]
    by (simp_all add: newManager_def)
  show "matches (state (loadedManager ms)) = filter (\<lambda>m. \<not> is_completed m) ms"
    "results (state (loadedManager ms)) = filter (\<lambda>m. is_completed m) ms"
    by (simp_all add: loadedManager_def loadMergedData_onResult_data fetchAllMatches_allMatchesReply)
qed

theorem launch_success_paths_witness:
  "launchSucceeds successReply \<and>
   \<not> refreshingMatches quickLaunched \<and>
   requests (fst (quickPredict_onLaunch ''A001'' successReply quickLaunched))
     = [GetPredictionStatus ''A001'', PostQuickPredict ''A001'', GetAllMatches] \<and>
   refreshingMatches (quickLaunched\<lparr> refreshingMatches := True \<rparr>) \<and>
   \<not> snd (quickPredict_onLaunch ''A001'' successReply (quickLaunched\<lparr> refreshingMatches := True \<rparr>)) \<and>
   hasProcessingResult quickRefreshed ''A001'' Quick \<and>
   getMatchProcessingType (quickPredict_afterRefresh ''A001'' quickRefreshed) ''A001'' = None \<and>
   nextTimerId (quickPredict_afterRefresh ''A001'' quickRefreshed) = nextTimerId quickRefreshed \<and>
   \<not> hasProcessingResult quickUnconfirmed ''A001'' Quick \<and>
   map_of (quickPredictionTimers (quickPredict_afterRefresh ''A001'' quickUnconfirmed)) ''A001''
     = Some (nextTimerId quickUnconfirmed) \<and>
   map_of (quickPredictionTimers quickLaunched) ''A001'' \<noteq> Some (nextTimerId quickLaunched) \<and>
   map_of (timers (deepAnalysis_onLaunch ''A001'' successReply quickLaunched)) (nextTimerId quickLaunched)
     = Some (5000, DelayedRefresh)"
proof -
  have la: "launchSucceeds successReply" by (rule sample_replies)
  have ql: "quickLaunched = send (PostQuickPredict ''A001'')
      (setMatchProcessing ''A001'' (Some Quick) (send (GetPredictionStatus ''A001'') fixtureLoaded))"
    by (simp add: quickLaunched_def quickPredict_begin_def quickPredict_onStatus_pass sample_replies)
  have f: "\<not> refreshingMatches quickLaunched"
      "requests quickLaunched = [GetPredictionStatus ''A001'', PostQuickPredict ''A001'']"
      "map_of (quickPredictionTimers quickLaunched) ''A001'' \<noteq> Some (nextTimerId quickLaunched)"
    by (simp_all add: ql fixtureLoaded_def loadedManager_fields)
  have g: "refreshingMatches (quickLaunched\<lparr> refreshingMatches := True \<rparr>)" by simp
  have a: "hasProcessingResult quickRefreshed ''A001'' Quick"
    unfolding quickRefreshed_def hasProcessingResult_after_refresh
    by (simp add: confirmsAfter_def fetchAllMatches_allMatchesReply confirmsIn_def scoredData_def
        fixture_def)
  have b: "\<not> hasProcessingResult quickUnconfirmed ''A001'' Quick"
    unfolding quickUnconfirmed_def hasProcessingResult_after_refresh
    by (simp add: confirmsAfter_def fetchAllMatches_allMatchesReply confirmsIn_def fixture_def)
  note t1 = launch_success_paths [OF la, where s = quickLaunched and c = "''A001''"
      and ?s2.0 = quickRefreshed]
  note t2 = launch_success_paths [OF la, where s = "quickLaunched\<lparr> refreshingMatches := True \<rparr>"
      and c = "''A001''" and ?s2.0 = quickUnconfirmed]
  from t1 f(1,2) have r1: "requests (fst (quickPredict_onLaunch ''A001'' successReply quickLaunched))
     = [GetPredictionStatus ''A001'', PostQuickPredict ''A001'', GetAllMatches]"
    by simp
  from t2 g have r2: "\<not> snd (quickPredict_onLaunch ''A001'' successReply (quickLaunched\<lparr> refreshingMatches := True \<rparr>))"
    by simp
  from t1 a have r3: "getMatchProcessingType (quickPredict_afterRefresh ''A001'' quickRefreshed) ''A001'' = None"
      "nextTimerId (quickPredict_afterRefresh ''A001'' quickRefreshed) = nextTimerId quickRefreshed"
    by blast+
  from t2 b have r4: "map_of (quickPredictionTimers (quickPredict_afterRefresh ''A001'' quickUnconfirmed)) ''A001''
     = Some (nextTimerId quickUnconfirmed)"
    by blast
  from t1 f(3) have r5: "map_of (timers (deepAnalysis_onLaunch ''A001'' successReply quickLaunched)) (nextTimerId quickLaunched)
     = Some (5000, DelayedRefresh)"
    by blast
  from la f(1,3) g a b r1 r2 r3 r4 r5 show ?thesis by blast
qed

text \<open>
  The claim as the specification words it fails for a deep launch: after the job-start
  request succeeded nothing is fetched, and the loop is entered with the processing state
  in place even when the data at hand already shows the deep tag.
\<close>

theorem deep_launch_skips_refresh_counterexample:
  "requests deepLaunched = [GetPredictionStatus ''A001'', PostDeepAnalysis ''A001''] \<and>
   getMatchProcessingType deepLaunched ''A001'' = Some Deep \<and>
   map_of (quickPredictionTimers deepLaunched) ''A001'' = Some 2 \<and>
   map_of (timers deepLaunched) 2
     = Some (10000, LoopTick \<lparr> lc_matchCode = ''A001'', lc_type = Deep, lc_attemptsLimit = 24,
                                lc_interval = 10000, lc_attempts = 0 \<rparr>) \<and>
   hasProcessingResult
     (deepAnalysisSingleMatch ''A001'' eligibleStatus successReply deepTaggedLoaded) ''A001'' Deep \<and>
   getMatchProcessingType
     (deepAnalysisSingleMatch ''A001'' eligibleStatus successReply deepTaggedLoaded) ''A001'' = Some Deep \<and>
   map_of (quickPredictionTimers
     (deepAnalysisSingleMatch ''A001'' eligibleStatus successReply deepTaggedLoaded)) ''A001'' = Some 2"
proof -
  have run: "\<And>s. deepAnalysisSingleMatch ''A001'' eligibleStatus successReply s =
           scheduleProcessingRefresh ''A001'' Deep (Some 24) (Some 10000)
             (snd (setTimeout DelayedRefresh 5000
                (send (PostDeepAnalysis ''A001'')
                   (setMatchProcessing ''A001'' (Some Deep) (send (GetPredictionStatus ''A001'') s)))))"
    by (rule deepAnalysisSingleMatch_run) (rule sample_replies)+
  have tagged: "hasProcessingResult
     (deepAnalysisSingleMatch ''A001'' eligibleStatus successReply deepTaggedLoaded) ''A001'' Deep"
    unfolding run hasProcessingResult_def getMatchData_def
    by (simp add: deepTaggedLoaded_def loadedManager_fields fixture_def)
  show ?thesis
    using tagged
    by (simp add: deepLaunched_def fixtureLoaded_def deepTaggedLoaded_def run loadedManager_fields
        getMatchProcessingType_def update_conv')
qed


subsection \<open>The self-healing loop\<close>

lemma confirmsAfter_replyConfirms:
  "confirmsAfter reply s c t =
     (if status (fetchAllMatches False (NetworkFailure []) reply) = ''success''
      then replyConfirms reply c t else hasProcessingResult s c t)"
  by (simp add: confirmsAfter_def replyConfirms_def Let_def)

lemma hasProcessingResult_setMatchProcessing [simp]:
  "hasProcessingResult (setMatchProcessing c x s) c' t = hasProcessingResult s c' t"
  by (cases x) (simp_all add: hasProcessingResult_def getMatchData_def)

lemma loop_afterRefresh_unconfirmed:
  assumes "\<not> hasProcessingResult s (lc_matchCode loop) (lc_type loop)"
  shows "loop_afterRefresh loop s =
     (if lc_attempts loop \<ge> lc_attemptsLimit loop then setMatchProcessing (lc_matchCode loop) None s
      else (snd (setTimeout (LoopTick loop) (lc_interval loop) s))
             \<lparr> quickPredictionTimers :=
                  AList.update (lc_matchCode loop) (nextTimerId s) (quickPredictionTimers s) \<rparr>)"
  using assms by (simp add: loop_afterRefresh_def split_beta)

lemma loop_tick_unconfirmed:
  assumes "\<not> hasProcessingResult s (lc_matchCode loop) (lc_type loop)"
    and "\<not> replyConfirms reply (lc_matchCode loop) (lc_type loop)"
  shows "\<exists>sx. \<not> hasProcessingResult sx (lc_matchCode loop) (lc_type loop) \<and>
              loop_tick loop reply s = loop_afterRefresh (loop\<lparr> lc_attempts := lc_attempts loop + 1 \<rparr>) sx"
proof (cases "refreshingMatches s")
  case True
  then have "loop_tick loop reply s = loop_afterRefresh (loop\<lparr> lc_attempts := lc_attempts loop + 1 \<rparr>) s"
    by (simp add: loop_tick_def loop_begin_def refreshMatchesData_begin_def Let_def)
  with assms(1) show ?thesis by blast
next
  case False
  let ?pre = "loadMergedData_begin (s\<lparr> refreshingMatches := True \<rparr>)"
  let ?sx = "refreshMatchesData_onReply (selectedDate (state s)) reply ?pre"
  have run: "loop_tick loop reply s = loop_afterRefresh (loop\<lparr> lc_attempts := lc_attempts loop + 1 \<rparr>) ?sx"
    using False by (simp add: loop_tick_def loop_begin_def refreshMatchesData_begin_def loop_onReply_def Let_def)
  have "hasProcessingResult ?pre (lc_matchCode loop) (lc_type loop)
      = hasProcessingResult s (lc_matchCode loop) (lc_type loop)"
    by (rule hasProcessingResult_state) simp
  then have "\<not> hasProcessingResult ?sx (lc_matchCode loop) (lc_type loop)"
    using assms by (simp add: hasProcessingResult_after_refresh confirmsAfter_replyConfirms)
  with run show ?thesis by blast
qed

lemma runLoop_unregistered:
  assumes "map_of (quickPredictionTimers s) c = None"
  shows "snd (runLoop c envs s) = 0 \<and>
         processingStates (fst (runLoop c envs s)) = processingStates s \<and>
         quickPredictionTimers (fst (runLoop c envs s)) = quickPredictionTimers s"
proof (cases envs)
  case Nil
  then show ?thesis by simp
next
  case (Cons e es)
  obtain latchReset reply where e: "e = (latchReset, reply)" by (cases e)
  show ?thesis
    using assms unfolding Cons e by (simp add: Let_def)
qed

lemma runLoop_fires:
  assumes "map_of (quickPredictionTimers s) c = Some i"
    and "map_of (timers s) i = Some (d, LoopTick loop)"
  shows "runLoop c ((latchReset, reply) # es) s =
     (fst (runLoop c es (loop_tick loop reply
        ((if latchReset then resetRefreshing s else s)\<lparr> timers := AList.delete i (timers s) \<rparr>))),
      Suc (snd (runLoop c es (loop_tick loop reply
        ((if latchReset then resetRefreshing s else s)\<lparr> timers := AList.delete i (timers s) \<rparr>)))))"
  using assms by (simp add: Let_def fireTimer_def split_beta)

lemma runLoop_count:
  assumes "map_of (quickPredictionTimers s) c = Some i"
    and "map_of (timers s) i = Some (d, LoopTick loop)"
    and "lc_matchCode loop = c"
    and "lc_attempts loop < lc_attemptsLimit loop"
    and "\<not> hasProcessingResult s c (lc_type loop)"
    and "list_all (\<lambda>e. \<not> replyConfirms (snd e) c (lc_type loop)) envs"
  shows "(lc_attemptsLimit loop - lc_attempts loop \<le> length envs \<longrightarrow>
            snd (runLoop c envs s) = lc_attemptsLimit loop - lc_attempts loop \<and>
            map_of (processingStates (fst (runLoop c envs s))) c = None \<and>
            map_of (quickPredictionTimers (fst (runLoop c envs s))) c = None) \<and>
         (length envs < lc_attemptsLimit loop - lc_attempts loop \<longrightarrow>
            snd (runLoop c envs s) = length envs \<and>
            (\<exists>i' d'. map_of (quickPredictionTimers (fst (runLoop c envs s))) c = Some i' \<and>
                     map_of (timers (fst (runLoop c envs s))) i'
                       = Some (d', LoopTick (loop\<lparr> lc_attempts := lc_attempts loop + length envs \<rparr>))))"
  using assms
proof (induction envs arbitrary: s i d loop)
  case Nil
  then show ?case by auto
next
  case (Cons e es)
  obtain latchReset reply where e: "e = (latchReset, reply)" by (cases e)
  let ?s1 = "(if latchReset then resetRefreshing s else s)\<lparr> timers := AList.delete i (timers s) \<rparr>"
  let ?loop1 = "loop\<lparr> lc_attempts := lc_attempts loop + 1 \<rparr>"
  let ?s2 = "loop_tick loop reply ?s1"
  have fires: "runLoop c (e # es) s = (fst (runLoop c es ?s2), Suc (snd (runLoop c es ?s2)))"
    unfolding e using Cons.prems(1,2) by (rule runLoop_fires)
  have "hasProcessingResult ?s1 c (lc_type loop) = hasProcessingResult s c (lc_type loop)"
    by (rule hasProcessingResult_state) simp
  with Cons.prems(5) have nh1: "\<not> hasProcessingResult ?s1 (lc_matchCode loop) (lc_type loop)"
    by (simp add: Cons.prems(3))
  from Cons.prems(6) have nr: "\<not> replyConfirms reply (lc_matchCode loop) (lc_type loop)"
      and rest: "list_all (\<lambda>e. \<not> replyConfirms (snd e) c (lc_type loop)) es"
    by (simp_all add: e Cons.prems(3))
  from loop_tick_unconfirmed [OF nh1 nr]
  obtain sx where sx: "\<not> hasProcessingResult sx (lc_matchCode loop) (lc_type loop)"
      and tick: "?s2 = loop_afterRefresh ?loop1 sx"
    by blast
  from sx have sx1: "\<not> hasProcessingResult sx (lc_matchCode ?loop1) (lc_type ?loop1)" by simp
  show ?case
  proof (cases "lc_attemptsLimit loop \<le> lc_attempts loop + 1")
    case True
    with Cons.prems(4) have one: "lc_attemptsLimit loop - lc_attempts loop = 1" by simp
    have s2: "?s2 = setMatchProcessing c None sx"
      unfolding tick loop_afterRefresh_unconfirmed [OF sx1] using True by (simp add: Cons.prems(3))
    have "map_of (quickPredictionTimers ?s2) c = None"
      unfolding s2 by (simp add: delete_conv')
    from runLoop_unregistered [OF this, of es]
    have "snd (runLoop c es ?s2) = 0"
      and "map_of (processingStates (fst (runLoop c es ?s2))) c = None"
      and "map_of (quickPredictionTimers (fst (runLoop c es ?s2))) c = None"
      unfolding s2 by (simp_all add: delete_conv')
    then show ?thesis
      unfolding fires one by simp
  next
    case False
    then have more: "lc_attempts ?loop1 < lc_attemptsLimit ?loop1" by simp
    have s2: "?s2 = (snd (setTimeout (LoopTick ?loop1) (lc_interval loop) sx))
             \<lparr> quickPredictionTimers := AList.update c (nextTimerId sx) (quickPredictionTimers sx) \<rparr>"
      unfolding tick loop_afterRefresh_unconfirmed [OF sx1] using False by (simp add: Cons.prems(3))
    have reg2: "map_of (quickPredictionTimers ?s2) c = Some (nextTimerId sx)"
      and pend2: "map_of (timers ?s2) (nextTimerId sx) = Some (lc_interval loop, LoopTick ?loop1)"
      unfolding s2 by (simp_all add: update_conv')
    have "hasProcessingResult ?s2 c (lc_type loop) = hasProcessingResult sx c (lc_type loop)"
      unfolding s2 by (rule hasProcessingResult_state) simp
    with sx have nh2: "\<not> hasProcessingResult ?s2 c (lc_type ?loop1)"
      by (simp add: Cons.prems(3))
    have code2: "lc_matchCode ?loop1 = c" by (simp add: Cons.prems(3))
    have rest2: "list_all (\<lambda>e. \<not> replyConfirms (snd e) c (lc_type ?loop1)) es"
      using rest by simp
    note ih = Cons.IH [OF reg2 pend2 code2 more nh2 rest2]
    have upd: "?loop1\<lparr> lc_attempts := lc_attempts ?loop1 + length es \<rparr>
        = loop\<lparr> lc_attempts := lc_attempts loop + length (e # es) \<rparr>"
      by simp
    show ?thesis
    proof (intro conjI impI)
      assume "lc_attemptsLimit loop - lc_attempts loop \<le> length (e # es)"
      then have "lc_attemptsLimit ?loop1 - lc_attempts ?loop1 \<le> length es"
        using False by simp
      with ih have "snd (runLoop c es ?s2) = lc_attemptsLimit ?loop1 - lc_attempts ?loop1"
        and p: "map_of (processingStates (fst (runLoop c es ?s2))) c = None"
        and q: "map_of (quickPredictionTimers (fst (runLoop c es ?s2))) c = None"
        by blast+
      then show "snd (runLoop c (e # es) s) = lc_attemptsLimit loop - lc_attempts loop"
        unfolding fires using False by simp
      from p show "map_of (processingStates (fst (runLoop c (e # es) s))) c = None"
        unfolding fires by simp
      from q show "map_of (quickPredictionTimers (fst (runLoop c (e # es) s))) c = None"
        unfolding fires by simp
    next
      assume "length (e # es) < lc_attemptsLimit loop - lc_attempts loop"
      then have "length es < lc_attemptsLimit ?loop1 - lc_attempts ?loop1"
        by simp
      with ih have n: "snd (runLoop c es ?s2) = length es"
        and x: "\<exists>i' d'. map_of (quickPredictionTimers (fst (runLoop c es ?s2))) c = Some i' \<and>
                     map_of (timers (fst (runLoop c es ?s2))) i'
                       = Some (d', LoopTick (?loop1\<lparr> lc_attempts := lc_attempts ?loop1 + length es \<rparr>))"
        by blast+
      from n show "snd (runLoop c (e # es) s) = length (e # es)"
        unfolding fires by simp
      from x show "\<exists>i' d'. map_of (quickPredictionTimers (fst (runLoop c (e # es) s))) c = Some i' \<and>
                     map_of (timers (fst (runLoop c (e # es) s))) i'
                       = Some (d', LoopTick (loop\<lparr> lc_attempts := lc_attempts loop + length (e # es) \<rparr>))"
        unfolding fires upd by simp
    qed
  qed
qed

lemma runLoop_after_schedule:
  assumes "\<not> hasProcessingResult s c t"
    and "list_all (\<lambda>e. \<not> replyConfirms (snd e) c t) envs"
    and "0 < limit"
  shows "(limit \<le> length envs \<longrightarrow>
            snd (runLoop c envs (scheduleProcessingRefresh c t (Some limit) iv s)) = limit \<and>
            getMatchProcessingType (fst (runLoop c envs (scheduleProcessingRefresh c t (Some limit) iv s))) c = None \<and>
            map_of (quickPredictionTimers
              (fst (runLoop c envs (scheduleProcessingRefresh c t (Some limit) iv s)))) c = None) \<and>
         (length envs < limit \<longrightarrow>
            snd (runLoop c envs (scheduleProcessingRefresh c t (Some limit) iv s)) = length envs \<and>
            map_of (quickPredictionTimers
              (fst (runLoop c envs (scheduleProcessingRefresh c t (Some limit) iv s)))) c \<noteq> None)"
proof -
  let ?s1 = "scheduleProcessingRefresh c t (Some limit) iv s"
  let ?loop = "\<lparr> lc_matchCode = c, lc_type = t, lc_attemptsLimit = limit,
      lc_interval = (case iv of Some n \<Rightarrow> n | None \<Rightarrow> if t = Deep then 10000 else 5000),
      lc_attempts = 0 \<rparr>"
  have reg: "map_of (quickPredictionTimers ?s1) c = Some (nextTimerId s)"
    and pend: "map_of (timers ?s1) (nextTimerId s)
      = Some ((case iv of Some n \<Rightarrow> n | None \<Rightarrow> if t = Deep then 10000 else 5000), LoopTick ?loop)"
    by (simp_all add: update_conv')
  have "hasProcessingResult ?s1 c t = hasProcessingResult s c t"
    by (rule hasProcessingResult_state) simp
  with assms(1) have nh: "\<not> hasProcessingResult ?s1 c (lc_type ?loop)" by simp
  have code: "lc_matchCode ?loop = c" and lt: "lc_attempts ?loop < lc_attemptsLimit ?loop"
    and nr: "list_all (\<lambda>e. \<not> replyConfirms (snd e) c (lc_type ?loop)) envs"
    using assms(2,3) by simp_all
  from runLoop_count [OF reg pend code lt nh nr]
  show ?thesis
    by (auto simp: getMatchProcessingType_def)
qed

lemma scheduleProcessingRefresh_default_quick:
  "scheduleProcessingRefresh c Quick None None s = scheduleProcessingRefresh c Quick (Some 5) None s"
  by (simp add: scheduleProcessingRefresh_def)

text \<open>
  Claim C3. A self-healing loop whose confirmation predicate never becomes true (it is
  false in the data at hand and in the data of every reply) runs exactly as many ticks as
  its limit and then clears the processing state and the registered timer of the code:
  5 ticks for the loop a quick launch enters, 24 for the loop a deep launch enters. Given
  fewer ticks than the limit, the loop has run them all and its next tick is still
  registered. Every tick ends in a state; none raises an error.
\<close>

theorem self_healing_loop_stops_at_limit:
  "(\<not> hasProcessingResult s c Quick \<and> list_all (\<lambda>e. \<not> replyConfirms (snd e) c Quick) envs \<longrightarrow>
      (5 \<le> length envs \<longrightarrow>
         snd (runLoop c envs (quickPredict_afterRefresh c s)) = 5 \<and>
         getMatchProcessingType (fst (runLoop c envs (quickPredict_afterRefresh c s))) c = None \<and>
         map_of (quickPredictionTimers (fst (runLoop c envs (quickPredict_afterRefresh c s)))) c = None) \<and>
      (length envs < 5 \<longrightarrow>
         snd (runLoop c envs (quickPredict_afterRefresh c s)) = length envs \<and>
         map_of (quickPredictionTimers (fst (runLoop c envs (quickPredict_afterRefresh c s)))) c \<noteq> None)) \<and>
   (launchSucceeds la \<and> \<not> hasProcessingResult s c Deep \<and>
    list_all (\<lambda>e. \<not> replyConfirms (snd e) c Deep) envs \<longrightarrow>
      (24 \<le> length envs \<longrightarrow>
         snd (runLoop c envs (deepAnalysis_onLaunch c la s)) = 24 \<and>
         getMatchProcessingType (fst (runLoop c envs (deepAnalysis_onLaunch c la s))) c = None \<and>
         map_of (quickPredictionTimers (fst (runLoop c envs (deepAnalysis_onLaunch c la s)))) c = None) \<and>
      (length envs < 24 \<longrightarrow>
         snd (runLoop c envs (deepAnalysis_onLaunch c la s)) = length envs \<and>
         map_of (quickPredictionTimers (fst (runLoop c envs (deepAnalysis_onLaunch c la s)))) c \<noteq> None))"
proof (intro conjI impI; (elim conjE)?)
  assume nh: "\<not> hasProcessingResult s c Quick"
    and nr: "list_all (\<lambda>e. \<not> replyConfirms (snd e) c Quick) envs"
  have eq: "quickPredict_afterRefresh c s = scheduleProcessingRefresh c Quick (Some 5) None s"
    using nh by (simp add: quickPredict_afterRefresh_unconfirmed scheduleProcessingRefresh_default_quick)
  note r = runLoop_after_schedule [OF nh nr, of 5 None, folded eq]
  {
    assume "5 \<le> length envs"
    with r show "snd (runLoop c envs (quickPredict_afterRefresh c s)) = 5"
      and "getMatchProcessingType (fst (runLoop c envs (quickPredict_afterRefresh c s))) c = None"
      and "map_of (quickPredictionTimers (fst (runLoop c envs (quickPredict_afterRefresh c s)))) c = None"
      by simp_all
  }
  {
    assume "length envs < 5"
    with r show "snd (runLoop c envs (quickPredict_afterRefresh c s)) = length envs"
      and "map_of (quickPredictionTimers (fst (runLoop c envs (quickPredict_afterRefresh c s)))) c \<noteq> None"
      by simp_all
  }
next
  assume la: "launchSucceeds la" and nh: "\<not> hasProcessingResult s c Deep"
    and nr: "list_all (\<lambda>e. \<not> replyConfirms (snd e) c Deep) envs"
  let ?s0 = "snd (setTimeout DelayedRefresh 5000 s)"
  have eq: "deepAnalysis_onLaunch c la s = scheduleProcessingRefresh c Deep (Some 24) (Some 10000) ?s0"
    using la by (rule deepAnalysis_onLaunch_success)
  have "hasProcessingResult ?s0 c Deep = hasProcessingResult s c Deep"
    by (rule hasProcessingResult_state) simp
  with nh have nh0: "\<not> hasProcessingResult ?s0 c Deep" by simp
  note r = runLoop_after_schedule [OF nh0 nr, of 24 "Some 10000", folded eq]
  {
    assume "24 \<le> length envs"
    with r show "snd (runLoop c envs (deepAnalysis_onLaunch c la s)) = 24"
      and "getMatchProcessingType (fst (runLoop c envs (deepAnalysis_onLaunch c la s))) c = None"
      and "map_of (quickPredictionTimers (fst (runLoop c envs (deepAnalysis_onLaunch c la s)))) c = None"
      by simp_all
  }
  {
    assume "length envs < 24"
    with r show "snd (runLoop c envs (deepAnalysis_onLaunch c la s)) = length envs"
      and "map_of (quickPredictionTimers (fst (runLoop c envs (deepAnalysis_onLaunch c la s)))) c \<noteq> None"
      by simp_all
  }
qed

theorem self_healing_loop_stops_at_limit_witness:
  "\<not> hasProcessingResult fixtureLoaded ''A001'' Quick \<and>
   \<not> hasProcessingResult fixtureLoaded ''A001'' Deep \<and>
   list_all (\<lambda>e. \<not> replyConfirms (snd e) ''A001'' Quick) (unconfirmedTicks 5) \<and>
   list_all (\<lambda>e. \<not> replyConfirms (snd e) ''A001'' Deep) (offlineTicks 30) \<and>
   launchSucceeds successReply \<and>
   snd (runLoop ''A001'' (unconfirmedTicks 5) (quickPredict_afterRefresh ''A001'' fixtureLoaded)) = 5 \<and>
   getMatchProcessingType
     (fst (runLoop ''A001'' (unconfirmedTicks 5) (quickPredict_afterRefresh ''A001'' fixtureLoaded)))
     ''A001'' = None \<and>
   snd (runLoop ''A001'' (unconfirmedTicks 3) (quickPredict_afterRefresh ''A001'' fixtureLoaded)) = 3 \<and>
   snd (runLoop ''A001'' (offlineTicks 30) (deepAnalysis_onLaunch ''A001'' successReply fixtureLoaded)) = 24 \<and>
   snd (runLoop ''A001'' (offlineTicks 23) (deepAnalysis_onLaunch ''A001'' successReply fixtureLoaded)) = 23"
proof -
  have nq: "\<not> hasProcessingResult fixtureLoaded ''A001'' Quick"
    and nd: "\<not> hasProcessingResult fixtureLoaded ''A001'' Deep"
    unfolding hasProcessingResult_def getMatchData_def fixtureLoaded_def loadedManager_fields
    by (simp_all add: fixture_def)
  have rq: "\<not> replyConfirms (allMatchesReply [fixture ''A001'' False (Some ''2024-11-04'')]) ''A001'' Quick"
    by (simp add: replyConfirms_def fetchAllMatches_allMatchesReply confirmsIn_def fixture_def)
  have rd: "\<not> replyConfirms (NetworkFailure ''Failed to fetch'') ''A001'' Deep"
    by (simp add: replyConfirms_def fetchAllMatches_def fetchAllMatches_try_def thenE_def
        awaitFetch_def errorResult_def)
  have lq: "\<And>n. list_all (\<lambda>e. \<not> replyConfirms (snd e) ''A001'' Quick) (unconfirmedTicks n)"
    using rq by (simp add: unconfirmedTicks_def list_all_iff)
  have ld: "\<And>n. list_all (\<lambda>e. \<not> replyConfirms (snd e) ''A001'' Deep) (offlineTicks n)"
    using rd by (simp add: offlineTicks_def list_all_iff)
  have la: "launchSucceeds successReply" by (rule sample_replies)
  have len: "length (unconfirmedTicks 5) = 5" "length (unconfirmedTicks 3) = 3"
      "length (offlineTicks 30) = 30" "length (offlineTicks 23) = 23"
    by (simp_all add: unconfirmedTicks_def offlineTicks_def)
  from self_healing_loop_stops_at_limit [of fixtureLoaded "''A001''" "unconfirmedTicks 5" successReply]
    nq lq len
  have a: "snd (runLoop ''A001'' (unconfirmedTicks 5) (quickPredict_afterRefresh ''A001'' fixtureLoaded)) = 5"
    "getMatchProcessingType
      (fst (runLoop ''A001'' (unconfirmedTicks 5) (quickPredict_afterRefresh ''A001'' fixtureLoaded)))
      ''A001'' = None"
    by simp_all
  from self_healing_loop_stops_at_limit [of fixtureLoaded "''A001''" "unconfirmedTicks 3" successReply]
    nq lq len
  have b: "snd (runLoop ''A001'' (unconfirmedTicks 3) (quickPredict_afterRefresh ''A001'' fixtureLoaded)) = 3"
    by simp
  from self_healing_loop_stops_at_limit [of fixtureLoaded "''A001''" "offlineTicks 30" successReply]
    la nd ld len
  have c: "snd (runLoop ''A001'' (offlineTicks 30) (deepAnalysis_onLaunch ''A001'' successReply fixtureLoaded)) = 24"
    by simp
  from self_healing_loop_stops_at_limit [of fixtureLoaded "''A001''" "offlineTicks 23" successReply]
    la nd ld len
  have d: "snd (runLoop ''A001'' (offlineTicks 23) (deepAnalysis_onLaunch ''A001'' successReply fixtureLoaded)) = 23"
    by simp
  from nq nd lq ld la a b c d show ?thesis by simp
qed

subsection \<open>Timers per code\<close>

text \<open>
  What the bookkeeping of the timers does achieve: clearing the processing state of a code
  cancels the timeout registered for it and empties its registry entry; scheduling a loop
  cancels the timeout registered before (the new handle is a new one); and a tick never
  adds an entry to the processing state.
\<close>

lemma registered_timer_bookkeeping:
  "getMatchProcessingType (setMatchProcessing c None s) c = None"
  "map_of (quickPredictionTimers (setMatchProcessing c None s)) c = None"
  "map_of (quickPredictionTimers s) c = Some i \<Longrightarrow> map_of (timers (setMatchProcessing c None s)) i = None"
  "map_of (quickPredictionTimers s) c = Some i \<Longrightarrow> i \<noteq> nextTimerId s \<Longrightarrow>
     map_of (timers (scheduleProcessingRefresh c t ma iv s)) i = None"
  "map_of (quickPredictionTimers (scheduleProcessingRefresh c t ma iv s)) c = Some (nextTimerId s)"
  "map_of (processingStates (loop_afterRefresh loop s)) c' = None \<or>
   map_of (processingStates (loop_afterRefresh loop s)) c' = map_of (processingStates s) c'"
  by (simp_all add: getMatchProcessingType_def delete_conv' update_conv' loop_afterRefresh_def
      split_beta)

text \<open>
  Claim C7 does not hold of the code. The first half of the claim (at every instant a
  match code has at most one outstanding self-healing timer) fails on the run
  \<open>overlappingLaunches\<close>: a tick that waits for its refresh holds no timeout that
  could be cancelled, so the loop the second launch schedules and the timeout the first
  tick sets when its refresh returns are both pending for \<open>A001\<close> (handles 3 and 5).
  Only handle 5 is registered; clearing the processing state of \<open>A001\<close> afterwards
  cancels that one and leaves handle 3 pending.
\<close>

theorem overlapping_launches_leave_two_timers:
  "(case overlappingLaunches of
      None \<Rightarrow> False
    | Some s \<Rightarrow>
        map_of (timers s) 3
          = Some (5000, LoopTick \<lparr> lc_matchCode = ''A001'', lc_type = Quick, lc_attemptsLimit = 5,
                                    lc_interval = 5000, lc_attempts = 0 \<rparr>) \<and>
        map_of (timers s) 5
          = Some (5000, LoopTick \<lparr> lc_matchCode = ''A001'', lc_type = Quick, lc_attemptsLimit = 5,
                                    lc_interval = 5000, lc_attempts = 1 \<rparr>) \<and>
        map_of (quickPredictionTimers s) ''A001'' = Some 5 \<and>
        getMatchProcessingType s ''A001'' = Some Quick \<and>
        getMatchProcessingType (setMatchProcessing ''A001'' None s) ''A001'' = None \<and>
        map_of (timers (setMatchProcessing ''A001'' None s)) 3
          = Some (5000, LoopTick \<lparr> lc_matchCode = ''A001'', lc_type = Quick, lc_attemptsLimit = 5,
                                    lc_interval = 5000, lc_attempts = 0 \<rparr>))"
  by code_simp

end
